theory Spec2Isabelle
  imports Complex_Main
begin

section \<open>Conventions of the embedding\<close>

text \<open>
  The program is a TypeScript service working on one JSON document (\<open>db.data\<close>).
  JavaScript numbers are modelled as \<^typ>\<open>real\<close>: the rounding of IEEE doubles, \<open>NaN\<close>
  and the infinities are outside the model.  Time stamps (ISO strings in the source) are
  milliseconds since the epoch, as \<open>Date.getTime\<close> reads them.  Row ids drawn from
  \<open>crypto.randomUUID()\<close> are kept where the code reads them again (trades, positions,
  profiles); the ids of ledger, settlement, commission, earning and balance rows are
  written once and never read, and are left out of the rows.
\<close>

type_synonym timestamp = int

text \<open>\<open>Array.prototype.findIndex\<close>: the first index whose element satisfies the test.\<close>

fun findIndex :: "('a \<Rightarrow> bool) \<Rightarrow> 'a list \<Rightarrow> nat option" where
  "findIndex P [] = None"
| "findIndex P (x # xs) =
     (if P x then Some 0 else (case findIndex P xs of None \<Rightarrow> None | Some i \<Rightarrow> Some (Suc i)))"

section \<open>Indicator library\<close>

text \<open>
  \<open>calculateRSI(prices, period)\<close>: the changes between neighbouring prices are split into
  gains and losses; the averages are seeded from the first \<open>period\<close> of them and then
  smoothed; one value is pushed per smoothing step.  The period is at least 1 (the
  default is 14): with a period of 0 the code divides 0 by 0 and every value is \<open>NaN\<close>,
  which the reals do not have, so the results on this function assume \<open>0 < period\<close> or
  name the period.
\<close>

fun changes :: "real list \<Rightarrow> real list" where
  "changes (a # b # rest) = (b - a) # changes (b # rest)"
| "changes _ = []"

definition gains :: "real list \<Rightarrow> real list" where
  "gains prices = map (\<lambda>change. if change > 0 then change else 0) (changes prices)"

definition losses :: "real list \<Rightarrow> real list" where
  "losses prices = map (\<lambda>change. if change < 0 then \<bar>change\<bar> else 0) (changes prices)"

text \<open>The second loop of \<open>calculateRSI\<close>, over the gains and losses from index \<open>period\<close> on.\<close>

fun rsi_loop :: "nat \<Rightarrow> real \<Rightarrow> real \<Rightarrow> (real \<times> real) list \<Rightarrow> real list" where
  "rsi_loop period avgGain avgLoss [] = []"
| "rsi_loop period avgGain avgLoss ((g, l) # rest) =
     (let avgGain' = (avgGain * (real period - 1) + g) / real period;
          avgLoss' = (avgLoss * (real period - 1) + l) / real period;
          rs = (if avgLoss' = 0 then 100 else avgGain' / avgLoss')
      in (100 - 100 / (1 + rs)) # rsi_loop period avgGain' avgLoss' rest)"

definition calculateRSI :: "real list \<Rightarrow> nat \<Rightarrow> real list" where
  "calculateRSI prices period =
     (if length prices < period + 1 then []
      else
        let avgGain = sum_list (take period (gains prices)) / real period;
            avgLoss = sum_list (take period (losses prices)) / real period
        in rsi_loop period avgGain avgLoss
             (drop period (zip (gains prices) (losses prices))))"

text \<open>
  The smoothed averages the loop runs through, one pair per pushed value: the same
  recurrence, kept to state at which output index the average loss is zero.
\<close>

fun smoothed :: "nat \<Rightarrow> real \<Rightarrow> real \<Rightarrow> (real \<times> real) list \<Rightarrow> (real \<times> real) list" where
  "smoothed period avgGain avgLoss [] = []"
| "smoothed period avgGain avgLoss ((g, l) # rest) =
     (let avgGain' = (avgGain * (real period - 1) + g) / real period;
          avgLoss' = (avgLoss * (real period - 1) + l) / real period
      in (avgGain', avgLoss') # smoothed period avgGain' avgLoss' rest)"

definition smoothedAverages :: "real list \<Rightarrow> nat \<Rightarrow> (real \<times> real) list" where
  "smoothedAverages prices period =
     (if length prices < period + 1 then []
      else smoothed period
             (sum_list (take period (gains prices)) / real period)
             (sum_list (take period (losses prices)) / real period)
             (drop period (zip (gains prices) (losses prices))))"

section \<open>Signal analyzer: the RSI block of \<open>analyzeSignal\<close>\<close>

record StrategyIndicators =
  ema_short :: real
  ema_long :: real
  rsi_period :: nat
  rsi_overbought :: real
  rsi_oversold :: real
  macd_fast :: real
  macd_slow :: real
  macd_signal :: real
  volume_multiplier :: real

datatype rsi_state = Oversold | Overbought | Neutral

definition rsiOverbought :: "StrategyIndicators \<Rightarrow> real" where
  "rsiOverbought indicators =
     (if rsi_overbought indicators \<ge> 70 then 75 else rsi_overbought indicators)"

definition rsiOversold :: "StrategyIndicators \<Rightarrow> real" where
  "rsiOversold indicators =
     (if rsi_oversold indicators \<le> 30 then 25 else rsi_oversold indicators)"

text \<open>\<open>currentRSI\<close> is the last computed value, or 50 when there is none.\<close>

definition currentRSI :: "real list \<Rightarrow> real" where
  "currentRSI rsiValues = (if rsiValues = [] then 50 else last rsiValues)"

definition rsi_signal :: "StrategyIndicators \<Rightarrow> real \<Rightarrow> rsi_state" where
  "rsi_signal indicators rsi =
     (if rsi < rsiOversold indicators then Oversold
      else if rsi > rsiOverbought indicators then Overbought
      else Neutral)"

definition default_indicators :: StrategyIndicators where
  "default_indicators =
     \<lparr>ema_short = 12, ema_long = 26, rsi_period = 14, rsi_overbought = 70, rsi_oversold = 30,
      macd_fast = 12, macd_slow = 26, macd_signal = 9, volume_multiplier = 1.5\<rparr>"

section \<open>Data model\<close>

text \<open>
  The tables of \<open>db.data\<close> that the modelled routes touch, with the fields those routes
  read or write.  Optional fields of the TypeScript types are options.
\<close>

record ApiKey =
  ak_user_id :: string
  ak_exchange :: string
  ak_product :: string
  ak_environment :: string
  ak_api_key_encrypted :: string
  ak_api_secret_encrypted :: string
  ak_is_active :: bool

record Trade =
  tr_id :: string
  tr_user_id :: string
  tr_exchange :: string
  tr_environment :: string
  tr_symbol :: string
  tr_side :: string
  tr_order_type :: string
  tr_price :: real
  tr_quantity :: real
  tr_realized_pnl :: "real option"
  tr_status :: string
  tr_order_id :: "string option"
  tr_triggered_by :: "string option"
  tr_created_at :: timestamp

record Profile =
  pf_id :: string
  pf_user_id :: string
  pf_referrer_id :: "string option"

record Position =
  po_id :: string
  po_user_id :: string
  po_symbol :: string
  po_side :: string
  po_size :: real
  po_entry_price :: real
  po_current_price :: "real option"
  po_unrealized_pnl :: real
  po_leverage :: real
  po_stop_loss :: "real option"
  po_take_profit :: "real option"
  po_is_open :: bool
  po_exchange :: string
  po_environment :: string
  po_created_at :: timestamp
  po_updated_at :: timestamp

record GasFeeBalance =
  gb_user_id :: string
  gb_environment :: string
  gb_balance :: real
  gb_total_deposited :: real
  gb_total_deducted :: real
  gb_created_at :: timestamp
  gb_updated_at :: timestamp

datatype transaction_type = deposit | service_fee | refund | demo_deposit | referral_commission

record GasFeeTransaction =
  tx_user_id :: string
  tx_amount :: real
  tx_transaction_type :: transaction_type
  tx_description :: string
  tx_trade_id :: string
  tx_balance_before :: real
  tx_balance_after :: real
  tx_environment :: string
  tx_created_at :: timestamp

record ReferralCommission =
  rc_beneficiary_user_id :: string
  rc_source_user_id :: string
  rc_trade_id :: string
  rc_level :: nat
  rc_gross_profit :: real
  rc_commission_rate :: real
  rc_commission_amount :: real
  rc_status :: string
  rc_created_at :: timestamp
  rc_paid_at :: timestamp

record AdminEarning =
  ae_source_user_id :: string
  ae_trade_id :: string
  ae_gross_profit :: real
  ae_total_service_fee :: real
  ae_referral_commissions_paid :: real
  ae_admin_share :: real
  ae_created_at :: timestamp

record ProfitSettlement =
  ps_user_id :: string
  ps_trade_id :: "string option"
  ps_gross_profit :: real
  ps_service_fee_rate :: real
  ps_service_fee_amount :: real
  ps_net_profit :: real
  ps_created_at :: timestamp

record BotStatus =
  bs_user_id :: string
  bs_is_running :: bool
  bs_environment :: string
  bs_exchange :: "string option"

record WebhookLog =
  wl_user_id :: string
  wl_strategy_id :: string
  wl_source :: string
  wl_order_id :: "string option"
  wl_status :: string
  wl_error_message :: "string option"
  wl_created_at :: timestamp

text \<open>
  A strategy row.  \<open>strategy_config\<close> is a free-form JSON object in the source; the
  model keeps the keys the modelled code reads, each an option that is \<open>None\<close> when the key
  is absent or holds no value of the expected type (for a number: no finite number).
  A session bound is the pair (hours, minutes) read from \<open>HH:MM\<close>, \<open>None\<close> when the text
  is absent or one of the two numbers is not finite.
\<close>

record StrategySettings =
  cf_session_start :: "(real \<times> real) option"
  cf_session_end :: "(real \<times> real) option"
  cf_max_trades_per_day :: "real option"
  cf_max_daily_loss :: "real option"
  cf_max_consecutive_losses :: "real option"
  cf_cooldown_minutes :: "real option"
  cf_use_trailing_stop :: "bool option"
  cf_trailing_stop_callback :: "real option"
  cf_trailing_stop_activation :: "real option"

record StrategyConfig =
  sc_id :: string
  sc_name :: string
  sc_user_id :: string
  sc_exchange :: string
  sc_product :: string
  sc_environment :: string
  sc_auto_signal_interval :: real
  sc_last_signal_at :: "timestamp option"
  sc_default_leverage :: real
  sc_stop_loss_percent :: real
  sc_tp1_percent :: real
  sc_tp2_percent :: real
  sc_tp3_percent :: real
  sc_use_tp1 :: bool
  sc_use_tp2 :: bool
  sc_use_tp3 :: bool
  sc_tp1_close_percent :: real
  sc_tp2_close_percent :: real
  sc_tp3_close_percent :: real
  sc_max_positions :: real
  sc_use_trailing_stop :: bool
  sc_trailing_stop_callback :: real
  sc_strategy_config :: StrategySettings

record db =
  api_keys :: "ApiKey list"
  trading_strategies :: "StrategyConfig list"
  webhook_logs :: "WebhookLog list"
  trades :: "Trade list"
  bot_status :: "BotStatus list"
  profiles :: "Profile list"
  positions :: "Position list"
  gas_fee_balances :: "GasFeeBalance list"
  gas_fee_transactions :: "GasFeeTransaction list"
  referral_commissions :: "ReferralCommission list"
  admin_earnings :: "AdminEarning list"
  profit_settlements :: "ProfitSettlement list"

definition empty_db :: db where
  "empty_db =
     \<lparr>api_keys = [], trading_strategies = [], webhook_logs = [], trades = [], bot_status = [], profiles = [],
      positions = [], gas_fee_balances = [], gas_fee_transactions = [],
      referral_commissions = [], admin_earnings = [], profit_settlements = []\<rparr>"

section \<open>Profit-sharing engine\<close>

definition SERVICE_FEE_RATE :: real where
  "SERVICE_FEE_RATE = 0.3"

definition REFERRAL_RATES :: "real list" where
  "REFERRAL_RATES = [0.005, 0.003, 0.002]"

text \<open>\<open>REFERRAL_RATES[entry.level - 1] || 0\<close>: an index outside the array reads as 0.\<close>

definition referral_rate :: "nat \<Rightarrow> real" where
  "referral_rate level =
     (if 1 \<le> level \<and> level - 1 < length REFERRAL_RATES then REFERRAL_RATES ! (level - 1) else 0)"

text \<open>
  The loop of \<open>getReferralChain\<close>: it runs while the current profile has a non-empty
  \<open>referrer_id\<close> and \<open>level \<le> 3\<close>, and breaks when no profile has that id.
\<close>

function referral_walk :: "Profile list \<Rightarrow> Profile option \<Rightarrow> nat \<Rightarrow> (nat \<times> Profile) list" where
  "referral_walk ps currentProfile level =
     (case currentProfile of
        None \<Rightarrow> []
      | Some cur \<Rightarrow>
          (case pf_referrer_id cur of
             None \<Rightarrow> []
           | Some r \<Rightarrow>
               if r = [] \<or> \<not> level \<le> 3 then []
               else (case find (\<lambda>p. pf_id p = r) ps of
                       None \<Rightarrow> []
                     | Some referrerProfile \<Rightarrow>
                         (level, referrerProfile)
                           # referral_walk ps (Some referrerProfile) (level + 1))))"
  by pat_completeness auto
termination
  by (relation "measure (\<lambda>(ps, cur, level). 4 - level)") auto

declare referral_walk.simps [simp del]

definition getReferralChain :: "db \<Rightarrow> string \<Rightarrow> (nat \<times> Profile) list" where
  "getReferralChain d userId =
     referral_walk (profiles d) (find (\<lambda>p. pf_user_id p = userId) (profiles d)) 1"

text \<open>
  \<open>getOrCreateGasBalance\<close> returns the balance object of (user, environment), pushing a
  zero balance first when there is none.  The object is shared with the table, so the
  model returns its index.
\<close>

definition getOrCreateGasBalance :: "string \<Rightarrow> string \<Rightarrow> timestamp \<Rightarrow> db \<Rightarrow> nat \<times> db" where
  "getOrCreateGasBalance userId environment now d =
     (case findIndex (\<lambda>b. gb_user_id b = userId \<and> gb_environment b = environment)
             (gas_fee_balances d) of
        Some i \<Rightarrow> (i, d)
      | None \<Rightarrow>
          (length (gas_fee_balances d),
           d\<lparr>gas_fee_balances := gas_fee_balances d @
               [\<lparr>gb_user_id = userId, gb_environment = environment, gb_balance = 0,
                 gb_total_deposited = 0, gb_total_deducted = 0,
                 gb_created_at = now, gb_updated_at = now\<rparr>]\<rparr>))"

fun digit_text :: "nat \<Rightarrow> string" where
  "digit_text n = [char_of (48 + n)]"

text \<open>The body of the loop over the referral chain; the accumulator is \<open>totalReferralPaid\<close>.\<close>

definition pay_commission ::
  "string \<Rightarrow> string \<Rightarrow> real \<Rightarrow> string \<Rightarrow> timestamp \<Rightarrow> nat \<times> Profile \<Rightarrow> db \<times> real \<Rightarrow> db \<times> real" where
  "pay_commission userId tradeId grossProfit environment now entry acc =
     (case acc of (d, totalReferralPaid) \<Rightarrow>
      case entry of (level, referrerProfile) \<Rightarrow>
        let rate = referral_rate level;
            commission = grossProfit * rate
        in if commission \<le> 0 then (d, totalReferralPaid)
           else
             let beneficiaryUserId = pf_user_id referrerProfile;
                 d1 = d\<lparr>referral_commissions := referral_commissions d @
                        [\<lparr>rc_beneficiary_user_id = beneficiaryUserId, rc_source_user_id = userId,
                          rc_trade_id = tradeId, rc_level = level, rc_gross_profit = grossProfit,
                          rc_commission_rate = rate, rc_commission_amount = commission,
                          rc_status = ''paid'', rc_created_at = now, rc_paid_at = now\<rparr>]\<rparr>
             in case getOrCreateGasBalance beneficiaryUserId environment now d1 of (i, d2) \<Rightarrow>
                let beneficiaryBalance = gas_fee_balances d2 ! i;
                    beneficiaryBefore = gb_balance beneficiaryBalance;
                    beneficiaryAfter = beneficiaryBefore + commission;
                    d3 = d2\<lparr>gas_fee_balances := (gas_fee_balances d2)
                           [i := beneficiaryBalance
                              \<lparr>gb_balance := beneficiaryAfter,
                               gb_total_deposited := gb_total_deposited beneficiaryBalance + commission,
                               gb_updated_at := now\<rparr>]\<rparr>;
                    d4 = d3\<lparr>gas_fee_transactions := gas_fee_transactions d3 @
                           [\<lparr>tx_user_id = beneficiaryUserId, tx_amount = commission,
                             tx_transaction_type = referral_commission,
                             tx_description = ''Referral commission (level '' @ digit_text level @ '')'',
                             tx_trade_id = tradeId, tx_balance_before = beneficiaryBefore,
                             tx_balance_after = beneficiaryAfter, tx_environment = environment,
                             tx_created_at = now\<rparr>]\<rparr>
                in (d4, totalReferralPaid + commission))"

text \<open>The first half of \<open>processProfitSharing\<close>: the settlement row and the fee deduction.\<close>

definition settle_fee :: "string \<Rightarrow> string \<Rightarrow> real \<Rightarrow> string \<Rightarrow> timestamp \<Rightarrow> db \<Rightarrow> db" where
  "settle_fee userId tradeId grossProfit environment now d =
     (let serviceFee = grossProfit * SERVICE_FEE_RATE;
          netProfit = grossProfit - serviceFee;
          d1 = d\<lparr>profit_settlements := profit_settlements d @
                 [\<lparr>ps_user_id = userId, ps_trade_id = Some tradeId, ps_gross_profit = grossProfit,
                   ps_service_fee_rate = SERVICE_FEE_RATE, ps_service_fee_amount = serviceFee,
                   ps_net_profit = netProfit, ps_created_at = now\<rparr>]\<rparr>
      in case getOrCreateGasBalance userId environment now d1 of (i, d2) \<Rightarrow>
         let userBalance = gas_fee_balances d2 ! i;
             balanceBefore = gb_balance userBalance;
             balanceAfter = balanceBefore - serviceFee;
             d3 = d2\<lparr>gas_fee_balances := (gas_fee_balances d2)
                    [i := userBalance
                       \<lparr>gb_balance := balanceAfter,
                        gb_total_deducted := gb_total_deducted userBalance + serviceFee,
                        gb_updated_at := now\<rparr>]\<rparr>
         in d3\<lparr>gas_fee_transactions := gas_fee_transactions d3 @
                [\<lparr>tx_user_id = userId, tx_amount = - serviceFee,
                  tx_transaction_type = service_fee,
                  tx_description = ''Service fee for profitable trade'',
                  tx_trade_id = tradeId, tx_balance_before = balanceBefore,
                  tx_balance_after = balanceAfter, tx_environment = environment,
                  tx_created_at = now\<rparr>]\<rparr>)"

definition processProfitSharing :: "string \<Rightarrow> string \<Rightarrow> real \<Rightarrow> string \<Rightarrow> timestamp \<Rightarrow> db \<Rightarrow> db" where
  "processProfitSharing userId tradeId grossProfit environment now d =
     (if grossProfit \<le> 0 then d
      else
        let serviceFee = grossProfit * SERVICE_FEE_RATE;
            d1 = settle_fee userId tradeId grossProfit environment now d;
            referralChain = getReferralChain d1 userId
        in case fold (pay_commission userId tradeId grossProfit environment now) referralChain (d1, 0)
           of (d2, totalReferralPaid) \<Rightarrow>
             let adminShare = serviceFee - totalReferralPaid
             in d2\<lparr>admin_earnings := admin_earnings d2 @
                    [\<lparr>ae_source_user_id = userId, ae_trade_id = tradeId,
                      ae_gross_profit = grossProfit, ae_total_service_fee = serviceFee,
                      ae_referral_commissions_paid = totalReferralPaid,
                      ae_admin_share = adminShare, ae_created_at = now\<rparr>]\<rparr>)"

text \<open>The balance a user holds in an environment; no row reads as 0.\<close>

definition balance_of :: "db \<Rightarrow> string \<Rightarrow> string \<Rightarrow> real" where
  "balance_of d userId environment =
     (case find (\<lambda>b. gb_user_id b = userId \<and> gb_environment b = environment) (gas_fee_balances d) of
        None \<Rightarrow> 0
      | Some b \<Rightarrow> gb_balance b)"

text \<open>The trade ids that have a settlement row.\<close>

definition settled_ids :: "db \<Rightarrow> string list" where
  "settled_ids d = List.map_filter ps_trade_id (profit_settlements d)"

text \<open>The rows of one settlement, as the results below state them.\<close>

definition commission_row ::
  "string \<Rightarrow> string \<Rightarrow> real \<Rightarrow> timestamp \<Rightarrow> nat \<times> Profile \<Rightarrow> ReferralCommission" where
  "commission_row u t g now entry =
     \<lparr>rc_beneficiary_user_id = pf_user_id (snd entry), rc_source_user_id = u, rc_trade_id = t,
      rc_level = fst entry, rc_gross_profit = g, rc_commission_rate = referral_rate (fst entry),
      rc_commission_amount = g * referral_rate (fst entry), rc_status = ''paid'',
      rc_created_at = now, rc_paid_at = now\<rparr>"

definition ledger_view :: "GasFeeTransaction \<Rightarrow> string \<times> real \<times> transaction_type \<times> string" where
  "ledger_view x = (tx_user_id x, tx_amount x, tx_transaction_type x, tx_trade_id x)"

section \<open>Position reconciler\<close>

text \<open>
  What \<open>checkExchangePosition\<close> reads from the venue: the position entry of the symbol
  with its size, unrealised PnL and mark price parsed, or nothing (the request failed, or
  the reply holds no such entry).  The signed HTTP exchange is the parameter \<open>venue\<close>,
  asked with the symbol, the exchange, the testnet flag and the stored key and secret
  (\<open>decryptValue\<close> is part of it).
\<close>

datatype venue_reply = NoPosition | VenuePosition real real real

type_synonym venue = "string \<Rightarrow> string \<Rightarrow> bool \<Rightarrow> string \<Rightarrow> string \<Rightarrow> venue_reply"

record ExchangePos =
  isOpen :: bool
  currentSize :: real
  unrealizedPnl :: real
  currentPrice :: real

definition checkExchangePosition ::
  "venue \<Rightarrow> string \<Rightarrow> string \<Rightarrow> string \<Rightarrow> bool \<Rightarrow> string \<Rightarrow> string \<Rightarrow> ExchangePos" where
  "checkExchangePosition v symbol exchange product isTestnet apiKey apiSecret =
     (let closed = \<lparr>isOpen = False, currentSize = 0, unrealizedPnl = 0, currentPrice = 0\<rparr>
      in if exchange = ''binance'' \<and> product = ''futures'' then
           (case v symbol exchange isTestnet apiKey apiSecret of
              VenuePosition sz pnl mark \<Rightarrow>
                \<lparr>isOpen = (sz \<noteq> 0), currentSize = \<bar>sz\<bar>, unrealizedPnl = pnl,
                 currentPrice = mark\<rparr>
            | NoPosition \<Rightarrow> closed)
         else if exchange = ''bybit'' then
           (case v symbol exchange isTestnet apiKey apiSecret of
              VenuePosition sz pnl mark \<Rightarrow>
                \<lparr>isOpen = (sz \<noteq> 0), currentSize = sz, unrealizedPnl = pnl,
                 currentPrice = mark\<rparr>
            | NoPosition \<Rightarrow> closed)
         else closed)"

text \<open>
  The backfill pass: every filled trade with a positive realized PnL whose id is not among
  the settled ids is settled, and its id joins the set.
\<close>

definition settledTradeIds :: "db \<Rightarrow> string list" where
  "settledTradeIds d = filter (\<lambda>id. id \<noteq> []) (settled_ids d)"

definition profitableTrades :: "db \<Rightarrow> Trade list" where
  "profitableTrades d =
     filter (\<lambda>t. (case tr_realized_pnl t of None \<Rightarrow> 0 | Some x \<Rightarrow> x) > 0
                   \<and> tr_status t = ''filled'') (trades d)"

fun backfill_loop :: "timestamp \<Rightarrow> Trade list \<Rightarrow> string list \<Rightarrow> db \<Rightarrow> db" where
  "backfill_loop now [] settled d = d"
| "backfill_loop now (trade # rest) settled d =
     (if tr_id trade \<in> set settled then backfill_loop now rest settled d
      else backfill_loop now rest (tr_id trade # settled)
             (processProfitSharing (tr_user_id trade) (tr_id trade)
                (case tr_realized_pnl trade of None \<Rightarrow> 0 | Some x \<Rightarrow> x)
                (if tr_environment trade = [] then ''testnet'' else tr_environment trade)
                now d))"

definition backfill :: "timestamp \<Rightarrow> db \<Rightarrow> db" where
  "backfill now d = backfill_loop now (profitableTrades d) (settledTradeIds d) d"

text \<open>
  Grouping.  The open positions are the objects of \<open>db.data.positions\<close> themselves, so
  the model handles them by index.  The groups are the entries of a \<open>Map\<close> keyed by the
  string \<open>user_id-exchange-environment\<close>, in insertion order.
\<close>

definition open_indices :: "db \<Rightarrow> nat list" where
  "open_indices d = filter (\<lambda>i. po_is_open (positions d ! i)) [0 ..< length (positions d)]"

definition position_key :: "Position \<Rightarrow> string" where
  "position_key pos = po_user_id pos @ ''-'' @ po_exchange pos @ ''-'' @ po_environment pos"

fun group_insert :: "string \<Rightarrow> nat \<Rightarrow> (string \<times> nat list) list \<Rightarrow> (string \<times> nat list) list" where
  "group_insert key i [] = [(key, [i])]"
| "group_insert key i ((k, members) # rest) =
     (if k = key then (k, members @ [i]) # rest else (k, members) # group_insert key i rest)"

definition userPositions :: "db \<Rightarrow> (string \<times> nat list) list" where
  "userPositions d =
     fold (\<lambda>i groups. group_insert (position_key (positions d ! i)) i groups) (open_indices d) []"

text \<open>\<open>String.prototype.split\<close> on a one-character separator.\<close>

fun split_on :: "char \<Rightarrow> string \<Rightarrow> string list" where
  "split_on c [] = [[]]"
| "split_on c (x # xs) =
     (if x = c then [] # split_on c xs
      else (case split_on c xs of [] \<Rightarrow> [[x]] | part # parts \<Rightarrow> (x # part) # parts))"

record MonitorResult =
  mr_position_id :: string
  mr_symbol :: string
  mr_status :: string
  mr_trigger :: string
  mr_realized_pnl :: real

text \<open>
  The state of one run: the document, the number of trade ids drawn so far from
  \<open>crypto.randomUUID()\<close> (the \<open>n\<close>-th draw is \<open>uuid n\<close>), the \<open>results\<close> array and the
  console log.
\<close>

record monitor_state =
  m_db :: db
  m_next :: nat
  m_results :: "MonitorResult list"
  m_log :: "string list"

definition closing_trade :: "Position \<Rightarrow> ExchangePos \<Rightarrow> string \<Rightarrow> timestamp \<Rightarrow> Trade" where
  "closing_trade position exchangePos tradeId now =
     \<lparr>tr_id = tradeId, tr_user_id = po_user_id position, tr_exchange = po_exchange position,
      tr_environment = po_environment position, tr_symbol = po_symbol position,
      tr_side = (if po_side position = ''long'' then ''sell'' else ''buy''),
      tr_order_type = ''market'',
      tr_price = (if currentPrice exchangePos = 0 then po_entry_price position
                  else currentPrice exchangePos),
      tr_quantity = po_size position, tr_realized_pnl = Some (unrealizedPnl exchangePos),
      tr_status = ''filled'', tr_order_id = None, tr_triggered_by = Some ''position_monitor'',
      tr_created_at = now\<rparr>"

text \<open>The body of the loop over the positions of one group.\<close>

definition monitor_position ::
  "venue \<Rightarrow> (nat \<Rightarrow> string) \<Rightarrow> timestamp \<Rightarrow> string \<Rightarrow> bool \<Rightarrow> string \<Rightarrow> string \<Rightarrow> nat
   \<Rightarrow> monitor_state \<Rightarrow> monitor_state" where
  "monitor_position v uuid now exchange isTestnet apiKey apiSecret i s =
     (let d = m_db s;
          exchangePos = checkExchangePosition v (po_symbol (positions d ! i)) exchange ''futures''
                          isTestnet apiKey apiSecret;
          d1 = (if currentPrice exchangePos > 0 then
                  (case findIndex (\<lambda>p. po_id p = po_id (positions d ! i)) (positions d) of
                     Some posIndex \<Rightarrow>
                       d\<lparr>positions := (positions d)
                           [posIndex := (positions d ! posIndex)
                              \<lparr>po_current_price := Some (currentPrice exchangePos),
                               po_unrealized_pnl := unrealizedPnl exchangePos,
                               po_updated_at := now\<rparr>]\<rparr>
                   | None \<Rightarrow> d)
                else d);
          position = positions d1 ! i
      in if \<not> isOpen exchangePos \<and> po_is_open position then
           (case findIndex (\<lambda>p. po_id p = po_id position) (positions d1) of
              Some posIndex \<Rightarrow>
                let d2 = d1\<lparr>positions := (positions d1)
                           [posIndex := (positions d1 ! posIndex)
                              \<lparr>po_is_open := False,
                               po_unrealized_pnl := unrealizedPnl exchangePos,
                               po_updated_at := now\<rparr>]\<rparr>;
                    position2 = positions d2 ! i;
                    tradeId = uuid (m_next s);
                    d3 = d2\<lparr>trades := trades d2 @ [closing_trade position2 exchangePos tradeId now]\<rparr>;
                    d4 = processProfitSharing (po_user_id position2) tradeId
                           (unrealizedPnl exchangePos) (po_environment position2) now d3
                in s\<lparr>m_db := d4, m_next := Suc (m_next s),
                     m_results := m_results s @
                       [\<lparr>mr_position_id = po_id position2, mr_symbol = po_symbol position2,
                         mr_status = ''closed'', mr_trigger = ''exchange_close'',
                         mr_realized_pnl = unrealizedPnl exchangePos\<rparr>]\<rparr>
            | None \<Rightarrow> s\<lparr>m_db := d1\<rparr>)
         else s\<lparr>m_db := d1\<rparr>)"

text \<open>
  The body of the loop over the groups: the key is split at its hyphens, the first three
  parts are taken for user id, exchange and environment, and the credential is looked up
  with them.
\<close>

definition find_api_key :: "db \<Rightarrow> string \<Rightarrow> string \<Rightarrow> string \<Rightarrow> string \<Rightarrow> ApiKey option" where
  "find_api_key d userId exchange product environment =
     find (\<lambda>k. ak_user_id k = userId \<and> ak_exchange k = exchange \<and> ak_product k = product
                \<and> ak_environment k = environment \<and> ak_is_active k) (api_keys d)"

definition monitor_group ::
  "venue \<Rightarrow> (nat \<Rightarrow> string) \<Rightarrow> timestamp \<Rightarrow> string \<times> nat list \<Rightarrow> monitor_state \<Rightarrow> monitor_state" where
  "monitor_group v uuid now entry s =
     (case entry of (key, userPosGroup) \<Rightarrow>
        (case split_on CHR ''-'' key of
           userId # exchange # environment # _ \<Rightarrow>
             (case find_api_key (m_db s) userId exchange ''futures'' environment of
                None \<Rightarrow> s\<lparr>m_log := m_log s @ [''No API keys found for '' @ key]\<rparr>
              | Some apiKeys \<Rightarrow>
                  fold (monitor_position v uuid now exchange (environment = ''testnet'')
                          (ak_api_key_encrypted apiKeys) (ak_api_secret_encrypted apiKeys))
                    userPosGroup s)
         | _ \<Rightarrow> s\<lparr>m_log := m_log s @ [''No API keys found for '' @ key]\<rparr>))"

text \<open>
  One run of the route.  With no open position it answers before \<open>safeWrite\<close>: the
  backfilled document stays in memory and the file keeps the old one; \<open>mo_written\<close> says
  whether the file was written.
\<close>

record monitor_outcome =
  mo_db :: db
  mo_next :: nat
  mo_written :: bool
  mo_monitored :: nat
  mo_results :: "MonitorResult list"
  mo_log :: "string list"

definition positionMonitor ::
  "venue \<Rightarrow> (nat \<Rightarrow> string) \<Rightarrow> timestamp \<Rightarrow> db \<Rightarrow> nat \<Rightarrow> monitor_outcome" where
  "positionMonitor v uuid now d0 next =
     (let d = backfill now d0
      in if open_indices d = [] then
           \<lparr>mo_db = d, mo_next = next, mo_written = False, mo_monitored = 0, mo_results = [],
            mo_log = []\<rparr>
         else
           let s = fold (monitor_group v uuid now) (userPositions d)
                     \<lparr>m_db = d, m_next = next, m_results = [], m_log = []\<rparr>
           in \<lparr>mo_db = m_db s, mo_next = m_next s, mo_written = True,
               mo_monitored = length (open_indices d), mo_results = m_results s,
               mo_log = m_log s\<rparr>)"

text \<open>
  A sequence of runs.  Every run starts with \<open>db.read()\<close>, so it sees the file as the
  last write left it.
\<close>

fun monitor_runs :: "(nat \<Rightarrow> string) \<Rightarrow> (venue \<times> timestamp) list \<Rightarrow> db \<times> nat \<Rightarrow> db \<times> nat" where
  "monitor_runs uuid [] file = file"
| "monitor_runs uuid ((v, now) # rest) (d, next) =
     (let out = positionMonitor v uuid now d next
      in monitor_runs uuid rest (if mo_written out then mo_db out else d, mo_next out))"

section \<open>Auto-signal generator: risk gate\<close>

definition getConfigNumber :: "real option \<Rightarrow> real \<Rightarrow> real" where
  "getConfigNumber v fallback = (case v of Some x \<Rightarrow> x | None \<Rightarrow> fallback)"

definition getConfigBoolean :: "bool option \<Rightarrow> bool \<Rightarrow> bool" where
  "getConfigBoolean v fallback = (case v of Some x \<Rightarrow> x | None \<Rightarrow> fallback)"

definition isWithinTradingSession :: "StrategySettings \<Rightarrow> timestamp \<Rightarrow> bool" where
  "isWithinTradingSession config now =
     (case (cf_session_start config, cf_session_end config) of
        (Some (startH, startM), Some (endH, endM)) \<Rightarrow>
          let minutesNow = real_of_int ((now div 60000) mod 1440);
              startMinutes = startH * 60 + startM;
              endMinutes = endH * 60 + endM
          in if startMinutes \<le> endMinutes
             then minutesNow \<ge> startMinutes \<and> minutesNow \<le> endMinutes
             else minutesNow \<ge> startMinutes \<or> minutesNow \<le> endMinutes
      | _ \<Rightarrow> True)"

text \<open>Midnight UTC of the day of \<open>now\<close>.\<close>

definition dayStart :: "timestamp \<Rightarrow> timestamp" where
  "dayStart now = now - now mod 86400000"

definition pnl_of :: "Trade \<Rightarrow> real" where
  "pnl_of t = (case tr_realized_pnl t of None \<Rightarrow> 0 | Some x \<Rightarrow> x)"

definition dailyTrades :: "db \<Rightarrow> string \<Rightarrow> timestamp \<Rightarrow> Trade list" where
  "dailyTrades d userId now =
     filter (\<lambda>t. tr_user_id t = userId \<and> tr_triggered_by t = Some ''auto_strategy''
                  \<and> tr_created_at t \<ge> dayStart now) (trades d)"

definition dailyPnl :: "db \<Rightarrow> string \<Rightarrow> timestamp \<Rightarrow> real" where
  "dailyPnl d userId now =
     sum_list (map pnl_of
       (filter (\<lambda>t. tr_user_id t = userId \<and> tr_created_at t \<ge> dayStart now) (trades d)))"

text \<open>
  The scan for the loss streak, most recent trade first: a loss counts, a profit ends the
  scan, a zero is passed over.
\<close>

fun loss_streak :: "Trade list \<Rightarrow> nat \<Rightarrow> timestamp option \<Rightarrow> nat \<times> timestamp option" where
  "loss_streak [] consecutiveLosses lastLossAt = (consecutiveLosses, lastLossAt)"
| "loss_streak (trade # rest) consecutiveLosses lastLossAt =
     (if pnl_of trade < 0 then
        loss_streak rest (consecutiveLosses + 1)
          (case lastLossAt of None \<Rightarrow> Some (tr_created_at trade) | Some l \<Rightarrow> Some l)
      else if pnl_of trade > 0 then (consecutiveLosses, lastLossAt)
      else loss_streak rest consecutiveLosses lastLossAt)"

definition recent_trades :: "db \<Rightarrow> string \<Rightarrow> Trade list" where
  "recent_trades d userId =
     sort_key (\<lambda>t. - tr_created_at t)
       (filter (\<lambda>t. tr_user_id t = userId \<and> tr_realized_pnl t \<noteq> None) (trades d))"

datatype gate = Proceed ApiKey | Skip string

text \<open>
  The checks at the head of the loop over the strategies, in the order of the source; each
  \<open>continue\<close> is a \<open>Skip\<close> with the logged text.
\<close>

definition riskGate :: "StrategyConfig \<Rightarrow> timestamp \<Rightarrow> db \<Rightarrow> gate" where
  "riskGate config now d =
     (let strategyConfig = sc_strategy_config config;
          cooldownMinutes = getConfigNumber (cf_cooldown_minutes strategyConfig) 0;
          maxTradesPerDay = getConfigNumber (cf_max_trades_per_day strategyConfig) 0;
          maxDailyLoss = getConfigNumber (cf_max_daily_loss strategyConfig) 0;
          maxConsecutiveLosses = getConfigNumber (cf_max_consecutive_losses strategyConfig) 0;
          streak = loss_streak (recent_trades d (sc_user_id config)) 0 None;
          intervalMinutes = (if sc_auto_signal_interval config = 0 then 1
                             else sc_auto_signal_interval config)
      in if \<not> isWithinTradingSession strategyConfig now then
           Skip (''Outside trading session for strategy '' @ sc_id config)
         else if maxTradesPerDay > 0
                 \<and> real (length (dailyTrades d (sc_user_id config) now)) \<ge> maxTradesPerDay then
           Skip (''Max trades per day reached for strategy '' @ sc_id config)
         else if maxDailyLoss > 0 \<and> dailyPnl d (sc_user_id config) now \<le> - maxDailyLoss then
           Skip (''Max daily loss reached for strategy '' @ sc_id config)
         else if maxConsecutiveLosses > 0 \<and> real (fst streak) \<ge> maxConsecutiveLosses
                 \<and> cooldownMinutes > 0 \<and> snd streak \<noteq> None
                 \<and> real_of_int (now - the (snd streak)) / 60000 < cooldownMinutes then
           Skip (''Cooldown active for strategy '' @ sc_id config @ '' after loss streak'')
         else if maxConsecutiveLosses > 0 \<and> real (fst streak) \<ge> maxConsecutiveLosses
                 \<and> \<not> (cooldownMinutes > 0 \<and> snd streak \<noteq> None) then
           Skip (''Max consecutive losses reached for strategy '' @ sc_id config)
         else if (case sc_last_signal_at config of
                    None \<Rightarrow> False
                  | Some lastSignalTime \<Rightarrow>
                      real_of_int (now - lastSignalTime) / (1000 * 60) < intervalMinutes) then
           Skip (''Strategy '' @ sc_name config @ '': waiting before next signal'')
         else
           (case find_api_key d (sc_user_id config) (sc_exchange config) (sc_product config)
                   (sc_environment config) of
              None \<Rightarrow> Skip (''No API keys found for strategy '' @ sc_id config)
            | Some apiKeys \<Rightarrow>
                if \<not> (case find (\<lambda>b. bs_user_id b = sc_user_id config
                                      \<and> bs_environment b = sc_environment config
                                      \<and> (bs_exchange b = Some (sc_exchange config)
                                          \<or> bs_exchange b = None \<or> bs_exchange b = Some []))
                              (bot_status d) of
                          None \<Rightarrow> False
                        | Some botStatus \<Rightarrow> bs_is_running botStatus) then
                  Skip (''Bot is not running for strategy '' @ sc_id config)
                else if (case find (\<lambda>b. gb_user_id b = sc_user_id config
                                         \<and> gb_environment b = sc_environment config)
                                (gas_fee_balances d) of
                           None \<Rightarrow> True
                         | Some gasBalance \<Rightarrow> gb_balance gasBalance \<le> 0) then
                  Skip (''Insufficient gas balance for strategy '' @ sc_id config)
                else if real (length (filter (\<lambda>p. po_user_id p = sc_user_id config \<and> po_is_open p)
                                        (positions d))) \<ge> sc_max_positions config then
                  Skip (''Max positions reached for strategy '' @ sc_id config)
                else Proceed apiKeys))"

text \<open>
  One turn of the loop over the strategies.  What follows the gate (the loop over the
  allowed pairs: candles, signal analysis, advisory filter, order placement, recording)
  is the parameter \<open>pairs\<close>; the gate decides whether it runs.
\<close>

record 'r auto_state =
  a_db :: db
  a_results :: "'r list"
  a_log :: "string list"

definition process_strategy ::
  "(StrategyConfig \<Rightarrow> ApiKey \<Rightarrow> 'r auto_state \<Rightarrow> 'r auto_state) \<Rightarrow> timestamp \<Rightarrow> StrategyConfig
   \<Rightarrow> 'r auto_state \<Rightarrow> 'r auto_state" where
  "process_strategy pairs now config s =
     (case riskGate config now (a_db s) of
        Skip message \<Rightarrow> s\<lparr>a_log := a_log s @ [message]\<rparr>
      | Proceed apiKeys \<Rightarrow> pairs config apiKeys s)"

section \<open>Auto-signal generator: order placement\<close>

text \<open>
  The reply of \<open>callBinanceApi\<close>: success with the order id of the reply (\<open>None\<close> when the
  reply holds none), or failure with its error text.
\<close>

datatype api_result = Success "string option" | Failure string

fun api_success :: "api_result \<Rightarrow> bool" where
  "api_success (Success _) = True"
| "api_success (Failure _) = False"

text \<open>ASCII lower case, for the \<open>/i\<close> flag of the pattern.\<close>

definition lower_char :: "char \<Rightarrow> char" where
  "lower_char c =
     (case map_of (zip ''ABCDEFGHIJKLMNOPQRSTUVWXYZ'' ''abcdefghijklmnopqrstuvwxyz'') c of
        Some l \<Rightarrow> l
      | None \<Rightarrow> c)"

fun starts_with :: "string \<Rightarrow> string \<Rightarrow> bool" where
  "starts_with [] s = True"
| "starts_with (p # ps) [] = False"
| "starts_with (p # ps) (c # cs) = (p = c \<and> starts_with ps cs)"

fun contains :: "string \<Rightarrow> string \<Rightarrow> bool" where
  "contains pat [] = (pat = [])"
| "contains pat (c # cs) = (starts_with pat (c # cs) \<or> contains pat cs)"

definition isPrecisionError :: "string \<Rightarrow> bool" where
  "isPrecisionError message =
     (message \<noteq> [] \<and>
      list_ex (\<lambda>pat. contains pat (map lower_char message))
        [''precision'', ''step'', ''lot'', ''qty'', ''quantity'', ''filter failure''])"

text \<open>
  \<open>formatQty\<close>.  The quantity is floored to \<open>decimals\<close> places; the result is nothing when
  that is not positive, and otherwise the text
  \<open>floored.toFixed(decimals).replace(/\.?0+$/, '')\<close>.  The floored number is
  \<open>k / 10 ** decimals\<close> for the integer \<open>k = Math.floor(value * factor)\<close>, so its
  \<open>toFixed\<close> text is the decimal numeral of \<open>k\<close>, filled with leading zeros to
  \<open>decimals + 1\<close> digits, with the point before the last \<open>decimals\<close> digits and no point
  for \<open>decimals = 0\<close> (the exponent notation of \<open>toFixed\<close> from \<open>1e21\<close> on is left out).
  The pattern takes away the leftmost suffix made of an optional point and one or more
  zeros: the zeros that end the fraction, with the point when nothing is left of it, but
  also the zeros that end an integer printed without a fraction.
\<close>

fun decimal_text :: "nat \<Rightarrow> string" where
  "decimal_text n =
     (if n < 10 then [''0123456789'' ! n]
      else decimal_text (n div 10) @ [''0123456789'' ! (n mod 10)])"

declare decimal_text.simps [simp del]

definition toFixed :: "nat \<Rightarrow> nat \<Rightarrow> string" where
  "toFixed k decimals =
     (let digits = decimal_text k;
          padded = replicate (Suc decimals - length digits) CHR ''0'' @ digits;
          whole = take (length padded - decimals) padded;
          fraction = drop (length padded - decimals) padded
      in if decimals = 0 then whole else whole @ ''.'' @ fraction)"

definition zero_tail :: "string \<Rightarrow> bool" where
  "zero_tail s =
     (let zeros = (case s of c # cs \<Rightarrow> if c = CHR ''.'' then cs else s | [] \<Rightarrow> s)
      in zeros \<noteq> [] \<and> list_all (\<lambda>c. c = CHR ''0'') zeros)"

fun strip_zero_tail :: "string \<Rightarrow> string" where
  "strip_zero_tail [] = []"
| "strip_zero_tail (c # cs) = (if zero_tail (c # cs) then [] else c # strip_zero_tail cs)"

definition formatQty :: "real \<Rightarrow> nat \<Rightarrow> string option" where
  "formatQty v decimals =
     (let factor = 10 ^ decimals;
          floored = real_of_int \<lfloor>v * factor\<rfloor> / factor
      in if floored \<le> 0 then None
         else Some (strip_zero_tail (toFixed (nat \<lfloor>v * factor\<rfloor>) decimals)))"

text \<open>
  The venue reads the quantity of a request as a decimal number; \<open>text_value\<close> is the
  number that a text of digits with at most one point denotes.
\<close>

definition digits_value :: "string \<Rightarrow> nat" where
  "digits_value s =
     foldl (\<lambda>a c. 10 * a + (case map_of (zip ''0123456789'' [0, 1, 2, 3, 4, 5, 6, 7, 8, 9]) c of
                              Some n \<Rightarrow> n
                            | None \<Rightarrow> 0)) 0 s"

definition text_value :: "string \<Rightarrow> real" where
  "text_value s =
     (let whole = takeWhile (\<lambda>c. c \<noteq> CHR ''.'') s;
          fraction = drop 1 (dropWhile (\<lambda>c. c \<noteq> CHR ''.'') s)
      in real (digits_value whole) + real (digits_value fraction) / 10 ^ length fraction)"

text \<open>
  The replies of the venue during one execution: to the leverage request, to the entry
  order sent at an attempt with \<open>decimals\<close> places and the number that its quantity
  text denotes, to the stop-loss order,
  to the take-profit order of level 1, 2 or 3, and to the trailing-stop order.
\<close>

record venue_orders =
  vo_leverage :: api_result
  vo_entry :: "nat \<Rightarrow> real \<Rightarrow> api_result"
  vo_stop_loss :: api_result
  vo_take_profit :: "nat \<Rightarrow> api_result"
  vo_trailing :: api_result

text \<open>
  The precision ladder.  The venue's reply to an entry order is asked with the precision
  of the attempt and the number its quantity text denotes; \<open>en_sent\<close> lists the entry
  orders sent, oldest first.
\<close>

record entry_state =
  en_orderResult :: api_result
  en_orderQtyDecimals :: "nat option"
  en_lastError :: "string option"
  en_sent :: "(nat \<times> real) list"

fun entry_loop :: "(nat \<Rightarrow> real \<Rightarrow> api_result) \<Rightarrow> real \<Rightarrow> nat list \<Rightarrow> entry_state \<Rightarrow> entry_state" where
  "entry_loop place quantity [] s = s"
| "entry_loop place quantity (decimals # rest) s =
     (case formatQty quantity decimals of
        None \<Rightarrow> entry_loop place quantity rest s
      | Some qtyStr \<Rightarrow>
          if qtyStr = [] then entry_loop place quantity rest s
          else
            let attemptResult = place decimals (text_value qtyStr);
                s1 = s\<lparr>en_sent := en_sent s @ [(decimals, text_value qtyStr)]\<rparr>
            in (case attemptResult of
                  Success data \<Rightarrow>
                    s1\<lparr>en_orderResult := attemptResult, en_orderQtyDecimals := Some decimals\<rparr>
                | Failure err \<Rightarrow>
                    if \<not> isPrecisionError err
                    then s1\<lparr>en_lastError := Some err, en_orderResult := attemptResult\<rparr>
                    else entry_loop place quantity rest (s1\<lparr>en_lastError := Some err\<rparr>)))"

definition placeEntry :: "(nat \<Rightarrow> real \<Rightarrow> api_result) \<Rightarrow> real \<Rightarrow> entry_state" where
  "placeEntry place quantity =
     (let s = entry_loop place quantity [3, 2, 1, 0]
                \<lparr>en_orderResult = Failure ''Failed to set leverage'', en_orderQtyDecimals = None,
                 en_lastError = None, en_sent = []\<rparr>
      in (case en_lastError s of
            Some lastError \<Rightarrow>
              if \<not> api_success (en_orderResult s) \<and> lastError \<noteq> []
              then s\<lparr>en_orderResult := Failure lastError\<rparr> else s
          | None \<Rightarrow> s))"

text \<open>
  The protective orders of the Binance futures branch.  A failed leg pushes its error
  text (or the fallback text when that is empty) onto \<open>tpSlErrors\<close>.  \<open>num_text\<close> is the
  JavaScript rendering of a number in a template literal.
\<close>

record Signal =
  sg_action :: string
  sg_symbol :: string
  sg_price :: real
  sg_confidence :: real

definition or_text :: "string \<Rightarrow> string \<Rightarrow> string" where
  "or_text s fallback = (if s = [] then fallback else s)"

definition tpLevels :: "StrategyConfig \<Rightarrow> (nat \<times> bool \<times> real \<times> real) list" where
  "tpLevels config =
     [(1, sc_use_tp1 config, sc_tp1_percent config, sc_tp1_close_percent config),
      (2, sc_use_tp2 config, sc_tp2_percent config, sc_tp2_close_percent config),
      (3, sc_use_tp3 config, sc_tp3_percent config, sc_tp3_close_percent config)]"

definition take_profit_leg ::
  "(real \<Rightarrow> string) \<Rightarrow> venue_orders \<Rightarrow> real \<Rightarrow> nat \<Rightarrow> nat \<times> bool \<times> real \<times> real \<Rightarrow> string list
   \<Rightarrow> string list" where
  "take_profit_leg num_text vo roundedQty decimals tp tpSlErrors =
     (case tp of (level, enabled, percent, closePercent) \<Rightarrow>
        if \<not> enabled then tpSlErrors
        else
          let tpQty = real_of_int \<lfloor>roundedQty * (closePercent / 100) * 1000\<rfloor> / 1000
          in (case formatQty tpQty decimals of
                None \<Rightarrow> tpSlErrors
              | Some tpQtyStr \<Rightarrow>
                  if tpQtyStr = [] then tpSlErrors
                  else
                    (case vo_take_profit vo level of
                       Success _ \<Rightarrow> tpSlErrors
                     | Failure err \<Rightarrow>
                         tpSlErrors @ [or_text err (''TP'' @ num_text percent @ '' failed'')])))"

definition protective_orders ::
  "(real \<Rightarrow> string) \<Rightarrow> venue_orders \<Rightarrow> StrategyConfig \<Rightarrow> real \<Rightarrow> real \<Rightarrow> nat option \<Rightarrow> string list" where
  "protective_orders num_text vo config price quantity orderQtyDecimals =
     (if price > 0 then
        let roundedQty = real_of_int \<lfloor>quantity * 1000\<rfloor> / 1000;
            afterSl = (case vo_stop_loss vo of
                         Success _ \<Rightarrow> []
                       | Failure err \<Rightarrow> [or_text err ''Stop loss failed'']);
            decimals = (case orderQtyDecimals of None \<Rightarrow> 3 | Some n \<Rightarrow> n);
            afterTp = fold (take_profit_leg num_text vo roundedQty decimals) (tpLevels config) afterSl;
            strategyConfig = sc_strategy_config config;
            useTrailingStop = getConfigBoolean (cf_use_trailing_stop strategyConfig) False;
            trailingStopCallback = getConfigNumber (cf_trailing_stop_callback strategyConfig) 0
        in if useTrailingStop \<and> trailingStopCallback > 0 then
             (case vo_trailing vo of
                Success _ \<Rightarrow> afterTp
              | Failure err \<Rightarrow> afterTp @ [or_text err ''Trailing stop failed''])
           else afterTp
      else [])"

fun join_with :: "string \<Rightarrow> string list \<Rightarrow> string" where
  "join_with sep [] = []"
| "join_with sep [x] = x"
| "join_with sep (x # y # rest) = x @ sep @ join_with sep (y # rest)"

text \<open>
  The Binance futures branch of the execution.  \<open>Thrown\<close> is the \<open>TypeError\<close> of
  \<open>orderData.orderId.toString()\<close> on a reply without an order id; the \<open>try\<close> around the
  pair catches it and nothing is recorded.
\<close>

record execution =
  ex_orderSuccess :: bool
  ex_orderId :: "string option"
  ex_executionError :: "string option"
  ex_sent :: "(nat \<times> real) list"

datatype 'a outcome = Done 'a | Thrown

definition executeBinance ::
  "(real \<Rightarrow> string) \<Rightarrow> venue_orders \<Rightarrow> StrategyConfig \<Rightarrow> Signal \<Rightarrow> real \<Rightarrow> execution outcome" where
  "executeBinance num_text vo config signal quantity =
     (case vo_leverage vo of
        Failure err \<Rightarrow>
          Done \<lparr>ex_orderSuccess = False, ex_orderId = None,
                ex_executionError = Some (or_text (or_text err ''Failed to set leverage'')
                                            ''Binance order failed''),
                ex_sent = []\<rparr>
      | Success _ \<Rightarrow>
          let entry = placeEntry (vo_entry vo) quantity
          in (case en_orderResult entry of
                Failure err \<Rightarrow>
                  Done \<lparr>ex_orderSuccess = False, ex_orderId = None,
                        ex_executionError = Some (or_text err ''Binance order failed''),
                        ex_sent = en_sent entry\<rparr>
              | Success None \<Rightarrow> Thrown
              | Success (Some orderId) \<Rightarrow>
                  let tpSlErrors = protective_orders num_text vo config (sg_price signal) quantity
                                     (en_orderQtyDecimals entry)
                  in Done \<lparr>ex_orderSuccess = True, ex_orderId = Some orderId,
                           ex_executionError =
                             (if tpSlErrors \<noteq> [] then Some (join_with '' | '' tpSlErrors) else None),
                           ex_sent = en_sent entry\<rparr>))"

text \<open>
  Recording the outcome: with a successful order and a non-empty order id, the trade, the
  open position and an \<open>executed\<close> audit row are pushed, \<open>last_signal_at\<close> is set and the
  result says \<open>executed\<close>; otherwise a \<open>failed\<close> audit row is pushed.  \<open>tradeId\<close> and
  \<open>positionId\<close> are the two ids drawn.  Of the audit row's payload the source and the order id are kept.
\<close>

record AutoSignalResult =
  ar_strategy :: string
  ar_pair :: string
  ar_executed :: bool
  ar_tradeId :: "string option"
  ar_reason :: "string option"

definition record_outcome ::
  "StrategyConfig \<Rightarrow> string \<Rightarrow> Signal \<Rightarrow> real \<Rightarrow> string \<Rightarrow> string \<Rightarrow> timestamp \<Rightarrow> execution
   \<Rightarrow> AutoSignalResult auto_state \<Rightarrow> AutoSignalResult auto_state" where
  "record_outcome config pair signal quantity tradeId positionId now ex s =
     (let d = a_db s
      in if ex_orderSuccess ex \<and> ex_orderId ex \<noteq> None \<and> ex_orderId ex \<noteq> Some [] then
           let d1 = d\<lparr>trades := trades d @
                      [\<lparr>tr_id = tradeId, tr_user_id = sc_user_id config,
                        tr_exchange = sc_exchange config,
                        tr_environment = (if sc_environment config = [] then ''testnet''
                                          else sc_environment config),
                        tr_symbol = pair, tr_side = sg_action signal, tr_order_type = ''market'',
                        tr_price = sg_price signal, tr_quantity = quantity,
                        tr_realized_pnl = None, tr_status = ''filled'',
                        tr_order_id = ex_orderId ex, tr_triggered_by = Some ''auto_strategy'',
                        tr_created_at = now\<rparr>]\<rparr>;
               d2 = d1\<lparr>positions := positions d1 @
                      [\<lparr>po_id = positionId, po_user_id = sc_user_id config,
                        po_symbol = pair,
                        po_side = (if sg_action signal = ''buy'' then ''long'' else ''short''),
                        po_size = quantity, po_entry_price = sg_price signal,
                        po_current_price = None, po_unrealized_pnl = 0,
                        po_leverage = sc_default_leverage config,
                        po_stop_loss = Some
                          (if sg_action signal = ''buy''
                           then sg_price signal * (1 - sc_stop_loss_percent config / 100)
                           else sg_price signal * (1 + sc_stop_loss_percent config / 100)),
                        po_take_profit =
                          (if sc_use_tp1 config then Some
                             (if sg_action signal = ''buy''
                              then sg_price signal * (1 + sc_tp1_percent config / 100)
                              else sg_price signal * (1 - sc_tp1_percent config / 100))
                           else None),
                        po_is_open = True, po_exchange = sc_exchange config,
                        po_environment = sc_environment config,
                        po_created_at = now, po_updated_at = now\<rparr>]\<rparr>;
               d3 = (case findIndex (\<lambda>st. sc_id st = sc_id config) (trading_strategies d2) of
                       Some strategyIndex \<Rightarrow>
                         d2\<lparr>trading_strategies := (trading_strategies d2)
                              [strategyIndex := (trading_strategies d2 ! strategyIndex)
                                 \<lparr>sc_last_signal_at := Some now\<rparr>]\<rparr>
                     | None \<Rightarrow> d2);
               d4 = d3\<lparr>webhook_logs := webhook_logs d3 @
                      [\<lparr>wl_user_id = sc_user_id config, wl_strategy_id = sc_id config,
                        wl_source = ''auto_strategy_direct'', wl_order_id = ex_orderId ex,
                        wl_status = ''executed'', wl_error_message = None,
                        wl_created_at = now\<rparr>]\<rparr>
           in s\<lparr>a_db := d4,
                a_results := a_results s @
                  [\<lparr>ar_strategy = sc_name config, ar_pair = pair, ar_executed = True,
                    ar_tradeId = Some tradeId, ar_reason = None\<rparr>]\<rparr>
         else
           s\<lparr>a_db := d\<lparr>webhook_logs := webhook_logs d @
                  [\<lparr>wl_user_id = sc_user_id config, wl_strategy_id = sc_id config,
                    wl_source = ''auto_strategy_direct'', wl_order_id = None,
                    wl_status = ''failed'',
                    wl_error_message = Some
                      (case ex_executionError ex of
                         None \<Rightarrow> ''Trade execution failed''
                       | Some e \<Rightarrow> or_text e ''Trade execution failed''),
                    wl_created_at = now\<rparr>]\<rparr>,
              a_results := a_results s @
                [\<lparr>ar_strategy = sc_name config, ar_pair = pair, ar_executed = False,
                  ar_tradeId = None, ar_reason = Some ''Trade execution failed''\<rparr>]\<rparr>)"

section \<open>Alert webhook: \<open>executeTrade\<close>, Binance futures branch\<close>

text \<open>
  \<open>executeTrade\<close> returns at the first failing order: the entry, the stop loss, a
  take-profit leg or the trailing stop.  The result is the triple of the source:
  success flag, order id, error.  The reply to the leverage request is not looked at.
  The entry order is sent once, with \<open>roundedQty.toString()\<close> as quantity: this path has
  no precision ladder.
\<close>

record exec_result =
  er_success :: bool
  er_orderId :: "string option"
  er_error :: "string option"

fun webhook_take_profits :: "venue_orders \<Rightarrow> real \<Rightarrow> (nat \<times> bool \<times> real \<times> real) list \<Rightarrow> string option" where
  "webhook_take_profits vo roundedQty [] = None"
| "webhook_take_profits vo roundedQty ((level, enabled, percent, closePercent) # rest) =
     (if \<not> enabled then webhook_take_profits vo roundedQty rest
      else
        let tpQty = real_of_int \<lfloor>roundedQty * (closePercent / 100) * 1000\<rfloor> / 1000
        in if tpQty > 0 then
             (case vo_take_profit vo level of
                Success _ \<Rightarrow> webhook_take_profits vo roundedQty rest
              | Failure err \<Rightarrow> Some (or_text err ''Take profit failed''))
           else webhook_take_profits vo roundedQty rest)"

definition executeTrade :: "venue_orders \<Rightarrow> StrategyConfig \<Rightarrow> real \<Rightarrow> real \<Rightarrow> exec_result outcome" where
  "executeTrade vo strategy price quantity =
     (let roundedQty = real_of_int \<lfloor>quantity * 1000\<rfloor> / 1000;
          failed = (\<lambda>e. Done \<lparr>er_success = False, er_orderId = None, er_error = e\<rparr>)
      in if roundedQty \<le> 0 then failed (Some ''Invalid position size calculated'')
         else
           (case vo_entry vo 3 roundedQty of
              Failure err \<Rightarrow> failed (Some err)
            | Success orderId \<Rightarrow>
                if price > 0 then
                  (case vo_stop_loss vo of
                     Failure err \<Rightarrow> failed (Some (or_text err ''Stop loss failed''))
                   | Success _ \<Rightarrow>
                       (case webhook_take_profits vo roundedQty (tpLevels strategy) of
                          Some err \<Rightarrow> failed (Some err)
                        | None \<Rightarrow>
                            if sc_use_trailing_stop strategy \<and> sc_trailing_stop_callback strategy > 0
                            then
                              (case vo_trailing vo of
                                 Failure err \<Rightarrow> failed (Some (or_text err ''Trailing stop failed''))
                               | Success _ \<Rightarrow>
                                   (case orderId of
                                      None \<Rightarrow> Thrown
                                    | Some oid \<Rightarrow>
                                        Done \<lparr>er_success = True, er_orderId = Some oid, er_error = None\<rparr>))
                            else
                              (case orderId of
                                 None \<Rightarrow> Thrown
                               | Some oid \<Rightarrow>
                                   Done \<lparr>er_success = True, er_orderId = Some oid, er_error = None\<rparr>)))
                else
                  (case orderId of
                     None \<Rightarrow> Thrown
                   | Some oid \<Rightarrow> Done \<lparr>er_success = True, er_orderId = Some oid, er_error = None\<rparr>)))"

text \<open>
  What the webhook route records for an execution result: the trade and the position
  only when the result says success and carries an order id.
\<close>

definition webhook_records_trade :: "exec_result \<Rightarrow> bool" where
  "webhook_records_trade execResult =
     (er_success execResult \<and> er_orderId execResult \<noteq> None \<and> er_orderId execResult \<noteq> Some [])"

text \<open>
  For the results on one run: the position after the price update and after the close,
  and the result row of a close.
\<close>

definition price_updated :: "Position \<Rightarrow> ExchangePos \<Rightarrow> timestamp \<Rightarrow> Position" where
  "price_updated p ep now =
     (if currentPrice ep > 0
      then p\<lparr>po_current_price := Some (currentPrice ep), po_unrealized_pnl := unrealizedPnl ep,
             po_updated_at := now\<rparr>
      else p)"

definition closed_position :: "Position \<Rightarrow> ExchangePos \<Rightarrow> timestamp \<Rightarrow> Position" where
  "closed_position p ep now =
     (price_updated p ep now)\<lparr>po_is_open := False, po_unrealized_pnl := unrealizedPnl ep,
                               po_updated_at := now\<rparr>"

definition close_result :: "Position \<Rightarrow> ExchangePos \<Rightarrow> MonitorResult" where
  "close_result p ep =
     \<lparr>mr_position_id = po_id p, mr_symbol = po_symbol p, mr_status = ''closed'',
      mr_trigger = ''exchange_close'', mr_realized_pnl = unrealizedPnl ep\<rparr>"




text \<open>
  The invariant of the runs: one settlement row per trade id, no empty trade id, and the
  ids still to be drawn occur nowhere.
\<close>

definition monitor_inv :: "(nat \<Rightarrow> string) \<Rightarrow> db \<Rightarrow> nat \<Rightarrow> bool" where
  "monitor_inv uuid d c =
     (distinct (settled_ids d) \<and> (\<forall>t\<in>set (trades d). tr_id t \<noteq> [])
      \<and> (\<forall>n\<ge>c. uuid n \<notin> set (settled_ids d) \<and> uuid n \<notin> tr_id ` set (trades d)))"

section \<open>Example data\<close>

text \<open>A trader referred by Anna, who was referred by Ben; the trader holds a balance of 10.\<close>

definition demo_profiles :: "Profile list" where
  "demo_profiles =
     [\<lparr>pf_id = ''p-trader'', pf_user_id = ''trader'', pf_referrer_id = Some ''p-anna''\<rparr>,
      \<lparr>pf_id = ''p-anna'', pf_user_id = ''anna'', pf_referrer_id = Some ''p-ben''\<rparr>,
      \<lparr>pf_id = ''p-ben'', pf_user_id = ''ben'', pf_referrer_id = None\<rparr>]"

definition demo_db :: db where
  "demo_db = empty_db
     \<lparr>profiles := demo_profiles,
      gas_fee_balances :=
        [\<lparr>gb_user_id = ''trader'', gb_environment = ''mainnet'', gb_balance = 10,
          gb_total_deposited = 10, gb_total_deducted = 0, gb_created_at = 0, gb_updated_at = 0\<rparr>]\<rparr>"

text \<open>A strategy of the trader with a daily loss cap of 100, its credential and its bot.\<close>

definition demo_strategy :: StrategyConfig where
  "demo_strategy =
     \<lparr>sc_id = ''s1'', sc_name = ''demo'', sc_user_id = ''trader'', sc_exchange = ''binance'',
      sc_product = ''futures'', sc_environment = ''mainnet'', sc_auto_signal_interval = 1,
      sc_last_signal_at = None, sc_default_leverage = 1, sc_stop_loss_percent = 2,
      sc_tp1_percent = 3, sc_tp2_percent = 0, sc_tp3_percent = 0,
      sc_use_tp1 = True, sc_use_tp2 = False, sc_use_tp3 = False,
      sc_tp1_close_percent = 50, sc_tp2_close_percent = 0, sc_tp3_close_percent = 0,
      sc_max_positions = 5, sc_use_trailing_stop = False, sc_trailing_stop_callback = 0,
      sc_strategy_config =
        \<lparr>cf_session_start = None, cf_session_end = None, cf_max_trades_per_day = None,
         cf_max_daily_loss = Some 100, cf_max_consecutive_losses = None,
         cf_cooldown_minutes = None, cf_use_trailing_stop = None,
         cf_trailing_stop_callback = None, cf_trailing_stop_activation = None\<rparr>\<rparr>"

definition demo_api_key :: ApiKey where
  "demo_api_key =
     \<lparr>ak_user_id = ''trader'', ak_exchange = ''binance'', ak_product = ''futures'',
      ak_environment = ''mainnet'', ak_api_key_encrypted = ''a2V5'',
      ak_api_secret_encrypted = ''c2VjcmV0'', ak_is_active = True\<rparr>"

definition demo_gate_db :: db where
  "demo_gate_db = demo_db
     \<lparr>api_keys := [demo_api_key],
      bot_status := [\<lparr>bs_user_id = ''trader'', bs_is_running = True,
                      bs_environment = ''mainnet'', bs_exchange = Some ''binance''\<rparr>]\<rparr>"

text \<open>The same document after two losing trades of the day, of 100 and of 50.\<close>

definition demo_loss_db :: db where
  "demo_loss_db = demo_gate_db
     \<lparr>trades :=
        [\<lparr>tr_id = ''t-1'', tr_user_id = ''trader'', tr_exchange = ''binance'',
          tr_environment = ''mainnet'', tr_symbol = ''BTCUSDT'', tr_side = ''sell'',
          tr_order_type = ''market'', tr_price = 50000, tr_quantity = 0.01,
          tr_realized_pnl = Some (- 100), tr_status = ''filled'', tr_order_id = None,
          tr_triggered_by = Some ''position_monitor'', tr_created_at = 3600000\<rparr>,
         \<lparr>tr_id = ''t-2'', tr_user_id = ''trader'', tr_exchange = ''binance'',
          tr_environment = ''mainnet'', tr_symbol = ''ETHUSDT'', tr_side = ''sell'',
          tr_order_type = ''market'', tr_price = 3000, tr_quantity = 0.1,
          tr_realized_pnl = Some (- 50), tr_status = ''filled'', tr_order_id = None,
          tr_triggered_by = Some ''position_monitor'', tr_created_at = 7200000\<rparr>]\<rparr>"

text \<open>
  For the results on the ladder: the quantity of the order that the loop sends at a
  precision, if it sends one (\<open>formatQty\<close> returns a text and the text is not empty);
  the precisions at which it sends one; and the attempts that end the ladder (a success,
  or a failure that is no precision error).
\<close>

definition qty_sent :: "real \<Rightarrow> nat \<Rightarrow> real option" where
  "qty_sent quantity decimals =
     (case formatQty quantity decimals of
        None \<Rightarrow> None
      | Some qtyStr \<Rightarrow> if qtyStr = [] then None else Some (text_value qtyStr))"




text \<open>A venue that fills the entry order and rejects the stop loss; a buy signal.\<close>

definition sl_rejected :: venue_orders where
  "sl_rejected =
     \<lparr>vo_leverage = Success None, vo_entry = (\<lambda>decimals qty. Success (Some ''12345'')),
      vo_stop_loss = Failure ''Order would immediately trigger.'',
      vo_take_profit = (\<lambda>level. Success None), vo_trailing = Success None\<rparr>"

definition demo_signal :: Signal where
  "demo_signal = \<lparr>sg_action = ''buy'', sg_symbol = ''BTCUSDT'', sg_price = 50000, sg_confidence = 1\<rparr>"

text \<open>
  An open position of the trader, a filled trade with a profit that is not yet settled, a
  venue that reports the position with size 0, and a supply of trade ids.
\<close>

definition demo_uuid :: "nat \<Rightarrow> string" where
  "demo_uuid n = replicate (Suc n) CHR ''u''"

definition demo_position :: Position where
  "demo_position =
     \<lparr>po_id = ''pos-1'', po_user_id = ''trader'', po_symbol = ''BTCUSDT'', po_side = ''long'',
      po_size = 0.002, po_entry_price = 50000, po_current_price = None, po_unrealized_pnl = 0,
      po_leverage = 1, po_stop_loss = Some 49000, po_take_profit = Some 51500,
      po_is_open = True, po_exchange = ''binance'', po_environment = ''mainnet'',
      po_created_at = 0, po_updated_at = 0\<rparr>"

definition demo_monitor_db :: db where
  "demo_monitor_db = demo_gate_db
     \<lparr>positions := [demo_position],
      trades :=
        [\<lparr>tr_id = ''t-9'', tr_user_id = ''trader'', tr_exchange = ''binance'',
          tr_environment = ''mainnet'', tr_symbol = ''ETHUSDT'', tr_side = ''sell'',
          tr_order_type = ''market'', tr_price = 3000, tr_quantity = 0.1,
          tr_realized_pnl = Some 40, tr_status = ''filled'', tr_order_id = None,
          tr_triggered_by = Some ''position_monitor'', tr_created_at = 0\<rparr>]\<rparr>"

definition venue_closed :: venue where
  "venue_closed = (\<lambda>symbol exchange isTestnet apiKey apiSecret. VenuePosition 0 25 50500)"

text \<open>
  A trader whose user id is a UUID, as \<open>crypto.randomUUID()\<close> of the sign-up route
  makes them, with an active Bybit testnet credential and one open position.
\<close>

definition uuid_user :: string where
  "uuid_user = ''9b2f6c1e-4d3a-4e8b-a1c7-5f0e2d6b8a94''"

definition uuid_api_key :: ApiKey where
  "uuid_api_key =
     \<lparr>ak_user_id = uuid_user, ak_exchange = ''bybit'', ak_product = ''futures'',
      ak_environment = ''testnet'', ak_api_key_encrypted = ''a2V5'',
      ak_api_secret_encrypted = ''c2VjcmV0'', ak_is_active = True\<rparr>"

definition uuid_position :: Position where
  "uuid_position =
     \<lparr>po_id = ''pos-7'', po_user_id = uuid_user, po_symbol = ''BTCUSDT'', po_side = ''long'',
      po_size = 0.002, po_entry_price = 50000, po_current_price = None, po_unrealized_pnl = 0,
      po_leverage = 1, po_stop_loss = None, po_take_profit = None,
      po_is_open = True, po_exchange = ''bybit'', po_environment = ''testnet'',
      po_created_at = 0, po_updated_at = 0\<rparr>"

definition uuid_monitor_db :: db where
  "uuid_monitor_db = empty_db\<lparr>api_keys := [uuid_api_key], positions := [uuid_position]\<rparr>"

text \<open>
  The document of the two losing trades with a balance of 100 and the open position, and a
  venue that reports the position with size 0 and an unrealised PnL of 60.
\<close>

definition demo_recovery_db :: db where
  "demo_recovery_db = demo_loss_db
     \<lparr>gas_fee_balances :=
        [\<lparr>gb_user_id = ''trader'', gb_environment = ''mainnet'', gb_balance = 100,
          gb_total_deposited = 100, gb_total_deducted = 0, gb_created_at = 0, gb_updated_at = 0\<rparr>],
      positions := [demo_position]\<rparr>"

definition venue_profit :: venue where
  "venue_profit = (\<lambda>symbol exchange isTestnet apiKey apiSecret. VenuePosition 0 60 50500)"

section \<open>Results: indicators and thresholds\<close>

lemma rsi_loop_smoothed:
  "rsi_loop period ag al xs =
     map (\<lambda>(avgGain, avgLoss). 100 - 100 / (1 + (if avgLoss = 0 then 100 else avgGain / avgLoss)))
       (smoothed period ag al xs)"
  by (induction period ag al xs rule: rsi_loop.induct) (simp_all add: Let_def)

lemma calculateRSI_smoothedAverages:
  "calculateRSI prices period =
     map (\<lambda>(avgGain, avgLoss). 100 - 100 / (1 + (if avgLoss = 0 then 100 else avgGain / avgLoss)))
       (smoothedAverages prices period)"
  by (simp add: calculateRSI_def smoothedAverages_def rsi_loop_smoothed Let_def)

lemma calculateRSI_zero_loss:
  assumes "0 < period" and "k < length (smoothedAverages prices period)"
    and "snd (smoothedAverages prices period ! k) = 0"
  shows "calculateRSI prices period ! k = 10000 / 101"
proof -
  obtain ag al where p: "smoothedAverages prices period ! k = (ag, al)"
    by (cases "smoothedAverages prices period ! k")
  with assms(3) have "al = 0" by simp
  with assms(2) p show ?thesis
    by (simp add: calculateRSI_smoothedAverages)
qed

text \<open>
  C9.  The claim reads: wherever the smoothed average loss is zero, \<open>calculateRSI\<close> returns
  100.  The code sets the relative strength \<open>rs\<close> to 100 in that case and then still
  evaluates \<open>100 - 100 / (1 + rs)\<close>: on the strictly increasing series 1, 2, 3, 4 with
  period 2 the average loss is zero at the only output index and the value is
  \<open>10000 / 101\<close> (about 99.01), not 100.
\<close>

theorem calculateRSI_increasing_not_100:
  "smoothedAverages [1, 2, 3, 4] 2 = [(1, 0)]
   \<and> calculateRSI [1, 2, 3, 4] 2 = [10000 / 101]
   \<and> calculateRSI [1, 2, 3, 4] 2 ! 0 \<noteq> 100"
  by (simp add: calculateRSI_def smoothedAverages_def gains_def losses_def Let_def)

text \<open>
  C8, as stated: for every configuration the effective oversold threshold is at most 30
  and the effective overbought threshold at least 70.  A configured oversold level of 40
  and overbought level of 60 are used as they are.
\<close>

theorem rsi_thresholds_counterexample:
  "\<not> (rsiOversold (default_indicators\<lparr>rsi_oversold := 40, rsi_overbought := 60\<rparr>) \<le> 30
      \<and> rsiOverbought (default_indicators\<lparr>rsi_oversold := 40, rsi_overbought := 60\<rparr>) \<ge> 70)"
  by (simp add: rsiOversold_def rsiOverbought_def default_indicators_def)

text \<open>
  C8, amended: the effective oversold threshold is 25 when the configured one is at most
  30 and the configured one otherwise; the effective overbought threshold is 75 when the
  configured one is at least 70 and the configured one otherwise.  So the effective
  oversold threshold is at most 30 exactly when the configured one is, and the effective
  overbought threshold is at least 70 exactly when the configured one is; an RSI value is
  classified against these two numbers.
\<close>

theorem rsi_thresholds_effective:
  "rsiOversold ind = (if rsi_oversold ind \<le> 30 then 25 else rsi_oversold ind)
   \<and> rsiOverbought ind = (if rsi_overbought ind \<ge> 70 then 75 else rsi_overbought ind)
   \<and> (rsiOversold ind \<le> 30 \<longleftrightarrow> rsi_oversold ind \<le> 30)
   \<and> (rsiOverbought ind \<ge> 70 \<longleftrightarrow> rsi_overbought ind \<ge> 70)
   \<and> (rsi_signal ind r = Oversold \<longleftrightarrow> r < rsiOversold ind)
   \<and> (rsi_signal ind r = Overbought \<longleftrightarrow> rsiOversold ind \<le> r \<and> r > rsiOverbought ind)"
  by (simp add: rsiOversold_def rsiOverbought_def rsi_signal_def)

theorem rsi_thresholds_effective_witness:
  "rsiOversold default_indicators = 25 \<and> rsiOverbought default_indicators = 75
   \<and> rsiOversold (default_indicators\<lparr>rsi_oversold := 40\<rparr>) = 40
   \<and> rsiOverbought (default_indicators\<lparr>rsi_overbought := 60\<rparr>) = 60
   \<and> rsi_signal (default_indicators\<lparr>rsi_oversold := 40\<rparr>) 35 = Oversold"
  using rsi_thresholds_effective [of default_indicators 35]
    rsi_thresholds_effective [of "default_indicators\<lparr>rsi_oversold := 40\<rparr>" 35]
    rsi_thresholds_effective [of "default_indicators\<lparr>rsi_overbought := 60\<rparr>" 35]
  by (simp add: default_indicators_def)

section \<open>Results: profit sharing\<close>

lemma findIndex_None_iff: "findIndex P xs = None \<longleftrightarrow> (\<forall>x\<in>set xs. \<not> P x)"
  by (induction xs) (auto split: option.splits)

lemma findIndex_SomeD:
  "findIndex P xs = Some i \<Longrightarrow> i < length xs \<and> P (xs ! i) \<and> (\<forall>j<i. \<not> P (xs ! j))"
proof (induction xs arbitrary: i)
  case Nil
  then show ?case by simp
next
  case (Cons x xs)
  show ?case
  proof (cases "P x")
    case True
    with Cons.prems show ?thesis by simp
  next
    case False
    with Cons.prems obtain k where k: "findIndex P xs = Some k" "i = Suc k"
      by (auto split: option.splits)
    from Cons.IH [OF k(1)] False k(2) show ?thesis
      by (auto simp: nth_Cons split: nat.splits)
  qed
qed

lemma find_findIndex:
  "find P xs = (case findIndex P xs of None \<Rightarrow> None | Some i \<Rightarrow> Some (xs ! i))"
  by (induction xs) (auto split: option.splits)

lemma find_update_same:
  "findIndex P xs = Some i \<Longrightarrow> P y \<Longrightarrow> find P (xs[i := y]) = Some y"
proof (induction xs arbitrary: i)
  case Nil
  then show ?case by simp
next
  case (Cons x xs)
  show ?case
  proof (cases "P x")
    case True
    with Cons.prems show ?thesis by simp
  next
    case False
    with Cons.prems obtain j where j: "findIndex P xs = Some j" "i = Suc j"
      by (auto split: option.splits)
    from Cons.IH [OF j(1) Cons.prems(2)] False j(2) show ?thesis
      by simp
  qed
qed

lemma find_update_other:
  "i < length xs \<Longrightarrow> \<not> Q y \<Longrightarrow> \<not> Q (xs ! i) \<Longrightarrow> find Q (xs[i := y]) = find Q xs"
proof (induction xs arbitrary: i)
  case Nil
  then show ?case by simp
next
  case (Cons x xs)
  then show ?case by (cases i) simp_all
qed

lemma find_append_one:
  "find P (xs @ [y]) = (case find P xs of Some b \<Rightarrow> Some b | None \<Rightarrow> if P y then Some y else None)"
  by (induction xs) auto

text \<open>Crediting (or debiting) the balance object that getOrCreateGasBalance returns.\<close>

lemma balance_after_update:
  assumes g: "getOrCreateGasBalance u e now d = (i, d2)"
    and upd: "gb_user_id b' = u" "gb_environment b' = e"
      "gb_balance b' = gb_balance (gas_fee_balances d2 ! i) + x"
  shows "balance_of (d2\<lparr>gas_fee_balances := (gas_fee_balances d2)[i := b']\<rparr>) u' e'
         = balance_of d u' e' + (if u' = u \<and> e' = e then x else 0)"
proof -
  define P where "P = (\<lambda>b::GasFeeBalance. gb_user_id b = u \<and> gb_environment b = e)"
  define Q where "Q = (\<lambda>b::GasFeeBalance. gb_user_id b = u' \<and> gb_environment b = e')"
  define xs where "xs = gas_fee_balances d"
  define fresh where "fresh = \<lparr>gb_user_id = u, gb_environment = e, gb_balance = 0,
       gb_total_deposited = 0, gb_total_deducted = 0, gb_created_at = now, gb_updated_at = now\<rparr>"
  have Pb: "P b'" using upd by (simp add: P_def)
  have bal: "\<And>dd. balance_of dd u' e' = (case find Q (gas_fee_balances dd) of None \<Rightarrow> 0 | Some b \<Rightarrow> gb_balance b)"
    by (simp add: balance_of_def Q_def)
  have same: "(u' = u \<and> e' = e) \<Longrightarrow> Q = P" by (auto simp: P_def Q_def)
  have other: "\<not> (u' = u \<and> e' = e) \<Longrightarrow> P b \<Longrightarrow> \<not> Q b" for b by (auto simp: P_def Q_def)
  let ?rd = "\<lambda>ys. case find Q ys of None \<Rightarrow> 0 | Some b \<Rightarrow> gb_balance b"
  have main: "?rd ((gas_fee_balances d2)[i := b']) = ?rd xs + (if u' = u \<and> e' = e then x else 0)"
  proof (cases "findIndex P xs")
    case None
    then have none: "find P xs = None" by (simp add: find_findIndex)
    from None g have i: "i = length xs" and d2: "gas_fee_balances d2 = xs @ [fresh]"
      by (auto simp: getOrCreateGasBalance_def P_def xs_def fresh_def)
    have new: "(gas_fee_balances d2)[i := b'] = xs @ [b']" by (simp add: i d2)
    have b0: "gb_balance b' = x" using upd(3) by (simp add: i d2 fresh_def)
    show ?thesis
    proof (cases "u' = u \<and> e' = e")
      case True
      with same have "Q = P" by simp
      with none Pb b0 True show ?thesis
        by (simp add: new find_append_one)
    next
      case False
      with other [OF False Pb] show ?thesis
        by (auto simp: new find_append_one split: option.splits)
    qed
  next
    case (Some j)
    with g have i: "i = j" and d2: "d2 = d"
      by (auto simp: getOrCreateGasBalance_def P_def xs_def)
    from findIndex_SomeD [OF Some] have j: "j < length xs" "P (xs ! j)" by simp_all
    have old: "find P xs = Some (xs ! j)" using Some by (simp add: find_findIndex)
    have b0: "gb_balance b' = gb_balance (xs ! j) + x" using upd(3) by (simp add: i d2 xs_def)
    show ?thesis
    proof (cases "u' = u \<and> e' = e")
      case True
      with same have "Q = P" by simp
      with find_update_same [OF Some Pb] old b0 True show ?thesis
        by (simp add: i d2 xs_def [symmetric])
    next
      case False
      from find_update_other [OF j(1) other [OF False Pb] other [OF False j(2)]] False
      show ?thesis
        by (auto simp: i d2 xs_def [symmetric])
    qed
  qed
  then show ?thesis by (simp add: bal xs_def)
qed

lemma getOrCreateGasBalance_frame:
  assumes "getOrCreateGasBalance u e now d = (i, d2)"
  shows "d2 = d\<lparr>gas_fee_balances := gas_fee_balances d2\<rparr>"
    and "i < length (gas_fee_balances d2)"
    and "gb_user_id (gas_fee_balances d2 ! i) = u"
    and "gb_environment (gas_fee_balances d2 ! i) = e"
    and "gb_balance (gas_fee_balances d2 ! i) = balance_of d u e"
proof -
  let ?P = "\<lambda>b::GasFeeBalance. gb_user_id b = u \<and> gb_environment b = e"
  show "d2 = d\<lparr>gas_fee_balances := gas_fee_balances d2\<rparr>"
    using assms by (auto simp: getOrCreateGasBalance_def split: option.splits)
  show "i < length (gas_fee_balances d2)"
    using assms findIndex_SomeD [of ?P "gas_fee_balances d"]
    by (auto simp: getOrCreateGasBalance_def split: option.splits)
  show "gb_user_id (gas_fee_balances d2 ! i) = u"
    using assms findIndex_SomeD [of ?P "gas_fee_balances d"]
    by (auto simp: getOrCreateGasBalance_def split: option.splits)
  show "gb_environment (gas_fee_balances d2 ! i) = e"
    using assms findIndex_SomeD [of ?P "gas_fee_balances d"]
    by (auto simp: getOrCreateGasBalance_def split: option.splits)
  show "gb_balance (gas_fee_balances d2 ! i) = balance_of d u e"
    using assms
    by (auto simp: getOrCreateGasBalance_def balance_of_def find_findIndex split: option.splits)
qed

text \<open>What settle_fee does to each table.\<close>

lemma settle_fee_tables:
  "profit_settlements (settle_fee u t g e now d) = profit_settlements d @
     [\<lparr>ps_user_id = u, ps_trade_id = Some t, ps_gross_profit = g,
       ps_service_fee_rate = SERVICE_FEE_RATE, ps_service_fee_amount = g * SERVICE_FEE_RATE,
       ps_net_profit = g - g * SERVICE_FEE_RATE, ps_created_at = now\<rparr>]"
  "gas_fee_transactions (settle_fee u t g e now d) = gas_fee_transactions d @
     [\<lparr>tx_user_id = u, tx_amount = - (g * SERVICE_FEE_RATE), tx_transaction_type = service_fee,
       tx_description = ''Service fee for profitable trade'', tx_trade_id = t,
       tx_balance_before = balance_of d u e,
       tx_balance_after = balance_of d u e - g * SERVICE_FEE_RATE,
       tx_environment = e, tx_created_at = now\<rparr>]"
  "referral_commissions (settle_fee u t g e now d) = referral_commissions d"
  "admin_earnings (settle_fee u t g e now d) = admin_earnings d"
  "trades (settle_fee u t g e now d) = trades d"
  "positions (settle_fee u t g e now d) = positions d"
  "profiles (settle_fee u t g e now d) = profiles d"
  "api_keys (settle_fee u t g e now d) = api_keys d"
  "webhook_logs (settle_fee u t g e now d) = webhook_logs d"
  "bot_status (settle_fee u t g e now d) = bot_status d"
proof -
  define d1 where "d1 = d\<lparr>profit_settlements := profit_settlements d @
     [\<lparr>ps_user_id = u, ps_trade_id = Some t, ps_gross_profit = g,
       ps_service_fee_rate = SERVICE_FEE_RATE, ps_service_fee_amount = g * SERVICE_FEE_RATE,
       ps_net_profit = g - g * SERVICE_FEE_RATE, ps_created_at = now\<rparr>]\<rparr>"
  obtain i d2 where g: "getOrCreateGasBalance u e now d1 = (i, d2)"
    by (cases "getOrCreateGasBalance u e now d1")
  note fr = getOrCreateGasBalance_frame [OF g]
  have b: "balance_of d1 u e = balance_of d u e" by (simp add: d1_def balance_of_def)
  have sf: "settle_fee u t g e now d =
    d2\<lparr>gas_fee_balances := (gas_fee_balances d2)
          [i := (gas_fee_balances d2 ! i)
             \<lparr>gb_balance := balance_of d u e - g * SERVICE_FEE_RATE,
              gb_total_deducted := gb_total_deducted (gas_fee_balances d2 ! i) + g * SERVICE_FEE_RATE,
              gb_updated_at := now\<rparr>],
        gas_fee_transactions := gas_fee_transactions d2 @
          [\<lparr>tx_user_id = u, tx_amount = - (g * SERVICE_FEE_RATE), tx_transaction_type = service_fee,
            tx_description = ''Service fee for profitable trade'', tx_trade_id = t,
            tx_balance_before = balance_of d u e,
            tx_balance_after = balance_of d u e - g * SERVICE_FEE_RATE,
            tx_environment = e, tx_created_at = now\<rparr>]\<rparr>"
    using g fr(5) b by (simp add: settle_fee_def Let_def d1_def [symmetric])
  have d2: "profit_settlements d2 = profit_settlements d1" "gas_fee_transactions d2 = gas_fee_transactions d1"
    "referral_commissions d2 = referral_commissions d1" "admin_earnings d2 = admin_earnings d1"
    "trades d2 = trades d1" "positions d2 = positions d1" "profiles d2 = profiles d1"
    "api_keys d2 = api_keys d1" "webhook_logs d2 = webhook_logs d1" "bot_status d2 = bot_status d1"
  proof -
    obtain xs where x: "d2 = d1\<lparr>gas_fee_balances := xs\<rparr>" by (rule that [OF fr(1)])
    show "profit_settlements d2 = profit_settlements d1" "gas_fee_transactions d2 = gas_fee_transactions d1"
    "referral_commissions d2 = referral_commissions d1" "admin_earnings d2 = admin_earnings d1"
    "trades d2 = trades d1" "positions d2 = positions d1" "profiles d2 = profiles d1"
    "api_keys d2 = api_keys d1" "webhook_logs d2 = webhook_logs d1" "bot_status d2 = bot_status d1"
      by (simp_all add: x)
  qed
  show "profit_settlements (settle_fee u t g e now d) = profit_settlements d @
     [\<lparr>ps_user_id = u, ps_trade_id = Some t, ps_gross_profit = g,
       ps_service_fee_rate = SERVICE_FEE_RATE, ps_service_fee_amount = g * SERVICE_FEE_RATE,
       ps_net_profit = g - g * SERVICE_FEE_RATE, ps_created_at = now\<rparr>]"
    by (simp add: sf d2 d1_def)
  show "gas_fee_transactions (settle_fee u t g e now d) = gas_fee_transactions d @
     [\<lparr>tx_user_id = u, tx_amount = - (g * SERVICE_FEE_RATE), tx_transaction_type = service_fee,
       tx_description = ''Service fee for profitable trade'', tx_trade_id = t,
       tx_balance_before = balance_of d u e,
       tx_balance_after = balance_of d u e - g * SERVICE_FEE_RATE,
       tx_environment = e, tx_created_at = now\<rparr>]"
    by (simp add: sf d2 d1_def)
  show "referral_commissions (settle_fee u t g e now d) = referral_commissions d"
    "admin_earnings (settle_fee u t g e now d) = admin_earnings d"
    "trades (settle_fee u t g e now d) = trades d"
    "positions (settle_fee u t g e now d) = positions d"
    "profiles (settle_fee u t g e now d) = profiles d"
    "api_keys (settle_fee u t g e now d) = api_keys d"
    "webhook_logs (settle_fee u t g e now d) = webhook_logs d"
    "bot_status (settle_fee u t g e now d) = bot_status d"
    by (simp_all add: sf d2 d1_def)
qed

lemma settle_fee_balance:
  "balance_of (settle_fee u t g e now d) u' e'
   = balance_of d u' e' - (if u' = u \<and> e' = e then g * SERVICE_FEE_RATE else 0)"
proof -
  define d1 where "d1 = d\<lparr>profit_settlements := profit_settlements d @
     [\<lparr>ps_user_id = u, ps_trade_id = Some t, ps_gross_profit = g,
       ps_service_fee_rate = SERVICE_FEE_RATE, ps_service_fee_amount = g * SERVICE_FEE_RATE,
       ps_net_profit = g - g * SERVICE_FEE_RATE, ps_created_at = now\<rparr>]\<rparr>"
  obtain i d2 where g: "getOrCreateGasBalance u e now d1 = (i, d2)"
    by (cases "getOrCreateGasBalance u e now d1")
  note fr = getOrCreateGasBalance_frame [OF g]
  have b: "balance_of d1 u' e' = balance_of d u' e'" by (simp add: d1_def balance_of_def)
  define b' where "b' = (gas_fee_balances d2 ! i)
             \<lparr>gb_balance := gb_balance (gas_fee_balances d2 ! i) - g * SERVICE_FEE_RATE,
              gb_total_deducted := gb_total_deducted (gas_fee_balances d2 ! i) + g * SERVICE_FEE_RATE,
              gb_updated_at := now\<rparr>"
  have "balance_of (settle_fee u t g e now d) u' e'
        = balance_of (d2\<lparr>gas_fee_balances := (gas_fee_balances d2)[i := b']\<rparr>) u' e'"
    using g by (simp add: settle_fee_def Let_def d1_def [symmetric] b'_def balance_of_def)
  also have "\<dots> = balance_of d1 u' e' + (if u' = u \<and> e' = e then - (g * SERVICE_FEE_RATE) else 0)"
    by (rule balance_after_update [OF g]) (simp_all add: b'_def fr(3,4))
  finally show ?thesis by (simp add: b)
qed

lemma pay_commission_skip:
  "g * referral_rate k \<le> 0 \<Longrightarrow> pay_commission u t g e now (k, p) (d, tot) = (d, tot)"
  by (simp add: pay_commission_def Let_def)

lemma pay_commission_step:
  assumes pos: "0 < g * referral_rate k"
  obtains d' where "pay_commission u t g e now (k, p) (d, tot) = (d', tot + g * referral_rate k)"
    and "referral_commissions d' = referral_commissions d @ [commission_row u t g now (k, p)]"
    and "\<exists>x. gas_fee_transactions d' = gas_fee_transactions d @ [x]
           \<and> tx_user_id x = pf_user_id p \<and> tx_amount x = g * referral_rate k
           \<and> tx_transaction_type x = referral_commission \<and> tx_trade_id x = t
           \<and> tx_balance_before x = balance_of d (pf_user_id p) e
           \<and> tx_balance_after x = balance_of d (pf_user_id p) e + g * referral_rate k"
    and "\<And>u' e'. balance_of d' u' e'
           = balance_of d u' e' + (if u' = pf_user_id p \<and> e' = e then g * referral_rate k else 0)"
    and "profit_settlements d' = profit_settlements d" and "admin_earnings d' = admin_earnings d"
    and "trades d' = trades d" and "positions d' = positions d" and "profiles d' = profiles d"
    and "api_keys d' = api_keys d" and "webhook_logs d' = webhook_logs d"
    and "bot_status d' = bot_status d"
proof -
  define c where "c = g * referral_rate k"
  define d1 where "d1 = d\<lparr>referral_commissions := referral_commissions d @
                        [commission_row u t g now (k, p)]\<rparr>"
  obtain i d2 where gc: "getOrCreateGasBalance (pf_user_id p) e now d1 = (i, d2)"
    by (cases "getOrCreateGasBalance (pf_user_id p) e now d1")
  note fr = getOrCreateGasBalance_frame [OF gc]
  obtain xs where x: "d2 = d1\<lparr>gas_fee_balances := xs\<rparr>" by (rule that [OF fr(1)])
  have bd1: "\<And>u' e'. balance_of d1 u' e' = balance_of d u' e'"
    by (simp add: d1_def balance_of_def)
  define b' where "b' = (gas_fee_balances d2 ! i)
      \<lparr>gb_balance := gb_balance (gas_fee_balances d2 ! i) + c,
       gb_total_deposited := gb_total_deposited (gas_fee_balances d2 ! i) + c,
       gb_updated_at := now\<rparr>"
  define row where "row = \<lparr>tx_user_id = pf_user_id p, tx_amount = c,
       tx_transaction_type = referral_commission,
       tx_description = ''Referral commission (level '' @ digit_text k @ '')'',
       tx_trade_id = t, tx_balance_before = gb_balance (gas_fee_balances d2 ! i),
       tx_balance_after = gb_balance (gas_fee_balances d2 ! i) + c, tx_environment = e,
       tx_created_at = now\<rparr>"
  define d' where "d' = d2\<lparr>gas_fee_balances := (gas_fee_balances d2)[i := b'],
       gas_fee_transactions := gas_fee_transactions d2 @ [row]\<rparr>"
  have npos: "\<not> c \<le> 0" using pos by (simp add: c_def)
  have eq: "pay_commission u t g e now (k, p) (d, tot) = (d', tot + c)"
    using npos gc
    by (simp add: pay_commission_def Let_def c_def commission_row_def d1_def d'_def b'_def row_def)
  have bal: "balance_of d' u' e'
           = balance_of d u' e' + (if u' = pf_user_id p \<and> e' = e then c else 0)" for u' e'
  proof -
    have "balance_of d' u' e' = balance_of (d2\<lparr>gas_fee_balances := (gas_fee_balances d2)[i := b']\<rparr>) u' e'"
      by (simp add: d'_def balance_of_def)
    also have "\<dots> = balance_of d1 u' e' + (if u' = pf_user_id p \<and> e' = e then c else 0)"
      by (rule balance_after_update [OF gc]) (simp_all add: b'_def fr(3,4))
    finally show ?thesis by (simp add: bd1)
  qed
  show thesis
  proof (rule that [of d'])
    show "pay_commission u t g e now (k, p) (d, tot) = (d', tot + g * referral_rate k)"
      using eq by (simp add: c_def)
    show "referral_commissions d' = referral_commissions d @ [commission_row u t g now (k, p)]"
      by (simp add: d'_def x d1_def)
    show "\<exists>x. gas_fee_transactions d' = gas_fee_transactions d @ [x]
           \<and> tx_user_id x = pf_user_id p \<and> tx_amount x = g * referral_rate k
           \<and> tx_transaction_type x = referral_commission \<and> tx_trade_id x = t
           \<and> tx_balance_before x = balance_of d (pf_user_id p) e
           \<and> tx_balance_after x = balance_of d (pf_user_id p) e + g * referral_rate k"
    proof (intro exI [of _ row] conjI)
      show "gas_fee_transactions d' = gas_fee_transactions d @ [row]"
        by (simp add: d'_def x d1_def)
    qed (simp_all add: row_def c_def fr(5) bd1)
    show "balance_of d' u' e'
           = balance_of d u' e' + (if u' = pf_user_id p \<and> e' = e then g * referral_rate k else 0)"
      for u' e' using bal [of u' e'] by (simp add: c_def)
    show "profit_settlements d' = profit_settlements d" "admin_earnings d' = admin_earnings d"
      "trades d' = trades d" "positions d' = positions d" "profiles d' = profiles d"
      "api_keys d' = api_keys d" "webhook_logs d' = webhook_logs d" "bot_status d' = bot_status d"
      by (simp_all add: d'_def x d1_def)
  qed
qed

lemma referral_walk_None [simp]: "referral_walk ps None level = []"
  by (subst referral_walk.simps) simp

lemma referral_walk_Some:
  "referral_walk ps (Some cur) level =
     (case pf_referrer_id cur of
        None \<Rightarrow> []
      | Some r \<Rightarrow>
          if r = [] \<or> \<not> level \<le> 3 then []
          else (case find (\<lambda>p. pf_id p = r) ps of
                  None \<Rightarrow> []
                | Some rp \<Rightarrow> (level, rp) # referral_walk ps (Some rp) (level + 1)))"
  by (subst referral_walk.simps) simp

lemma referral_walk_levels:
  "map fst (referral_walk ps c l) = [l ..< l + length (referral_walk ps c l)]
   \<and> length (referral_walk ps c l) \<le> 4 - l"
proof (induction ps c l rule: referral_walk.induct)
  case (1 ps currentProfile level)
  show ?case
  proof (cases currentProfile)
    case None
    then show ?thesis by simp
  next
    case (Some cur)
    show ?thesis
    proof (cases "pf_referrer_id cur")
      case None
      with Some show ?thesis by (simp add: referral_walk_Some)
    next
      case r: (Some r)
      show ?thesis
      proof (cases "r = [] \<or> \<not> level \<le> 3")
        case True
        with Some r show ?thesis by (simp add: referral_walk_Some)
      next
        case False
        show ?thesis
        proof (cases "find (\<lambda>p. pf_id p = r) ps")
          case None
          with Some r False show ?thesis by (simp add: referral_walk_Some)
        next
          case rp: (Some rp)
          have unf: "referral_walk ps currentProfile level
                = (level, rp) # referral_walk ps (Some rp) (level + 1)"
            using Some r False rp by (simp add: referral_walk_Some)
          from "1.IH" [OF Some r False rp]
          have ih: "map fst (referral_walk ps (Some rp) (level + 1))
              = [level + 1 ..< level + 1 + length (referral_walk ps (Some rp) (level + 1))]"
            "length (referral_walk ps (Some rp) (level + 1)) \<le> 4 - (level + 1)"
            by simp_all
          define n where "n = length (referral_walk ps (Some rp) (level + 1))"
          have up: "[level ..< level + Suc n] = level # [level + 1 ..< level + 1 + n]"
            by (subst upt_conv_Cons) simp_all
          from False have "level \<le> 3" by simp
          with ih(2) have len: "Suc n \<le> 4 - level" by (simp add: n_def)
          have "map fst (referral_walk ps currentProfile level)
                = level # map fst (referral_walk ps (Some rp) (level + 1))"
            by (simp add: unf)
          also have "\<dots> = level # [level + 1 ..< level + 1 + n]"
            by (simp only: ih(1) n_def)
          also have "\<dots> = [level ..< level + Suc n]"
            by (rule up [symmetric])
          finally show ?thesis using len by (simp add: unf n_def)
        qed
      qed
    qed
  qed
qed

lemma referral_rate_pos: "1 \<le> k \<Longrightarrow> k \<le> 3 \<Longrightarrow> 0 < referral_rate k"
proof -
  assume "1 \<le> k" "k \<le> 3"
  then have "k = 1 \<or> k = 2 \<or> k = 3" by arith
  then show ?thesis
    by (auto simp: referral_rate_def REFERRAL_RATES_def)
qed

lemma getReferralChain_levels:
  "map fst (getReferralChain d u) = [1 ..< Suc (length (getReferralChain d u))]"
  "length (getReferralChain d u) \<le> 3"
  using referral_walk_levels [of "profiles d" "find (\<lambda>p. pf_user_id p = u) (profiles d)" 1]
  by (simp_all add: getReferralChain_def)

lemma getReferralChain_rate_pos:
  assumes "entry \<in> set (getReferralChain d u)"
  shows "0 < referral_rate (fst entry)"
proof -
  from assms have "fst entry \<in> set (map fst (getReferralChain d u))" by simp
  then have "fst entry \<in> set [1 ..< Suc (length (getReferralChain d u))]"
    by (simp only: getReferralChain_levels(1))
  with getReferralChain_levels(2) [of d u] have "1 \<le> fst entry" "fst entry \<le> 3" by auto
  then show ?thesis by (rule referral_rate_pos)
qed

lemma fold_pay_commission:
  assumes "\<forall>entry\<in>set chain. 0 < g * referral_rate (fst entry)"
  shows "\<exists>d'. fold (pay_commission u t g e now) chain (d, tot)
            = (d', tot + sum_list (map (\<lambda>entry. g * referral_rate (fst entry)) chain))
     \<and> referral_commissions d' = referral_commissions d @ map (commission_row u t g now) chain
     \<and> (\<exists>rows. gas_fee_transactions d' = gas_fee_transactions d @ rows
           \<and> map ledger_view rows
               = map (\<lambda>entry. (pf_user_id (snd entry), g * referral_rate (fst entry),
                       referral_commission, t)) chain
           \<and> (\<forall>x\<in>set rows. tx_balance_after x = tx_balance_before x + tx_amount x))
     \<and> (\<forall>u' e'. balance_of d' u' e' = balance_of d u' e' +
           (if e' = e then sum_list (map (\<lambda>entry. g * referral_rate (fst entry))
                 (filter (\<lambda>entry. pf_user_id (snd entry) = u') chain)) else 0))
     \<and> profit_settlements d' = profit_settlements d \<and> admin_earnings d' = admin_earnings d
     \<and> trades d' = trades d \<and> positions d' = positions d \<and> profiles d' = profiles d
     \<and> api_keys d' = api_keys d \<and> webhook_logs d' = webhook_logs d
     \<and> bot_status d' = bot_status d"
  using assms
proof (induction chain arbitrary: d tot)
  case Nil
  show ?case by simp
next
  case (Cons entry chain)
  obtain k p where entry: "entry = (k, p)" by (cases entry)
  from Cons.prems have pos: "0 < g * referral_rate k"
    and rest: "\<forall>entry\<in>set chain. 0 < g * referral_rate (fst entry)"
    by (simp_all add: entry)
  obtain d1 where step: "pay_commission u t g e now (k, p) (d, tot) = (d1, tot + g * referral_rate k)"
    and rc1: "referral_commissions d1 = referral_commissions d @ [commission_row u t g now (k, p)]"
    and tx1: "\<exists>x. gas_fee_transactions d1 = gas_fee_transactions d @ [x]
           \<and> tx_user_id x = pf_user_id p \<and> tx_amount x = g * referral_rate k
           \<and> tx_transaction_type x = referral_commission \<and> tx_trade_id x = t
           \<and> tx_balance_before x = balance_of d (pf_user_id p) e
           \<and> tx_balance_after x = balance_of d (pf_user_id p) e + g * referral_rate k"
    and bal1: "\<And>u' e'. balance_of d1 u' e'
           = balance_of d u' e' + (if u' = pf_user_id p \<and> e' = e then g * referral_rate k else 0)"
    and fr1: "profit_settlements d1 = profit_settlements d" "admin_earnings d1 = admin_earnings d"
      "trades d1 = trades d" "positions d1 = positions d" "profiles d1 = profiles d"
      "api_keys d1 = api_keys d" "webhook_logs d1 = webhook_logs d" "bot_status d1 = bot_status d"
    using pay_commission_step [OF pos, where u = u and t = t and e = e and now = now and p = p
        and d = d and tot = tot] by metis
  from tx1 obtain x where x: "gas_fee_transactions d1 = gas_fee_transactions d @ [x]"
    "ledger_view x = (pf_user_id p, g * referral_rate k, referral_commission, t)"
    "tx_balance_after x = tx_balance_before x + tx_amount x"
    by (auto simp: ledger_view_def)
  from Cons.IH [OF rest, of d1 "tot + g * referral_rate k"]
  obtain d' rows where
    f: "fold (pay_commission u t g e now) chain (d1, tot + g * referral_rate k)
            = (d', tot + g * referral_rate k + sum_list (map (\<lambda>entry. g * referral_rate (fst entry)) chain))"
    and rc: "referral_commissions d' = referral_commissions d1 @ map (commission_row u t g now) chain"
    and tx: "gas_fee_transactions d' = gas_fee_transactions d1 @ rows"
      "map ledger_view rows
               = map (\<lambda>entry. (pf_user_id (snd entry), g * referral_rate (fst entry),
                       referral_commission, t)) chain"
      "\<forall>x\<in>set rows. tx_balance_after x = tx_balance_before x + tx_amount x"
    and bal: "\<forall>u' e'. balance_of d' u' e' = balance_of d1 u' e' +
           (if e' = e then sum_list (map (\<lambda>entry. g * referral_rate (fst entry))
                 (filter (\<lambda>entry. pf_user_id (snd entry) = u') chain)) else 0)"
    and fr: "profit_settlements d' = profit_settlements d1" "admin_earnings d' = admin_earnings d1"
      "trades d' = trades d1" "positions d' = positions d1" "profiles d' = profiles d1"
      "api_keys d' = api_keys d1" "webhook_logs d' = webhook_logs d1" "bot_status d' = bot_status d1"
    by blast
  show ?case
  proof (intro exI [of _ d'] conjI)
    show "fold (pay_commission u t g e now) (entry # chain) (d, tot)
            = (d', tot + sum_list (map (\<lambda>entry. g * referral_rate (fst entry)) (entry # chain)))"
      by (simp add: entry step f add.assoc)
    show "referral_commissions d' = referral_commissions d @ map (commission_row u t g now) (entry # chain)"
      by (simp add: rc rc1 entry)
    show "\<exists>rows. gas_fee_transactions d' = gas_fee_transactions d @ rows
           \<and> map ledger_view rows
               = map (\<lambda>entry. (pf_user_id (snd entry), g * referral_rate (fst entry),
                       referral_commission, t)) (entry # chain)
           \<and> (\<forall>x\<in>set rows. tx_balance_after x = tx_balance_before x + tx_amount x)"
      by (rule exI [of _ "x # rows"]) (simp add: tx x entry)
    show "\<forall>u' e'. balance_of d' u' e' = balance_of d u' e' +
           (if e' = e then sum_list (map (\<lambda>entry. g * referral_rate (fst entry))
                 (filter (\<lambda>entry. pf_user_id (snd entry) = u') (entry # chain))) else 0)"
      by (simp add: bal bal1 entry)
  qed (simp_all add: fr fr1)
qed

lemma processProfitSharing_nonpos:
  "g \<le> 0 \<Longrightarrow> processProfitSharing u t g e now d = d"
  by (simp add: processProfitSharing_def)

lemma getReferralChain_profiles:
  "profiles d' = profiles d \<Longrightarrow> getReferralChain d' u = getReferralChain d u"
  by (simp add: getReferralChain_def)

lemma processProfitSharing_pos:
  fixes d :: db and u t e :: string and g :: real and now :: timestamp
  assumes g: "0 < g"
  defines "chain \<equiv> getReferralChain d u"
  defines "paid \<equiv> sum_list (map (\<lambda>entry. g * referral_rate (fst entry)) chain)"
  defines "d' \<equiv> processProfitSharing u t g e now d"
  shows "profit_settlements d' = profit_settlements d @
           [\<lparr>ps_user_id = u, ps_trade_id = Some t, ps_gross_profit = g,
             ps_service_fee_rate = SERVICE_FEE_RATE, ps_service_fee_amount = g * SERVICE_FEE_RATE,
             ps_net_profit = g - g * SERVICE_FEE_RATE, ps_created_at = now\<rparr>]"
    and "referral_commissions d' = referral_commissions d @ map (commission_row u t g now) chain"
    and "admin_earnings d' = admin_earnings d @
           [\<lparr>ae_source_user_id = u, ae_trade_id = t, ae_gross_profit = g,
             ae_total_service_fee = g * SERVICE_FEE_RATE, ae_referral_commissions_paid = paid,
             ae_admin_share = g * SERVICE_FEE_RATE - paid, ae_created_at = now\<rparr>]"
    and "\<exists>rows. gas_fee_transactions d' = gas_fee_transactions d @
           \<lparr>tx_user_id = u, tx_amount = - (g * SERVICE_FEE_RATE), tx_transaction_type = service_fee,
             tx_description = ''Service fee for profitable trade'', tx_trade_id = t,
             tx_balance_before = balance_of d u e,
             tx_balance_after = balance_of d u e - g * SERVICE_FEE_RATE,
             tx_environment = e, tx_created_at = now\<rparr> # rows
           \<and> map ledger_view rows
               = map (\<lambda>entry. (pf_user_id (snd entry), g * referral_rate (fst entry),
                       referral_commission, t)) chain
           \<and> (\<forall>x\<in>set rows. tx_balance_after x = tx_balance_before x + tx_amount x)"
    and "\<And>u' e'. balance_of d' u' e' = balance_of d u' e'
           - (if u' = u \<and> e' = e then g * SERVICE_FEE_RATE else 0)
           + (if e' = e then sum_list (map (\<lambda>entry. g * referral_rate (fst entry))
                 (filter (\<lambda>entry. pf_user_id (snd entry) = u') chain)) else 0)"
    and "trades d' = trades d" and "positions d' = positions d" and "profiles d' = profiles d"
    and "api_keys d' = api_keys d" and "webhook_logs d' = webhook_logs d"
    and "bot_status d' = bot_status d"
proof -
  define d1 where "d1 = settle_fee u t g e now d"
  have ch: "getReferralChain d1 u = chain"
    unfolding chain_def d1_def by (rule getReferralChain_profiles) (rule settle_fee_tables)
  have rates: "\<forall>entry\<in>set chain. 0 < g * referral_rate (fst entry)"
    using g getReferralChain_rate_pos [of _ d u] by (simp add: chain_def)
  from fold_pay_commission [OF rates, of u t e now d1 0]
  obtain d2 rows where
    f: "fold (pay_commission u t g e now) chain (d1, 0) = (d2, paid)"
    and rc: "referral_commissions d2 = referral_commissions d1 @ map (commission_row u t g now) chain"
    and tx: "gas_fee_transactions d2 = gas_fee_transactions d1 @ rows"
      "map ledger_view rows
               = map (\<lambda>entry. (pf_user_id (snd entry), g * referral_rate (fst entry),
                       referral_commission, t)) chain"
      "\<forall>x\<in>set rows. tx_balance_after x = tx_balance_before x + tx_amount x"
    and bal: "\<forall>u' e'. balance_of d2 u' e' = balance_of d1 u' e' +
           (if e' = e then sum_list (map (\<lambda>entry. g * referral_rate (fst entry))
                 (filter (\<lambda>entry. pf_user_id (snd entry) = u') chain)) else 0)"
    and fr: "profit_settlements d2 = profit_settlements d1" "admin_earnings d2 = admin_earnings d1"
      "trades d2 = trades d1" "positions d2 = positions d1" "profiles d2 = profiles d1"
      "api_keys d2 = api_keys d1" "webhook_logs d2 = webhook_logs d1" "bot_status d2 = bot_status d1"
    unfolding paid_def by auto
  have eq: "d' = d2\<lparr>admin_earnings := admin_earnings d2 @
           [\<lparr>ae_source_user_id = u, ae_trade_id = t, ae_gross_profit = g,
             ae_total_service_fee = g * SERVICE_FEE_RATE, ae_referral_commissions_paid = paid,
             ae_admin_share = g * SERVICE_FEE_RATE - paid, ae_created_at = now\<rparr>]\<rparr>"
    using g f by (simp add: d'_def processProfitSharing_def Let_def d1_def [symmetric] ch)
  note st = settle_fee_tables [of u t g e now d, folded d1_def]
  show "profit_settlements d' = profit_settlements d @
           [\<lparr>ps_user_id = u, ps_trade_id = Some t, ps_gross_profit = g,
             ps_service_fee_rate = SERVICE_FEE_RATE, ps_service_fee_amount = g * SERVICE_FEE_RATE,
             ps_net_profit = g - g * SERVICE_FEE_RATE, ps_created_at = now\<rparr>]"
    by (simp add: eq fr st)
  show "referral_commissions d' = referral_commissions d @ map (commission_row u t g now) chain"
    by (simp add: eq rc st)
  show "admin_earnings d' = admin_earnings d @
           [\<lparr>ae_source_user_id = u, ae_trade_id = t, ae_gross_profit = g,
             ae_total_service_fee = g * SERVICE_FEE_RATE, ae_referral_commissions_paid = paid,
             ae_admin_share = g * SERVICE_FEE_RATE - paid, ae_created_at = now\<rparr>]"
    by (simp add: eq fr st)
  show "\<exists>rows. gas_fee_transactions d' = gas_fee_transactions d @
           \<lparr>tx_user_id = u, tx_amount = - (g * SERVICE_FEE_RATE), tx_transaction_type = service_fee,
             tx_description = ''Service fee for profitable trade'', tx_trade_id = t,
             tx_balance_before = balance_of d u e,
             tx_balance_after = balance_of d u e - g * SERVICE_FEE_RATE,
             tx_environment = e, tx_created_at = now\<rparr> # rows
           \<and> map ledger_view rows
               = map (\<lambda>entry. (pf_user_id (snd entry), g * referral_rate (fst entry),
                       referral_commission, t)) chain
           \<and> (\<forall>x\<in>set rows. tx_balance_after x = tx_balance_before x + tx_amount x)"
    by (rule exI [of _ rows]) (simp add: eq tx st)
  show "balance_of d' u' e' = balance_of d u' e'
           - (if u' = u \<and> e' = e then g * SERVICE_FEE_RATE else 0)
           + (if e' = e then sum_list (map (\<lambda>entry. g * referral_rate (fst entry))
                 (filter (\<lambda>entry. pf_user_id (snd entry) = u') chain)) else 0)" for u' e'
  proof -
    have "balance_of d' u' e' = balance_of d2 u' e'" by (simp add: eq balance_of_def)
    then show ?thesis
      using bal settle_fee_balance [of u t g e now d u' e'] by (simp add: d1_def)
  qed
  show "trades d' = trades d" "positions d' = positions d" "profiles d' = profiles d"
    "api_keys d' = api_keys d" "webhook_logs d' = webhook_logs d" "bot_status d' = bot_status d"
    by (simp_all add: eq fr st)
qed

lemma referral_rate_values:
  "referral_rate 1 = 0.005" "referral_rate 2 = 0.003" "referral_rate 3 = 0.002"
  "referral_rate (Suc 0) = 0.005"
  by (simp_all add: referral_rate_def REFERRAL_RATES_def)

lemma demo_chain:
  "getReferralChain demo_db ''trader''
   = [(1, \<lparr>pf_id = ''p-anna'', pf_user_id = ''anna'', pf_referrer_id = Some ''p-ben''\<rparr>),
      (2, \<lparr>pf_id = ''p-ben'', pf_user_id = ''ben'', pf_referrer_id = None\<rparr>)]"
  by (simp add: getReferralChain_def demo_db_def empty_db_def demo_profiles_def referral_walk_Some)

text \<open>
  C2.  For every settlement with gross profit \<open>g > 0\<close>: the settlement row records the fee
  \<open>0.3 g\<close> and the net \<open>0.7 g\<close>; the referral chain holds the levels 1, 2, ... (at most
  three), with rates 0.005, 0.003 and 0.002; one commission row of \<open>g\<close> times the rate of its
  level is pushed per level present; the admin row records the fee, the commissions paid
  and their difference as the admin share; the ledger gets the fee row of the trader
  (amount \<open>- 0.3 g\<close>, balance before and after) followed by one commission row per level;
  and every balance changes by the fee deducted (for the trader) plus the commissions
  received.  The witness is the claim's example: \<open>g = 1000\<close>, a chain of two levels.
\<close>

theorem settlement_amounts:
  fixes d :: db and u t e :: string and g :: real and now :: timestamp
  assumes "0 < g"
  shows "profit_settlements (processProfitSharing u t g e now d) = profit_settlements d @
           [\<lparr>ps_user_id = u, ps_trade_id = Some t, ps_gross_profit = g,
             ps_service_fee_rate = 0.3, ps_service_fee_amount = 0.3 * g,
             ps_net_profit = 0.7 * g, ps_created_at = now\<rparr>]
   \<and> map fst (getReferralChain d u) = [1 ..< Suc (length (getReferralChain d u))]
   \<and> length (getReferralChain d u) \<le> 3
   \<and> referral_rate 1 = 0.005 \<and> referral_rate 2 = 0.003 \<and> referral_rate 3 = 0.002
   \<and> referral_commissions (processProfitSharing u t g e now d)
       = referral_commissions d @ map (commission_row u t g now) (getReferralChain d u)
   \<and> admin_earnings (processProfitSharing u t g e now d) = admin_earnings d @
           [\<lparr>ae_source_user_id = u, ae_trade_id = t, ae_gross_profit = g,
             ae_total_service_fee = 0.3 * g,
             ae_referral_commissions_paid =
               (\<Sum>entry\<leftarrow>getReferralChain d u. g * referral_rate (fst entry)),
             ae_admin_share =
               0.3 * g - (\<Sum>entry\<leftarrow>getReferralChain d u. g * referral_rate (fst entry)),
             ae_created_at = now\<rparr>]
   \<and> (\<exists>rows. gas_fee_transactions (processProfitSharing u t g e now d) = gas_fee_transactions d @
           \<lparr>tx_user_id = u, tx_amount = - (0.3 * g), tx_transaction_type = service_fee,
             tx_description = ''Service fee for profitable trade'', tx_trade_id = t,
             tx_balance_before = balance_of d u e,
             tx_balance_after = balance_of d u e - 0.3 * g,
             tx_environment = e, tx_created_at = now\<rparr> # rows
           \<and> map ledger_view rows
               = map (\<lambda>entry. (pf_user_id (snd entry), g * referral_rate (fst entry),
                       referral_commission, t)) (getReferralChain d u)
           \<and> (\<forall>x\<in>set rows. tx_balance_after x = tx_balance_before x + tx_amount x))
   \<and> (\<forall>u' e'. balance_of (processProfitSharing u t g e now d) u' e' = balance_of d u' e'
           - (if u' = u \<and> e' = e then 0.3 * g else 0)
           + (if e' = e then (\<Sum>entry\<leftarrow>filter (\<lambda>entry. pf_user_id (snd entry) = u')
                                   (getReferralChain d u). g * referral_rate (fst entry)) else 0))"
proof -
  note pp = processProfitSharing_pos [OF assms, of u t e now d]
  have fee1: "g * SERVICE_FEE_RATE = 0.3 * g"
    by (simp add: SERVICE_FEE_RATE_def)
  have fee: "SERVICE_FEE_RATE = 0.3" "g - 0.3 * g = 0.7 * g"
    by (simp_all add: SERVICE_FEE_RATE_def)
  show ?thesis
  proof (intro conjI)
    show "\<exists>rows. gas_fee_transactions (processProfitSharing u t g e now d) = gas_fee_transactions d @
           \<lparr>tx_user_id = u, tx_amount = - (0.3 * g), tx_transaction_type = service_fee,
             tx_description = ''Service fee for profitable trade'', tx_trade_id = t,
             tx_balance_before = balance_of d u e,
             tx_balance_after = balance_of d u e - 0.3 * g,
             tx_environment = e, tx_created_at = now\<rparr> # rows
           \<and> map ledger_view rows
               = map (\<lambda>entry. (pf_user_id (snd entry), g * referral_rate (fst entry),
                       referral_commission, t)) (getReferralChain d u)
           \<and> (\<forall>x\<in>set rows. tx_balance_after x = tx_balance_before x + tx_amount x)"
      using pp(4) by (simp only: fee1)
    show "\<forall>u' e'. balance_of (processProfitSharing u t g e now d) u' e' = balance_of d u' e'
           - (if u' = u \<and> e' = e then 0.3 * g else 0)
           + (if e' = e then (\<Sum>entry\<leftarrow>filter (\<lambda>entry. pf_user_id (snd entry) = u')
                                   (getReferralChain d u). g * referral_rate (fst entry)) else 0)"
      using pp(5) by (simp only: fee1) simp
  qed (simp_all add: pp(1,2,3) fee1 fee getReferralChain_levels referral_rate_values)
qed

theorem settlement_amounts_witness:
  "0 < (1000 :: real)
   \<and> map fst (getReferralChain demo_db ''trader'') = [1, 2]
   \<and> map ps_service_fee_amount
        (profit_settlements (processProfitSharing ''trader'' ''trade-1'' 1000 ''mainnet'' 0 demo_db)) = [300]
   \<and> map ps_net_profit
        (profit_settlements (processProfitSharing ''trader'' ''trade-1'' 1000 ''mainnet'' 0 demo_db)) = [700]
   \<and> map (\<lambda>c. (rc_beneficiary_user_id c, rc_level c, rc_commission_amount c))
        (referral_commissions (processProfitSharing ''trader'' ''trade-1'' 1000 ''mainnet'' 0 demo_db))
      = [(''anna'', 1, 5), (''ben'', 2, 3)]
   \<and> map ae_admin_share
        (admin_earnings (processProfitSharing ''trader'' ''trade-1'' 1000 ''mainnet'' 0 demo_db)) = [292]
   \<and> balance_of (processProfitSharing ''trader'' ''trade-1'' 1000 ''mainnet'' 0 demo_db) ''trader'' ''mainnet''
      = 10 - 300
   \<and> balance_of (processProfitSharing ''trader'' ''trade-1'' 1000 ''mainnet'' 0 demo_db) ''anna'' ''mainnet'' = 5
   \<and> balance_of (processProfitSharing ''trader'' ''trade-1'' 1000 ''mainnet'' 0 demo_db) ''ben'' ''mainnet'' = 3"
proof -
  have pos: "0 < (1000 :: real)" by simp
  note th = settlement_amounts [OF pos, of "''trader''" "''trade-1''" "''mainnet''" 0 demo_db]
  have b0: "balance_of demo_db ''trader'' ''mainnet'' = 10" "balance_of demo_db ''anna'' ''mainnet'' = 0"
    "balance_of demo_db ''ben'' ''mainnet'' = 0"
    by (simp_all add: balance_of_def demo_db_def empty_db_def)
  have tabs: "profit_settlements demo_db = []" "referral_commissions demo_db = []"
    "admin_earnings demo_db = []"
    by (simp_all add: demo_db_def empty_db_def)
  from th have bal: "\<And>u' e'. balance_of (processProfitSharing ''trader'' ''trade-1'' 1000 ''mainnet'' 0 demo_db) u' e'
      = balance_of demo_db u' e' - (if u' = ''trader'' \<and> e' = ''mainnet'' then 0.3 * 1000 else 0)
           + (if e' = ''mainnet'' then (\<Sum>entry\<leftarrow>filter (\<lambda>entry. pf_user_id (snd entry) = u')
                 (getReferralChain demo_db ''trader''). 1000 * referral_rate (fst entry)) else 0)"
    by blast
  show ?thesis
    using th
    by (simp add: bal b0 tabs demo_chain commission_row_def referral_rate_values)
qed

section \<open>Results: the fee and the gas balance\<close>

lemma riskGate_needs_balance:
  assumes "riskGate config now d = Proceed k"
  shows "0 < balance_of d (sc_user_id config) (sc_environment config)"
proof -
  let ?f = "find (\<lambda>b. gb_user_id b = sc_user_id config \<and> gb_environment b = sc_environment config)
              (gas_fee_balances d)"
  have "\<not> (case ?f of None \<Rightarrow> True | Some gasBalance \<Rightarrow> gb_balance gasBalance \<le> 0)"
  proof
    assume low: "case ?f of None \<Rightarrow> True | Some gasBalance \<Rightarrow> gb_balance gasBalance \<le> 0"
    have "riskGate config now d \<noteq> Proceed k"
      unfolding riskGate_def Let_def using low
      by (simp split: option.split)
    with assms show False by simp
  qed
  then show ?thesis
    by (simp add: balance_of_def split: option.splits)
qed

text \<open>
  C10.  For every settlement with gross profit \<open>g > 0\<close> and whatever the trader's balance
  is: the settlement row is written, and the trader's balance afterwards is the balance
  before minus the whole fee \<open>0.3 g\<close> (plus what the trader earns as a referrer in the own
  chain, nothing when the trader is not in it); there is no floor, so a balance below the
  fee ends negative.  The gate of the signal generator lets a strategy pass only with a
  strictly positive balance.  In the witness the gate passes at a balance of 10 and the
  settlement of a profit of 1000 leaves \<open>- 290\<close>.
\<close>

theorem settlement_never_withheld:
  fixes d :: db and u t e :: string and g :: real and now :: timestamp
  assumes "0 < g"
  shows "length (profit_settlements (processProfitSharing u t g e now d))
           = Suc (length (profit_settlements d))
   \<and> balance_of (processProfitSharing u t g e now d) u e
       = balance_of d u e - 0.3 * g
         + (\<Sum>entry\<leftarrow>filter (\<lambda>entry. pf_user_id (snd entry) = u) (getReferralChain d u).
              g * referral_rate (fst entry))
   \<and> ((\<forall>entry\<in>set (getReferralChain d u). pf_user_id (snd entry) \<noteq> u)
        \<longrightarrow> balance_of (processProfitSharing u t g e now d) u e = balance_of d u e - 0.3 * g)
   \<and> ((\<forall>entry\<in>set (getReferralChain d u). pf_user_id (snd entry) \<noteq> u)
          \<and> balance_of d u e < 0.3 * g
        \<longrightarrow> balance_of (processProfitSharing u t g e now d) u e < 0)
   \<and> (\<forall>config tm k. riskGate config tm d = Proceed k
        \<longrightarrow> 0 < balance_of d (sc_user_id config) (sc_environment config))"
proof -
  note pp = processProfitSharing_pos [OF assms, of u t e now d]
  have fee1: "g * SERVICE_FEE_RATE = 0.3 * g"
    by (simp add: SERVICE_FEE_RATE_def)
  have bal: "balance_of (processProfitSharing u t g e now d) u e
       = balance_of d u e - 0.3 * g
         + (\<Sum>entry\<leftarrow>filter (\<lambda>entry. pf_user_id (snd entry) = u) (getReferralChain d u).
              g * referral_rate (fst entry))"
    using pp(5) [of u e] by (simp add: fee1)
  have none: "filter (\<lambda>entry. pf_user_id (snd entry) = u) (getReferralChain d u) = []"
    if "\<forall>entry\<in>set (getReferralChain d u). pf_user_id (snd entry) \<noteq> u"
    using that by (simp add: filter_empty_conv)
  show ?thesis
  proof (intro conjI allI impI)
    show "length (profit_settlements (processProfitSharing u t g e now d))
           = Suc (length (profit_settlements d))"
      by (simp add: pp(1))
    show "balance_of (processProfitSharing u t g e now d) u e
       = balance_of d u e - 0.3 * g
         + (\<Sum>entry\<leftarrow>filter (\<lambda>entry. pf_user_id (snd entry) = u) (getReferralChain d u).
              g * referral_rate (fst entry))"
      by (rule bal)
    show "balance_of (processProfitSharing u t g e now d) u e = balance_of d u e - 0.3 * g"
      if "\<forall>entry\<in>set (getReferralChain d u). pf_user_id (snd entry) \<noteq> u"
      using bal none [OF that] by simp
    show "balance_of (processProfitSharing u t g e now d) u e < 0"
      if "(\<forall>entry\<in>set (getReferralChain d u). pf_user_id (snd entry) \<noteq> u)
          \<and> balance_of d u e < 0.3 * g"
      using bal none that by simp
    show "0 < balance_of d (sc_user_id config) (sc_environment config)"
      if "riskGate config tm d = Proceed k" for config tm k
      using that by (rule riskGate_needs_balance)
  qed
qed

lemma demo_gate_proceeds: "riskGate demo_strategy 0 demo_gate_db = Proceed demo_api_key"
  by (simp add: riskGate_def Let_def demo_strategy_def demo_gate_db_def demo_db_def empty_db_def
      demo_api_key_def isWithinTradingSession_def getConfigNumber_def dailyTrades_def dailyPnl_def
      recent_trades_def find_api_key_def)

theorem settlement_never_withheld_witness:
  "0 < (1000 :: real)
   \<and> riskGate demo_strategy 0 demo_gate_db = Proceed demo_api_key
   \<and> 0 < balance_of demo_gate_db ''trader'' ''mainnet''
   \<and> balance_of (processProfitSharing ''trader'' ''trade-1'' 1000 ''mainnet'' 0 demo_gate_db)
        ''trader'' ''mainnet'' = - 290
   \<and> length (profit_settlements
        (processProfitSharing ''trader'' ''trade-1'' 1000 ''mainnet'' 0 demo_gate_db)) = 1"
proof -
  have pos: "0 < (1000 :: real)" by simp
  note th = settlement_never_withheld [OF pos, of "''trader''" "''trade-1''" "''mainnet''" 0 demo_gate_db]
  have ch: "getReferralChain demo_gate_db ''trader'' = getReferralChain demo_db ''trader''"
    by (rule getReferralChain_profiles) (simp add: demo_gate_db_def)
  have b0: "balance_of demo_gate_db ''trader'' ''mainnet'' = 10"
    by (simp add: balance_of_def demo_gate_db_def demo_db_def empty_db_def)
  have s0: "profit_settlements demo_gate_db = []"
    by (simp add: demo_gate_db_def demo_db_def empty_db_def)
  have strangers: "\<forall>entry\<in>set (getReferralChain demo_gate_db ''trader''). pf_user_id (snd entry) \<noteq> ''trader''"
    by (simp add: ch demo_chain)
  from th strangers
  have "balance_of (processProfitSharing ''trader'' ''trade-1'' 1000 ''mainnet'' 0 demo_gate_db)
        ''trader'' ''mainnet'' = balance_of demo_gate_db ''trader'' ''mainnet'' - 0.3 * 1000"
    by blast
  moreover from th have "0 < balance_of demo_gate_db (sc_user_id demo_strategy) (sc_environment demo_strategy)"
    using demo_gate_proceeds by blast
  moreover from th have "length (profit_settlements
        (processProfitSharing ''trader'' ''trade-1'' 1000 ''mainnet'' 0 demo_gate_db)) = Suc 0"
    by (simp add: s0)
  ultimately show ?thesis
    by (simp add: b0 demo_gate_proceeds)
qed

section \<open>Results: the risk gate\<close>

lemma riskGate_daily_loss:
  assumes "cf_max_daily_loss (sc_strategy_config config) = Some m" and "0 < m"
    and "dailyPnl d (sc_user_id config) now \<le> - m"
  shows "riskGate config now d \<in>
           {Skip (''Outside trading session for strategy '' @ sc_id config),
            Skip (''Max trades per day reached for strategy '' @ sc_id config),
            Skip (''Max daily loss reached for strategy '' @ sc_id config)}"
  using assms by (simp add: riskGate_def Let_def getConfigNumber_def)

text \<open>
  C7, amended, for the loop of the auto-signal generator (the gate of the webhook route
  reads \<open>strategy.max_daily_loss\<close> and is not part of this development).  Take a strategy
  with \<open>max_daily_loss = m > 0\<close> in its \<open>strategy_config\<close>.  At a turn of the loop at which
  the owner's realized PnL over the trades on file created since midnight UTC is at most
  \<open>- m\<close>, the gate skips the strategy: the turn only appends the logged message, and what
  follows the gate (signal generation and order placement, the parameter \<open>pairs\<close>) does
  not run, whatever it is; when the two earlier checks (trading session, trades per day)
  let the strategy through, the message is that of the daily loss.  The sum is taken anew
  at every turn and nothing is remembered: the gate answers with the daily-loss message
  only at a turn at which the sum is at most \<open>- m\<close>.  The witness is the claim's example:
  \<open>m = 100\<close> and a daily PnL of \<open>- 150\<close>.
\<close>

theorem daily_loss_gate:
  assumes "cf_max_daily_loss (sc_strategy_config config) = Some m" and "0 < m"
  shows "(dailyPnl (a_db s) (sc_user_id config) now \<le> - m \<longrightarrow>
            (\<exists>message. riskGate config now (a_db s) = Skip message
               \<and> (\<forall>pairs. process_strategy pairs now config s = s\<lparr>a_log := a_log s @ [message]\<rparr>))
            \<and> (isWithinTradingSession (sc_strategy_config config) now
                 \<and> \<not> (getConfigNumber (cf_max_trades_per_day (sc_strategy_config config)) 0 > 0
                       \<and> real (length (dailyTrades (a_db s) (sc_user_id config) now))
                           \<ge> getConfigNumber (cf_max_trades_per_day (sc_strategy_config config)) 0)
                 \<longrightarrow> riskGate config now (a_db s)
                       = Skip (''Max daily loss reached for strategy '' @ sc_id config)))
   \<and> (riskGate config now (a_db s) = Skip (''Max daily loss reached for strategy '' @ sc_id config)
        \<longrightarrow> dailyPnl (a_db s) (sc_user_id config) now \<le> - m)"
proof (intro conjI impI)
  assume low: "dailyPnl (a_db s) (sc_user_id config) now \<le> - m"
  from riskGate_daily_loss [OF assms low]
  obtain message where m: "riskGate config now (a_db s) = Skip message" by auto
  have "process_strategy pairs now config s = s\<lparr>a_log := a_log s @ [message]\<rparr>" for pairs
    by (simp add: process_strategy_def m)
  with m show "\<exists>message. riskGate config now (a_db s) = Skip message
     \<and> (\<forall>pairs. process_strategy pairs now config s = s\<lparr>a_log := a_log s @ [message]\<rparr>)"
    by blast
next
  assume "dailyPnl (a_db s) (sc_user_id config) now \<le> - m"
    and "isWithinTradingSession (sc_strategy_config config) now
         \<and> \<not> (getConfigNumber (cf_max_trades_per_day (sc_strategy_config config)) 0 > 0
               \<and> real (length (dailyTrades (a_db s) (sc_user_id config) now))
                   \<ge> getConfigNumber (cf_max_trades_per_day (sc_strategy_config config)) 0)"
  then show "riskGate config now (a_db s)
      = Skip (''Max daily loss reached for strategy '' @ sc_id config)"
    using assms by (simp add: riskGate_def Let_def getConfigNumber_def)
next
  assume g: "riskGate config now (a_db s)
      = Skip (''Max daily loss reached for strategy '' @ sc_id config)"
  show "dailyPnl (a_db s) (sc_user_id config) now \<le> - m"
  proof (rule ccontr)
    assume high: "\<not> dailyPnl (a_db s) (sc_user_id config) now \<le> - m"
    have "riskGate config now (a_db s)
      \<noteq> Skip (''Max daily loss reached for strategy '' @ sc_id config)"
      unfolding riskGate_def Let_def using high assms(1)
      by (simp add: getConfigNumber_def split: option.split)
    with g show False by simp
  qed
qed

theorem daily_loss_gate_witness:
  "cf_max_daily_loss (sc_strategy_config demo_strategy) = Some 100 \<and> 0 < (100 :: real)
   \<and> dailyPnl demo_loss_db ''trader'' 36000000 = - 150
   \<and> riskGate demo_strategy 36000000 demo_loss_db = Skip ''Max daily loss reached for strategy s1''
   \<and> (\<forall>pairs :: StrategyConfig \<Rightarrow> ApiKey \<Rightarrow> unit auto_state \<Rightarrow> unit auto_state.
        process_strategy pairs 36000000 demo_strategy
          \<lparr>a_db = demo_loss_db, a_results = [], a_log = []\<rparr>
        = \<lparr>a_db = demo_loss_db, a_results = [],
           a_log = [''Max daily loss reached for strategy s1'']\<rparr>)"
proof -
  let ?s = "\<lparr>a_db = demo_loss_db, a_results = [] :: unit list, a_log = []\<rparr>"
  have cfg: "cf_max_daily_loss (sc_strategy_config demo_strategy) = Some 100"
    by (simp add: demo_strategy_def)
  have pnl: "dailyPnl demo_loss_db ''trader'' 36000000 = - 150"
    by (simp add: dailyPnl_def demo_loss_db_def dayStart_def pnl_of_def)
  have pre: "dailyPnl (a_db ?s) (sc_user_id demo_strategy) 36000000 \<le> - 100"
    using pnl by (simp add: demo_strategy_def)
  have sess: "isWithinTradingSession (sc_strategy_config demo_strategy) 36000000"
    by (simp add: isWithinTradingSession_def demo_strategy_def)
  have cap: "getConfigNumber (cf_max_trades_per_day (sc_strategy_config demo_strategy)) 0 = 0"
    by (simp add: getConfigNumber_def demo_strategy_def)
  have id: "sc_id demo_strategy = ''s1''" by (simp add: demo_strategy_def)
  have th: "(\<exists>message. riskGate demo_strategy 36000000 (a_db ?s) = Skip message
            \<and> (\<forall>pairs. process_strategy pairs 36000000 demo_strategy ?s
                          = ?s\<lparr>a_log := a_log ?s @ [message]\<rparr>))
   \<and> (isWithinTradingSession (sc_strategy_config demo_strategy) 36000000
        \<and> \<not> (getConfigNumber (cf_max_trades_per_day (sc_strategy_config demo_strategy)) 0 > 0
              \<and> real (length (dailyTrades (a_db ?s) (sc_user_id demo_strategy) 36000000))
                  \<ge> getConfigNumber (cf_max_trades_per_day (sc_strategy_config demo_strategy)) 0)
        \<longrightarrow> riskGate demo_strategy 36000000 (a_db ?s)
              = Skip (''Max daily loss reached for strategy '' @ sc_id demo_strategy))"
    by (rule daily_loss_gate [OF cfg, where s = "?s" and now = 36000000,
          THEN conjunct1, THEN mp, OF _ pre]) simp
  from th sess cap id
  have g: "riskGate demo_strategy 36000000 demo_loss_db = Skip ''Max daily loss reached for strategy s1''"
    by simp
  from th obtain message where m: "riskGate demo_strategy 36000000 (a_db ?s) = Skip message"
    and p: "\<forall>pairs. process_strategy pairs 36000000 demo_strategy ?s
                          = ?s\<lparr>a_log := a_log ?s @ [message]\<rparr>"
    by blast
  from m g have "message = ''Max daily loss reached for strategy s1''" by simp
  with p have "\<forall>pairs. process_strategy pairs 36000000 demo_strategy ?s
                = \<lparr>a_db = demo_loss_db, a_results = [],
                   a_log = [''Max daily loss reached for strategy s1'']\<rparr>"
    by simp
  with cfg pnl g show ?thesis by simp
qed

section \<open>Results: the precision ladder\<close>

lemma replicate_numeral: "replicate (numeral k) x = x # replicate (pred_numeral k) x"
  by (simp add: numeral_eq_Suc)

lemmas formatQty_eval = formatQty_def Let_def toFixed_def decimal_text.simps zero_tail_def
  replicate_numeral
lemmas qty_sent_eval = qty_sent_def formatQty_eval text_value_def digits_value_def

















section \<open>Results: partial failure of the protective orders\<close>

lemma record_outcome_success_drops_error:
  assumes "ex_orderSuccess ex" and "ex_orderId ex = Some oid" and "oid \<noteq> []"
  shows "wl_error_message (last (webhook_logs (a_db (record_outcome config pair signal q tid pid now ex s)))) = None"
    and "wl_status (last (webhook_logs (a_db (record_outcome config pair signal q tid pid now ex s)))) = ''executed''"
    and "ar_reason (last (a_results (record_outcome config pair signal q tid pid now ex s))) = None"
    and "ar_executed (last (a_results (record_outcome config pair signal q tid pid now ex s)))"
    and "length (trades (a_db (record_outcome config pair signal q tid pid now ex s)))
           = Suc (length (trades (a_db s)))"
    and "length (positions (a_db (record_outcome config pair signal q tid pid now ex s)))
           = Suc (length (positions (a_db s)))"
  using assms by (simp_all add: record_outcome_def Let_def split: option.splits)

text \<open>
  C6.  The claim reads: when the entry order succeeds and a protective leg fails, the
  trade and the open position are recorded and the accumulated error is surfaced beside
  the success flag.  On the input below (Binance futures, the entry filled with order id
  12345, the stop loss rejected) the auto-signal path does accumulate the error and does
  record trade and position, but writes the audit row with status \<open>executed\<close> and no
  error message and reports \<open>executed\<close> with no reason: the error is dropped.  On the
  same replies \<open>executeTrade\<close> of the webhook path returns a failure, and the route
  records neither trade nor position.
\<close>

theorem protective_leg_failure_paths:
  "executeBinance num_text sl_rejected demo_strategy demo_signal 0.002
     = Done \<lparr>ex_orderSuccess = True, ex_orderId = Some ''12345'',
             ex_executionError = Some ''Order would immediately trigger.'',
             ex_sent = [(3, 0.002)]\<rparr>
   \<and> (let s = record_outcome demo_strategy ''BTCUSDT'' demo_signal 0.002 ''trade-1'' ''position-1'' 0
                 \<lparr>ex_orderSuccess = True, ex_orderId = Some ''12345'',
                  ex_executionError = Some ''Order would immediately trigger.'',
                  ex_sent = [(3, 0.002)]\<rparr>
                 \<lparr>a_db = demo_gate_db, a_results = [], a_log = []\<rparr>
      in map tr_id (trades (a_db s)) = [''trade-1'']
         \<and> map (\<lambda>p. (po_id p, po_is_open p)) (positions (a_db s)) = [(''position-1'', True)]
         \<and> map (\<lambda>l. (wl_status l, wl_error_message l)) (webhook_logs (a_db s)) = [(''executed'', None)]
         \<and> map (\<lambda>r. (ar_executed r, ar_reason r)) (a_results s) = [(True, None)])
   \<and> executeTrade sl_rejected demo_strategy 50000 0.002
       = Done \<lparr>er_success = False, er_orderId = None,
               er_error = Some ''Order would immediately trigger.''\<rparr>
   \<and> \<not> webhook_records_trade \<lparr>er_success = False, er_orderId = None,
               er_error = Some ''Order would immediately trigger.''\<rparr>"
proof (intro conjI)
  show "executeBinance num_text sl_rejected demo_strategy demo_signal 0.002
     = Done \<lparr>ex_orderSuccess = True, ex_orderId = Some ''12345'',
             ex_executionError = Some ''Order would immediately trigger.'',
             ex_sent = [(3, 0.002)]\<rparr>"
    by (simp add: executeBinance_def sl_rejected_def placeEntry_def formatQty_eval text_value_def
        digits_value_def protective_orders_def demo_signal_def demo_strategy_def tpLevels_def take_profit_leg_def
        or_text_def getConfigBoolean_def getConfigNumber_def)
  show "let s = record_outcome demo_strategy ''BTCUSDT'' demo_signal 0.002 ''trade-1'' ''position-1'' 0
                 \<lparr>ex_orderSuccess = True, ex_orderId = Some ''12345'',
                  ex_executionError = Some ''Order would immediately trigger.'',
                  ex_sent = [(3, 0.002)]\<rparr>
                 \<lparr>a_db = demo_gate_db, a_results = [], a_log = []\<rparr>
      in map tr_id (trades (a_db s)) = [''trade-1'']
         \<and> map (\<lambda>p. (po_id p, po_is_open p)) (positions (a_db s)) = [(''position-1'', True)]
         \<and> map (\<lambda>l. (wl_status l, wl_error_message l)) (webhook_logs (a_db s)) = [(''executed'', None)]
         \<and> map (\<lambda>r. (ar_executed r, ar_reason r)) (a_results s) = [(True, None)]"
    by (simp add: record_outcome_def Let_def demo_gate_db_def demo_db_def empty_db_def)
  show "executeTrade sl_rejected demo_strategy 50000 0.002
       = Done \<lparr>er_success = False, er_orderId = None,
               er_error = Some ''Order would immediately trigger.''\<rparr>"
    by (simp add: executeTrade_def Let_def sl_rejected_def or_text_def)
  show "\<not> webhook_records_trade \<lparr>er_success = False, er_orderId = None,
               er_error = Some ''Order would immediately trigger.''\<rparr>"
    by (simp add: webhook_records_trade_def)
qed

section \<open>Results: one settlement per trade\<close>

lemma processProfitSharing_settled_ids:
  "settled_ids (processProfitSharing u t g e now d) = settled_ids d @ (if 0 < g then [t] else [])"
proof (cases "0 < g")
  case True
  from processProfitSharing_pos(1) [OF True, where d = d and u = u and t = t and e = e and now = now] True show ?thesis
    by (simp add: settled_ids_def List.map_filter_def)
next
  case False
  then show ?thesis by (simp add: processProfitSharing_nonpos)
qed

lemma processProfitSharing_frame:
  "trades (processProfitSharing u t g e now d) = trades d"
  "positions (processProfitSharing u t g e now d) = positions d"
  "api_keys (processProfitSharing u t g e now d) = api_keys d"
proof -
  show "trades (processProfitSharing u t g e now d) = trades d"
    using processProfitSharing_pos(6) [where g = g and d = d and u = u and t = t and e = e and now = now]
      processProfitSharing_nonpos [where g = g and d = d and u = u and t = t and e = e and now = now]
    by (cases "0 < g") simp_all
  show "positions (processProfitSharing u t g e now d) = positions d"
    using processProfitSharing_pos(7) [where g = g and d = d and u = u and t = t and e = e and now = now]
      processProfitSharing_nonpos [where g = g and d = d and u = u and t = t and e = e and now = now]
    by (cases "0 < g") simp_all
  show "api_keys (processProfitSharing u t g e now d) = api_keys d"
    using processProfitSharing_pos(9) [where g = g and d = d and u = u and t = t and e = e and now = now]
      processProfitSharing_nonpos [where g = g and d = d and u = u and t = t and e = e and now = now]
    by (cases "0 < g") simp_all
qed

lemma backfill_loop_frame:
  "trades (backfill_loop now ts settled d) = trades d
   \<and> positions (backfill_loop now ts settled d) = positions d
   \<and> api_keys (backfill_loop now ts settled d) = api_keys d"
  by (induction ts arbitrary: settled d) (simp_all add: processProfitSharing_frame)

lemma backfill_frame:
  "trades (backfill now d) = trades d" "positions (backfill now d) = positions d"
  "api_keys (backfill now d) = api_keys d"
  by (simp_all add: backfill_def backfill_loop_frame)

lemma backfill_loop_distinct:
  assumes "distinct (settled_ids d)"
    and "\<forall>id\<in>set (settled_ids d). id \<noteq> [] \<longrightarrow> id \<in> set settled"
    and "\<forall>t\<in>set ts. tr_id t \<noteq> []"
  shows "distinct (settled_ids (backfill_loop now ts settled d))
       \<and> set (settled_ids (backfill_loop now ts settled d)) \<subseteq> set (settled_ids d) \<union> tr_id ` set ts"
  using assms
proof (induction ts arbitrary: settled d)
  case Nil
  then show ?case by simp
next
  case (Cons trade rest)
  show ?case
  proof (cases "tr_id trade \<in> set settled")
    case True
    with Cons.IH [where d = d and settled = settled] Cons.prems show ?thesis by auto
  next
    case False
    define d' where "d' = processProfitSharing (tr_user_id trade) (tr_id trade)
                (case tr_realized_pnl trade of None \<Rightarrow> 0 | Some x \<Rightarrow> x)
                (if tr_environment trade = [] then ''testnet'' else tr_environment trade) now d"
    from Cons.prems(3) have ne: "tr_id trade \<noteq> []" by simp
    with False Cons.prems(2) have new: "tr_id trade \<notin> set (settled_ids d)" by auto
    have ids: "set (settled_ids d') \<subseteq> insert (tr_id trade) (set (settled_ids d))"
      "distinct (settled_ids d')"
      using new Cons.prems(1) by (auto simp: d'_def processProfitSharing_settled_ids)
    have cover: "\<forall>id\<in>set (settled_ids d'). id \<noteq> [] \<longrightarrow> id \<in> set (tr_id trade # settled)"
      using ids(1) Cons.prems(2) by auto
    from Cons.IH [OF ids(2) cover] Cons.prems(3)
    have "distinct (settled_ids (backfill_loop now rest (tr_id trade # settled) d'))"
      "set (settled_ids (backfill_loop now rest (tr_id trade # settled) d'))
         \<subseteq> set (settled_ids d') \<union> tr_id ` set rest"
      by simp_all
    with ids(1) False show ?thesis
      by (auto simp: d'_def)
  qed
qed

lemma backfill_inv:
  assumes "monitor_inv uuid d c"
  shows "monitor_inv uuid (backfill now d) c"
proof -
  from assms have dis: "distinct (settled_ids d)" and ne: "\<forall>t\<in>set (trades d). tr_id t \<noteq> []"
    and fresh: "\<forall>n\<ge>c. uuid n \<notin> set (settled_ids d) \<and> uuid n \<notin> tr_id ` set (trades d)"
    by (simp_all add: monitor_inv_def)
  have cover: "\<forall>id\<in>set (settled_ids d). id \<noteq> [] \<longrightarrow> id \<in> set (settledTradeIds d)"
    by (simp add: settledTradeIds_def)
  have sub: "set (profitableTrades d) \<subseteq> set (trades d)" by (auto simp: profitableTrades_def)
  with ne have ne': "\<forall>t\<in>set (profitableTrades d). tr_id t \<noteq> []" by auto
  from backfill_loop_distinct [OF dis cover ne', where now = now]
  have "distinct (settled_ids (backfill now d))"
    "set (settled_ids (backfill now d)) \<subseteq> set (settled_ids d) \<union> tr_id ` set (profitableTrades d)"
    by (simp_all add: backfill_def)
  note bf = this
  have "uuid n \<notin> set (settled_ids (backfill now d))" if "c \<le> n" for n
  proof
    assume "uuid n \<in> set (settled_ids (backfill now d))"
    with bf(2) have "uuid n \<in> set (settled_ids d) \<or> uuid n \<in> tr_id ` set (profitableTrades d)"
      by blast
    with sub have "uuid n \<in> set (settled_ids d) \<or> uuid n \<in> tr_id ` set (trades d)" by blast
    with fresh that show False by blast
  qed
  with bf(1) ne fresh show ?thesis
    by (simp add: monitor_inv_def backfill_frame)
qed

text \<open>A second backfill pass finds every profitable trade settled.\<close>

lemma backfill_loop_all_settled:
  "\<forall>t\<in>set ts. tr_id t \<in> set settled \<Longrightarrow> backfill_loop now ts settled d = d"
  by (induction ts arbitrary: settled d) simp_all

lemma backfill_loop_covers:
  assumes "\<forall>t\<in>set ts. 0 < (case tr_realized_pnl t of None \<Rightarrow> 0 | Some x \<Rightarrow> x)"
  shows "set (settled_ids d) \<subseteq> set (settled_ids (backfill_loop now ts settled d))
       \<and> (\<forall>t\<in>set ts. tr_id t \<in> set settled
                        \<or> tr_id t \<in> set (settled_ids (backfill_loop now ts settled d)))"
  using assms
proof (induction ts arbitrary: settled d)
  case Nil
  then show ?case by simp
next
  case (Cons trade rest)
  show ?case
  proof (cases "tr_id trade \<in> set settled")
    case True
    with Cons.IH [where d = d and settled = settled] Cons.prems show ?thesis by simp
  next
    case False
    define d' where "d' = processProfitSharing (tr_user_id trade) (tr_id trade)
                (case tr_realized_pnl trade of None \<Rightarrow> 0 | Some x \<Rightarrow> x)
                (if tr_environment trade = [] then ''testnet'' else tr_environment trade) now d"
    from Cons.prems have "0 < (case tr_realized_pnl trade of None \<Rightarrow> 0 | Some x \<Rightarrow> x)" by simp
    then have ids: "settled_ids d' = settled_ids d @ [tr_id trade]"
      by (simp add: d'_def processProfitSharing_settled_ids)
    from Cons.IH [where settled = "tr_id trade # settled" and d = d'] Cons.prems
    have ih: "set (settled_ids d') \<subseteq> set (settled_ids (backfill_loop now rest (tr_id trade # settled) d'))"
      "\<forall>t\<in>set rest. tr_id t \<in> set (tr_id trade # settled)
          \<or> tr_id t \<in> set (settled_ids (backfill_loop now rest (tr_id trade # settled) d'))"
      by simp_all
    have loop: "backfill_loop now (trade # rest) settled d
                = backfill_loop now rest (tr_id trade # settled) d'"
      using False by (simp add: d'_def)
    from ih ids show ?thesis
      unfolding loop by auto
  qed
qed

lemma backfill_idempotent:
  assumes "\<forall>t\<in>set (trades d). tr_id t \<noteq> []"
  shows "backfill now' (backfill now d) = backfill now d"
proof -
  define d1 where "d1 = backfill now d"
  have pt: "profitableTrades d1 = profitableTrades d"
    by (simp add: profitableTrades_def d1_def backfill_frame)
  have pos: "\<forall>t\<in>set (profitableTrades d). 0 < (case tr_realized_pnl t of None \<Rightarrow> 0 | Some x \<Rightarrow> x)"
    by (simp add: profitableTrades_def)
  from backfill_loop_covers [OF pos, where d = d and now = now and settled = "settledTradeIds d"]
  have mono: "set (settled_ids d) \<subseteq> set (settled_ids d1)"
    and cov: "\<forall>t\<in>set (profitableTrades d). tr_id t \<in> set (settledTradeIds d)
                        \<or> tr_id t \<in> set (settled_ids d1)"
    by (simp_all add: d1_def backfill_def)
  have "\<forall>t\<in>set (profitableTrades d1). tr_id t \<in> set (settledTradeIds d1)"
  proof
    fix t assume t: "t \<in> set (profitableTrades d1)"
    with pt have t': "t \<in> set (profitableTrades d)" by simp
    then have "t \<in> set (trades d)" by (simp add: profitableTrades_def)
    with assms have ne: "tr_id t \<noteq> []" by simp
    from cov t' mono have "tr_id t \<in> set (settled_ids d1)"
      by (auto simp: settledTradeIds_def)
    with ne show "tr_id t \<in> set (settledTradeIds d1)" by (simp add: settledTradeIds_def)
  qed
  then have "backfill_loop now' (profitableTrades d1) (settledTradeIds d1) d1 = d1"
    by (rule backfill_loop_all_settled)
  then show ?thesis by (simp add: backfill_def d1_def)
qed

lemma monitor_position_shape:
  fixes s :: monitor_state and v :: venue and uuid :: "nat \<Rightarrow> string" and now :: timestamp
    and ex key sec :: string and tn :: bool and i :: nat
  defines "s' \<equiv> monitor_position v uuid now ex tn key sec i s"
  shows "api_keys (m_db s') = api_keys (m_db s) \<and> m_log s' = m_log s
    \<and> length (positions (m_db s')) = length (positions (m_db s))
    \<and> ((m_next s' = m_next s \<and> trades (m_db s') = trades (m_db s)
         \<and> settled_ids (m_db s') = settled_ids (m_db s))
        \<or> (m_next s' = Suc (m_next s)
           \<and> (\<exists>t. trades (m_db s') = trades (m_db s) @ [t] \<and> tr_id t = uuid (m_next s))
           \<and> (settled_ids (m_db s') = settled_ids (m_db s)
               \<or> settled_ids (m_db s') = settled_ids (m_db s) @ [uuid (m_next s)])))"
proof -
  define d where "d = m_db s"
  define ep where "ep = checkExchangePosition v (po_symbol (positions d ! i)) ex ''futures'' tn key sec"
  define d1 where "d1 = (if currentPrice ep > 0 then
                  (case findIndex (\<lambda>p. po_id p = po_id (positions d ! i)) (positions d) of
                     Some posIndex \<Rightarrow>
                       d\<lparr>positions := (positions d)
                           [posIndex := (positions d ! posIndex)
                              \<lparr>po_current_price := Some (currentPrice ep),
                               po_unrealized_pnl := unrealizedPnl ep,
                               po_updated_at := now\<rparr>]\<rparr>
                   | None \<Rightarrow> d)
                else d)"
  have d1: "api_keys d1 = api_keys d" "trades d1 = trades d" "settled_ids d1 = settled_ids d"
    "length (positions d1) = length (positions d)"
    by (simp_all add: d1_def settled_ids_def split: option.splits)
  define d2 where "d2 = (\<lambda>posIndex. d1\<lparr>positions := (positions d1)
                           [posIndex := (positions d1 ! posIndex)
                              \<lparr>po_is_open := False,
                               po_unrealized_pnl := unrealizedPnl ep,
                               po_updated_at := now\<rparr>]\<rparr>)"
  define d3 where "d3 = (\<lambda>posIndex. (d2 posIndex)\<lparr>trades := trades (d2 posIndex) @
          [closing_trade (positions (d2 posIndex) ! i) ep (uuid (m_next s)) now]\<rparr>)"
  define d4 where "d4 = (\<lambda>posIndex. processProfitSharing (po_user_id (positions (d2 posIndex) ! i))
                           (uuid (m_next s)) (unrealizedPnl ep)
                           (po_environment (positions (d2 posIndex) ! i)) now (d3 posIndex))"
  have eq: "s' =
     (if \<not> isOpen ep \<and> po_is_open (positions d1 ! i) then
        (case findIndex (\<lambda>p. po_id p = po_id (positions d1 ! i)) (positions d1) of
           Some posIndex \<Rightarrow>
             s\<lparr>m_db := d4 posIndex, m_next := Suc (m_next s),
               m_results := m_results s @
                 [\<lparr>mr_position_id = po_id (positions (d2 posIndex) ! i),
                   mr_symbol = po_symbol (positions (d2 posIndex) ! i),
                   mr_status = ''closed'', mr_trigger = ''exchange_close'',
                   mr_realized_pnl = unrealizedPnl ep\<rparr>]\<rparr>
         | None \<Rightarrow> s\<lparr>m_db := d1\<rparr>)
      else s\<lparr>m_db := d1\<rparr>)"
    by (simp only: s'_def monitor_position_def Let_def d_def ep_def d1_def d2_def d3_def d4_def)
  have d3: "api_keys (d3 k) = api_keys d" "settled_ids (d3 k) = settled_ids d"
    "trades (d3 k) = trades d @ [closing_trade (positions (d2 k) ! i) ep (uuid (m_next s)) now]"
    "length (positions (d3 k)) = length (positions d)" for k
    using d1 by (simp_all add: d3_def d2_def settled_ids_def)
  have d4: "api_keys (d4 k) = api_keys (d3 k)" "trades (d4 k) = trades (d3 k)"
    "positions (d4 k) = positions (d3 k)"
    "settled_ids (d4 k) = settled_ids (d3 k) @ (if 0 < unrealizedPnl ep then [uuid (m_next s)] else [])"
    for k
    by (simp_all add: d4_def processProfitSharing_frame processProfitSharing_settled_ids)
  show ?thesis
  proof (cases "\<not> isOpen ep \<and> po_is_open (positions d1 ! i)")
    case False
    then have "s' = s\<lparr>m_db := d1\<rparr>" by (subst eq) (simp only: if_False)
    with d1 show ?thesis by (simp add: d_def)
  next
    case True
    show ?thesis
    proof (cases "findIndex (\<lambda>p. po_id p = po_id (positions d1 ! i)) (positions d1)")
      case None
      with True have "s' = s\<lparr>m_db := d1\<rparr>" by (subst eq) simp
      with d1 show ?thesis by (simp add: d_def)
    next
      case (Some posIndex)
      with True have eq': "s' = s\<lparr>m_db := d4 posIndex, m_next := Suc (m_next s),
               m_results := m_results s @
                 [\<lparr>mr_position_id = po_id (positions (d2 posIndex) ! i),
                   mr_symbol = po_symbol (positions (d2 posIndex) ! i),
                   mr_status = ''closed'', mr_trigger = ''exchange_close'',
                   mr_realized_pnl = unrealizedPnl ep\<rparr>]\<rparr>"
        by (subst eq) simp
      show ?thesis
        by (simp add: eq' d4 d3 d_def [symmetric] closing_trade_def)
    qed
  qed
qed

lemma monitor_position_inv:
  assumes inj: "inj uuid" and ne: "\<forall>n. uuid n \<noteq> []"
    and inv: "monitor_inv uuid (m_db s) (m_next s)"
  shows "monitor_inv uuid (m_db (monitor_position v uuid now ex tn key sec i s))
           (m_next (monitor_position v uuid now ex tn key sec i s))"
proof -
  define s' where "s' = monitor_position v uuid now ex tn key sec i s"
  from inv have dis: "distinct (settled_ids (m_db s))"
    and tne: "\<forall>t\<in>set (trades (m_db s)). tr_id t \<noteq> []"
    and fresh: "\<forall>n\<ge>m_next s. uuid n \<notin> set (settled_ids (m_db s))
                   \<and> uuid n \<notin> tr_id ` set (trades (m_db s))"
    by (simp_all add: monitor_inv_def)
  from monitor_position_shape [where v = v and uuid = uuid and now = now and ex = ex and tn = tn
      and key = key and sec = sec and i = i and s = s, folded s'_def]
  consider (same) "m_next s' = m_next s" "trades (m_db s') = trades (m_db s)"
      "settled_ids (m_db s') = settled_ids (m_db s)"
    | (closed) t where "m_next s' = Suc (m_next s)" "trades (m_db s') = trades (m_db s) @ [t]"
      "tr_id t = uuid (m_next s)"
      "settled_ids (m_db s') = settled_ids (m_db s)
       \<or> settled_ids (m_db s') = settled_ids (m_db s) @ [uuid (m_next s)]"
    by blast
  then have "monitor_inv uuid (m_db s') (m_next s')"
  proof cases
    case same
    with inv show ?thesis by (simp add: monitor_inv_def)
  next
    case closed
    from fresh have f0: "uuid (m_next s) \<notin> set (settled_ids (m_db s))" by simp
    have later: "uuid n \<noteq> uuid (m_next s)" if "Suc (m_next s) \<le> n" for n
      using inj that by (auto dest: injD)
    from closed(4) f0 dis have dis': "distinct (settled_ids (m_db s'))" by auto
    from closed(2,3) tne ne have tne': "\<forall>t\<in>set (trades (m_db s')). tr_id t \<noteq> []" by auto
    have fresh': "uuid n \<notin> set (settled_ids (m_db s')) \<and> uuid n \<notin> tr_id ` set (trades (m_db s'))"
      if "Suc (m_next s) \<le> n" for n
    proof -
      from that have "m_next s \<le> n" by simp
      with fresh have "uuid n \<notin> set (settled_ids (m_db s))" "uuid n \<notin> tr_id ` set (trades (m_db s))"
        by simp_all
      with later [OF that] closed(2,3,4) show ?thesis by auto
    qed
    from dis' tne' fresh' closed(1) show ?thesis by (simp add: monitor_inv_def)
  qed
  then show ?thesis by (simp add: s'_def)
qed

lemma fold_monitor_position_inv:
  assumes "inj uuid" and "\<forall>n. uuid n \<noteq> []" and "monitor_inv uuid (m_db s) (m_next s)"
  shows "monitor_inv uuid (m_db (fold (monitor_position v uuid now ex tn key sec) members s))
           (m_next (fold (monitor_position v uuid now ex tn key sec) members s))"
  using assms(3)
proof (induction members arbitrary: s)
  case Nil
  then show ?case by simp
next
  case (Cons i members)
  from monitor_position_inv [OF assms(1,2) Cons.prems]
  have "monitor_inv uuid (m_db (monitor_position v uuid now ex tn key sec i s))
           (m_next (monitor_position v uuid now ex tn key sec i s))" .
  from Cons.IH [OF this] show ?case by simp
qed

lemma monitor_group_inv:
  assumes "inj uuid" and "\<forall>n. uuid n \<noteq> []" and "monitor_inv uuid (m_db s) (m_next s)"
  shows "monitor_inv uuid (m_db (monitor_group v uuid now entry s))
           (m_next (monitor_group v uuid now entry s))"
proof -
  obtain key members where e: "entry = (key, members)" by (cases entry)
  show ?thesis
    using assms(3) fold_monitor_position_inv [OF assms]
    by (simp add: monitor_group_def e split: list.splits option.splits)
qed

lemma fold_monitor_group_inv:
  assumes "inj uuid" and "\<forall>n. uuid n \<noteq> []" and "monitor_inv uuid (m_db s) (m_next s)"
  shows "monitor_inv uuid (m_db (fold (monitor_group v uuid now) groups s))
           (m_next (fold (monitor_group v uuid now) groups s))"
  using assms(3)
proof (induction groups arbitrary: s)
  case Nil
  then show ?case by simp
next
  case (Cons g groups)
  from Cons.IH [OF monitor_group_inv [OF assms(1,2) Cons.prems]] show ?case by simp
qed

lemma positionMonitor_inv:
  assumes "inj uuid" and "\<forall>n. uuid n \<noteq> []" and "monitor_inv uuid d c"
  shows "monitor_inv uuid (mo_db (positionMonitor v uuid now d c)) (mo_next (positionMonitor v uuid now d c))"
proof -
  have b: "monitor_inv uuid (backfill now d) c" using assms(3) by (rule backfill_inv)
  show ?thesis
  proof (cases "open_indices (backfill now d) = []")
    case True
    with b show ?thesis by (simp add: positionMonitor_def Let_def)
  next
    case False
    let ?s0 = "\<lparr>m_db = backfill now d, m_next = c, m_results = [], m_log = []\<rparr>"
    have "monitor_inv uuid (m_db ?s0) (m_next ?s0)" using b by simp
    from fold_monitor_group_inv [OF assms(1,2) this] False show ?thesis
      by (simp add: positionMonitor_def Let_def)
  qed
qed

lemma positionMonitor_next: "c \<le> mo_next (positionMonitor v uuid now d c)"
proof -
  have step: "m_next s \<le> m_next (monitor_position v uuid now ex tn key sec i s)" for ex tn key sec i s
    using monitor_position_shape [where v = v and uuid = uuid and now = now and ex = ex and tn = tn
      and key = key and sec = sec and i = i and s = s] by auto
  have members: "m_next s \<le> m_next (fold (monitor_position v uuid now ex tn key sec) ms s)"
    for ex tn key sec ms s
  proof (induction ms arbitrary: s)
    case Nil
    show ?case by simp
  next
    case (Cons i ms)
    from step [of s ex tn key sec i] Cons [of "monitor_position v uuid now ex tn key sec i s"]
    show ?case by simp
  qed
  have group: "m_next s \<le> m_next (monitor_group v uuid now g s)" for g s
    using members by (cases g) (simp add: monitor_group_def split: list.splits option.splits)
  have groups: "m_next s \<le> m_next (fold (monitor_group v uuid now) gs s)" for gs s
  proof (induction gs arbitrary: s)
    case Nil
    show ?case by simp
  next
    case (Cons g gs)
    from group [of s g] Cons [of "monitor_group v uuid now g s"] show ?case by simp
  qed
  from groups [of "\<lparr>m_db = backfill now d, m_next = c, m_results = [], m_log = []\<rparr>"]
  show ?thesis by (simp add: positionMonitor_def Let_def)
qed

lemma monitor_inv_later: "monitor_inv uuid d c \<Longrightarrow> c \<le> c' \<Longrightarrow> monitor_inv uuid d c'"
  by (auto simp: monitor_inv_def)

lemma monitor_runs_inv:
  assumes "inj uuid" and "\<forall>n. uuid n \<noteq> []" and "monitor_inv uuid d c"
  shows "monitor_inv uuid (fst (monitor_runs uuid runs (d, c))) (snd (monitor_runs uuid runs (d, c)))"
  using assms(3)
proof (induction runs arbitrary: d c)
  case Nil
  then show ?case by simp
next
  case (Cons run runs)
  obtain v now where run: "run = (v, now)" by (cases run)
  define out where "out = positionMonitor v uuid now d c"
  have "monitor_inv uuid (if mo_written out then mo_db out else d) (mo_next out)"
    using positionMonitor_inv [OF assms(1,2) Cons.prems, of v now]
      monitor_inv_later [OF Cons.prems positionMonitor_next [of c v uuid now d]]
    by (simp add: out_def)
  from Cons.IH [OF this]
  have ih: "monitor_inv uuid
      (fst (monitor_runs uuid runs (if mo_written out then mo_db out else d, mo_next out)))
      (snd (monitor_runs uuid runs (if mo_written out then mo_db out else d, mo_next out)))" .
  have eq: "monitor_runs uuid (run # runs) (d, c)
            = monitor_runs uuid runs (if mo_written out then mo_db out else d, mo_next out)"
    by (simp only: run monitor_runs.simps Let_def out_def)
  show ?case by (simp only: eq ih)
qed

text \<open>
  C1, as stated: settling again for a trade id that already has a settlement row changes
  nothing.  \<open>processProfitSharing\<close> does not look for an existing row.  Called twice for
  the trade \<open>trade-1\<close> of the trader with a profit of 1000, it writes two settlement rows
  with that trade id, takes the fee twice (the balance goes from 10 to \<open>- 290\<close> and then
  to \<open>- 590\<close>) and writes the commission rows and the admin row twice.
\<close>

theorem settlement_repeated_counterexample:
  "settled_ids demo_db = []
   \<and> settled_ids (processProfitSharing ''trader'' ''trade-1'' 1000 ''mainnet'' 0 demo_db)
       = [''trade-1'']
   \<and> balance_of (processProfitSharing ''trader'' ''trade-1'' 1000 ''mainnet'' 0 demo_db)
        ''trader'' ''mainnet'' = - 290
   \<and> settled_ids (processProfitSharing ''trader'' ''trade-1'' 1000 ''mainnet'' 0
        (processProfitSharing ''trader'' ''trade-1'' 1000 ''mainnet'' 0 demo_db))
       = [''trade-1'', ''trade-1'']
   \<and> balance_of (processProfitSharing ''trader'' ''trade-1'' 1000 ''mainnet'' 0
        (processProfitSharing ''trader'' ''trade-1'' 1000 ''mainnet'' 0 demo_db))
        ''trader'' ''mainnet'' = - 590
   \<and> length (referral_commissions (processProfitSharing ''trader'' ''trade-1'' 1000 ''mainnet'' 0
        (processProfitSharing ''trader'' ''trade-1'' 1000 ''mainnet'' 0 demo_db))) = 4
   \<and> length (admin_earnings (processProfitSharing ''trader'' ''trade-1'' 1000 ''mainnet'' 0
        (processProfitSharing ''trader'' ''trade-1'' 1000 ''mainnet'' 0 demo_db))) = 2
   \<and> processProfitSharing ''trader'' ''trade-1'' 1000 ''mainnet'' 0
        (processProfitSharing ''trader'' ''trade-1'' 1000 ''mainnet'' 0 demo_db)
       \<noteq> processProfitSharing ''trader'' ''trade-1'' 1000 ''mainnet'' 0 demo_db"
proof -
  define d1 where "d1 = processProfitSharing ''trader'' ''trade-1'' 1000 ''mainnet'' 0 demo_db"
  define d2 where "d2 = processProfitSharing ''trader'' ''trade-1'' 1000 ''mainnet'' 0 d1"
  have pos: "0 < (1000 :: real)" by simp
  note p1 = processProfitSharing_pos [OF pos, of "''trader''" "''trade-1''" "''mainnet''" 0 demo_db,
      folded d1_def]
  note p2 = processProfitSharing_pos [OF pos, of "''trader''" "''trade-1''" "''mainnet''" 0 d1,
      folded d2_def]
  have s0: "settled_ids demo_db = []"
    by (simp add: demo_db_def empty_db_def settled_ids_def List.map_filter_def)
  have s1: "settled_ids d1 = [''trade-1'']"
    by (simp add: d1_def processProfitSharing_settled_ids s0)
  have s2: "settled_ids d2 = [''trade-1'', ''trade-1'']"
    by (simp add: d2_def processProfitSharing_settled_ids s1)
  have ch1: "getReferralChain d1 ''trader'' = getReferralChain demo_db ''trader''"
    by (rule getReferralChain_profiles) (rule p1(8))
  have b0: "balance_of demo_db ''trader'' ''mainnet'' = 10"
    by (simp add: balance_of_def demo_db_def empty_db_def)
  have b1: "balance_of d1 ''trader'' ''mainnet'' = - 290"
    using p1(5) [of "''trader''" "''mainnet''"]
    by (simp add: demo_chain b0 SERVICE_FEE_RATE_def)
  have b2: "balance_of d2 ''trader'' ''mainnet'' = - 590"
    using p2(5) [of "''trader''" "''mainnet''"]
    by (simp add: ch1 demo_chain b1 SERVICE_FEE_RATE_def)
  have r0: "referral_commissions demo_db = []" "admin_earnings demo_db = []"
    by (simp_all add: demo_db_def empty_db_def)
  have r2: "length (referral_commissions d2) = 4"
    by (simp add: p2(2) p1(2) ch1 demo_chain r0)
  have a2: "length (admin_earnings d2) = 2"
    by (simp add: p2(3) p1(3) r0)
  from s1 s2 have ne: "d2 \<noteq> d1" by auto
  from s0 s1 s2 b1 b2 r2 a2 ne show ?thesis
    unfolding d2_def d1_def by (intro conjI)
qed

text \<open>
  C1, amended.  The settlement itself is not idempotent: every call with a positive profit
  appends a settlement row for its trade id.  What keeps one row per trade id is its
  callers in the position monitor: the backfill pass settles a trade only when its id is
  not among the settled ids, and the loop over the positions settles only the trade it has
  just made, under a fresh id.  Take a supply of trade ids that never repeats, never
  yields the empty id and is unused in the document, and a document with at most one
  settlement row per trade id and no trade with an empty id (the backfill pass does not
  count an empty id as settled).  Then after any sequence of runs of the position monitor
  (each with its backfill pass) the file holds at most one settlement row per trade id,
  and so does the document in memory after a single run; and a second backfill pass over
  the backfilled document returns it unchanged, balances, ledger, commissions and admin
  earnings included.
\<close>

theorem settlement_once_per_trade:
  assumes "inj uuid" and "\<forall>n. uuid n \<noteq> []"
    and "distinct (settled_ids d)" and "\<forall>t\<in>set (trades d). tr_id t \<noteq> []"
    and "\<forall>n\<ge>c. uuid n \<notin> set (settled_ids d) \<and> uuid n \<notin> tr_id ` set (trades d)"
  shows "distinct (settled_ids (fst (monitor_runs uuid runs (d, c))))
   \<and> (\<forall>v now. distinct (settled_ids (mo_db (positionMonitor v uuid now d c))))
   \<and> (\<forall>now now'. backfill now' (backfill now d) = backfill now d)
   \<and> (\<forall>u t g e tm d'. 0 < g
        \<longrightarrow> settled_ids (processProfitSharing u t g e tm d') = settled_ids d' @ [t])"
proof -
  from assms(3-5) have inv: "monitor_inv uuid d c" by (simp add: monitor_inv_def)
  from monitor_runs_inv [OF assms(1,2) inv, of runs]
  have "distinct (settled_ids (fst (monitor_runs uuid runs (d, c))))" by (simp add: monitor_inv_def)
  moreover from positionMonitor_inv [OF assms(1,2) inv]
  have "\<forall>v now. distinct (settled_ids (mo_db (positionMonitor v uuid now d c)))"
    by (simp add: monitor_inv_def)
  moreover from backfill_idempotent [OF assms(4)]
  have "\<forall>now now'. backfill now' (backfill now d) = backfill now d" by simp
  moreover have "\<forall>u t g e tm d'. 0 < g
        \<longrightarrow> settled_ids (processProfitSharing u t g e tm d') = settled_ids d' @ [t]"
    by (simp add: processProfitSharing_settled_ids)
  ultimately show ?thesis by (intro conjI)
qed

lemma demo_uuid_facts: "inj demo_uuid" "\<forall>n. demo_uuid n \<noteq> []"
  by (auto simp: demo_uuid_def inj_def replicate_eq_replicate [where ?x = "CHR ''u''", simplified])

theorem settlement_once_per_trade_witness:
  "inj demo_uuid \<and> (\<forall>n. demo_uuid n \<noteq> [])
   \<and> distinct (settled_ids demo_monitor_db) \<and> map tr_id (trades demo_monitor_db) = [''t-9'']
   \<and> (\<forall>n. demo_uuid n \<noteq> ''t-9'')
   \<and> distinct (settled_ids (fst (monitor_runs demo_uuid [(venue_closed, 0), (venue_closed, 60000)]
                                    (demo_monitor_db, 0))))
   \<and> settled_ids (backfill 0 demo_monitor_db) = [''t-9'']
   \<and> backfill 60000 (backfill 0 demo_monitor_db) = backfill 0 demo_monitor_db"
proof -
  have tr: "map tr_id (trades demo_monitor_db) = [''t-9'']"
    by (simp add: demo_monitor_db_def)
  have st: "settled_ids demo_monitor_db = []"
    by (simp add: demo_monitor_db_def demo_gate_db_def demo_db_def empty_db_def settled_ids_def
        List.map_filter_def)
  have nine: "demo_uuid n \<noteq> ''t-9''" for n by (simp add: demo_uuid_def)
  have tne: "\<forall>t\<in>set (trades demo_monitor_db). tr_id t \<noteq> []"
    by (simp add: demo_monitor_db_def)
  have fresh: "\<forall>n\<ge>0. demo_uuid n \<notin> set (settled_ids demo_monitor_db)
                   \<and> demo_uuid n \<notin> tr_id ` set (trades demo_monitor_db)"
  proof -
    have trs: "tr_id ` set (trades demo_monitor_db) = {''t-9''}"
      by (simp add: demo_monitor_db_def)
    show ?thesis using nine by (simp add: st trs)
  qed
  have dis: "distinct (settled_ids demo_monitor_db)" by (simp add: st)
  note th = settlement_once_per_trade [OF demo_uuid_facts dis tne fresh,
      of "[(venue_closed, 0), (venue_closed, 60000)]"]
  have bf: "settled_ids (backfill 0 demo_monitor_db) = [''t-9'']"
  proof -
    have pt: "profitableTrades demo_monitor_db = trades demo_monitor_db"
      by (simp add: profitableTrades_def demo_monitor_db_def)
    obtain t where t: "trades demo_monitor_db = [t]" "tr_id t = ''t-9''"
      "tr_realized_pnl t = Some 40"
      by (simp add: demo_monitor_db_def)
    show ?thesis
      by (simp add: backfill_def pt t settledTradeIds_def st processProfitSharing_settled_ids)
  qed
  from th demo_uuid_facts dis tr nine bf show ?thesis by simp
qed

section \<open>Results: one tick of the reconciler\<close>

lemma findIndex_distinct:
  "distinct (map f xs) \<Longrightarrow> i < length xs \<Longrightarrow> findIndex (\<lambda>q. f q = f (xs ! i)) xs = Some i"
proof (induction xs arbitrary: i)
  case Nil
  then show ?case by simp
next
  case (Cons x xs)
  show ?case
  proof (cases i)
    case 0
    then show ?thesis by simp
  next
    case (Suc j)
    with Cons.prems have j: "j < length xs" and d: "distinct (map f xs)"
      and nx: "f x \<notin> f ` set xs" by simp_all
    from j nx have "f x \<noteq> f (xs ! j)" by (metis image_eqI nth_mem)
    with Cons.IH [OF d j] Suc show ?thesis by simp
  qed
qed

lemma map_update_same_key:
  "i < length xs \<Longrightarrow> f y = f (xs ! i) \<Longrightarrow> map f (xs[i := y]) = map f xs"
  by (simp add: map_update list_update_same_conv)

lemma price_updated_fields:
  "po_id (price_updated p ep now) = po_id p"
  "po_is_open (price_updated p ep now) = po_is_open p"
  "po_symbol (price_updated p ep now) = po_symbol p"
  "po_user_id (price_updated p ep now) = po_user_id p"
  "po_environment (price_updated p ep now) = po_environment p"
  "po_exchange (price_updated p ep now) = po_exchange p"
  by (simp_all add: price_updated_def)

lemma closing_trade_closed_position:
  "closing_trade (closed_position p ep now) ep t now = closing_trade p ep t now"
  by (simp add: closing_trade_def closed_position_def price_updated_def)

lemma monitor_position_own_index:
  fixes s :: monitor_state and v :: venue and uuid :: "nat \<Rightarrow> string" and now :: timestamp
    and ex key sec :: string and tn :: bool and i :: nat
  assumes ids: "distinct (map po_id (positions (m_db s)))" and i: "i < length (positions (m_db s))"
  defines "p \<equiv> positions (m_db s) ! i"
  defines "ep \<equiv> checkExchangePosition v (po_symbol p) ex ''futures'' tn key sec"
  shows "monitor_position v uuid now ex tn key sec i s =
     (if \<not> isOpen ep \<and> po_is_open p then
        s\<lparr>m_db := processProfitSharing (po_user_id p) (uuid (m_next s)) (unrealizedPnl ep)
                    (po_environment p) now
                    ((m_db s)\<lparr>positions := (positions (m_db s))[i := closed_position p ep now],
                              trades := trades (m_db s) @ [closing_trade p ep (uuid (m_next s)) now]\<rparr>),
          m_next := Suc (m_next s),
          m_results := m_results s @ [close_result p ep]\<rparr>
      else s\<lparr>m_db := (m_db s)\<lparr>positions := (positions (m_db s))[i := price_updated p ep now]\<rparr>\<rparr>)"
proof -
  define d where "d = m_db s"
  define ps where "ps = positions d"
  have p: "p = ps ! i" by (simp add: p_def ps_def d_def)
  have i': "i < length ps" using i by (simp add: ps_def d_def)
  have ids': "distinct (map po_id ps)" using ids by (simp add: ps_def d_def)
  have fi: "findIndex (\<lambda>q. po_id q = po_id (ps ! i)) ps = Some i"
    using ids' i' by (rule findIndex_distinct)
  define d1 where "d1 = d\<lparr>positions := ps[i := price_updated p ep now]\<rparr>"
  have first: "(if currentPrice ep > 0 then
                  (case findIndex (\<lambda>q. po_id q = po_id (positions d ! i)) (positions d) of
                     Some posIndex \<Rightarrow>
                       d\<lparr>positions := (positions d)
                           [posIndex := (positions d ! posIndex)
                              \<lparr>po_current_price := Some (currentPrice ep),
                               po_unrealized_pnl := unrealizedPnl ep,
                               po_updated_at := now\<rparr>]\<rparr>
                   | None \<Rightarrow> d)
                else d) = d1"
  proof -
    have same: "d\<lparr>positions := ps[i := p]\<rparr> = d" by (simp add: p ps_def)
    show ?thesis
      using fi same
      by (simp add: d1_def price_updated_def ps_def [symmetric] p [symmetric])
  qed
  have ps1: "positions d1 = ps[i := price_updated p ep now]" by (simp add: d1_def)
  have at1: "positions d1 ! i = price_updated p ep now" using i' by (simp add: ps1)
  have ids1: "distinct (map po_id (positions d1))"
    using ids' i' by (simp add: ps1 map_update_same_key p price_updated_fields)
  have fi1: "findIndex (\<lambda>q. po_id q = po_id p) (positions d1) = Some i"
    using findIndex_distinct [OF ids1, of i] i' by (simp add: at1 ps1 price_updated_fields)
  have eq: "monitor_position v uuid now ex tn key sec i s =
     (let exchangePos = ep; d1' = d1; position = positions d1' ! i
      in if \<not> isOpen exchangePos \<and> po_is_open position then
           (case findIndex (\<lambda>q. po_id q = po_id position) (positions d1') of
              Some posIndex \<Rightarrow>
                let d2 = d1'\<lparr>positions := (positions d1')
                           [posIndex := (positions d1' ! posIndex)
                              \<lparr>po_is_open := False,
                               po_unrealized_pnl := unrealizedPnl exchangePos,
                               po_updated_at := now\<rparr>]\<rparr>;
                    position2 = positions d2 ! i;
                    tradeId = uuid (m_next s);
                    d3 = d2\<lparr>trades := trades d2 @ [closing_trade position2 exchangePos tradeId now]\<rparr>;
                    d4 = processProfitSharing (po_user_id position2) tradeId
                           (unrealizedPnl exchangePos) (po_environment position2) now d3
                in s\<lparr>m_db := d4, m_next := Suc (m_next s),
                     m_results := m_results s @
                       [\<lparr>mr_position_id = po_id position2, mr_symbol = po_symbol position2,
                         mr_status = ''closed'', mr_trigger = ''exchange_close'',
                         mr_realized_pnl = unrealizedPnl exchangePos\<rparr>]\<rparr>
            | None \<Rightarrow> s\<lparr>m_db := d1'\<rparr>)
         else s\<lparr>m_db := d1'\<rparr>)"
    unfolding monitor_position_def first [symmetric] ep_def p_def d_def
    by (simp only: Let_def)
  show ?thesis
  proof (cases "\<not> isOpen ep \<and> po_is_open p")
    case False
    then have c: "(\<not> isOpen ep \<and> po_is_open p) = False" by simp
    have "monitor_position v uuid now ex tn key sec i s = s\<lparr>m_db := d1\<rparr>"
      unfolding eq Let_def at1 price_updated_fields by (simp only: c if_False)
    then show ?thesis
      by (simp only: c if_False) (simp add: d1_def d_def ps_def)
  next
    case True
    define d2 where "d2 = d1\<lparr>positions := (positions d1)
                           [i := (positions d1 ! i)
                              \<lparr>po_is_open := False,
                               po_unrealized_pnl := unrealizedPnl ep,
                               po_updated_at := now\<rparr>]\<rparr>"
    have at2: "positions d2 ! i = closed_position p ep now"
      using i' by (simp add: d2_def ps1 closed_position_def)
    have d2: "d2 = d\<lparr>positions := ps[i := closed_position p ep now]\<rparr>"
      using i' by (simp add: d2_def d1_def closed_position_def)
    have cp: "po_id (closed_position p ep now) = po_id p"
      "po_symbol (closed_position p ep now) = po_symbol p"
      "po_user_id (closed_position p ep now) = po_user_id p"
      "po_environment (closed_position p ep now) = po_environment p"
      by (simp_all add: closed_position_def price_updated_fields)
    from True have c: "(\<not> isOpen ep \<and> po_is_open p) = True" by simp
    have "monitor_position v uuid now ex tn key sec i s =
        s\<lparr>m_db := processProfitSharing (po_user_id (positions d2 ! i)) (uuid (m_next s))
                    (unrealizedPnl ep) (po_environment (positions d2 ! i)) now
                    (d2\<lparr>trades := trades d2 @
                          [closing_trade (positions d2 ! i) ep (uuid (m_next s)) now]\<rparr>),
          m_next := Suc (m_next s),
          m_results := m_results s @
            [\<lparr>mr_position_id = po_id (positions d2 ! i), mr_symbol = po_symbol (positions d2 ! i),
              mr_status = ''closed'', mr_trigger = ''exchange_close'',
              mr_realized_pnl = unrealizedPnl ep\<rparr>]\<rparr>"
      unfolding eq Let_def at1 price_updated_fields fi1
      by (simp only: c if_True option.case at1 d2_def)
    then show ?thesis
      using i
      by (simp only: c if_True)
         (simp add: cp closing_trade_closed_position close_result_def d2 d_def ps_def)
  qed
qed



lemma closed_position_fields:
  "po_id (closed_position p ep now) = po_id p"
  "po_is_open (closed_position p ep now) = False"
  by (simp_all add: closed_position_def price_updated_fields)





















lemma monitor_group_found:
  assumes "split_on CHR ''-'' key = [u, ex, env]"
    and "find_api_key (m_db s) u ex ''futures'' env = Some k"
  shows "monitor_group v uuid now (key, ms) s =
     fold (monitor_position v uuid now ex (env = ''testnet'') (ak_api_key_encrypted k)
             (ak_api_secret_encrypted k)) ms s"
  using assms by (simp add: monitor_group_def)






section \<open>Results: the credential of a group\<close>

text \<open>
  C4.  The claim reads: the credential is looked up with the owner, the exchange and the
  environment of the position, and a position without a matching active credential is
  skipped and logged.  The loop over the groups does not take the three values from the
  position: it splits the group key \<open>user_id-exchange-environment\<close> at every hyphen and
  takes the first three parts.  For the trader below, whose user id is a UUID, the
  owner holds an active credential for the exchange and the environment of the position
  and the venue reports size 0, but the lookup is made with user id \<open>9b2f6c1e\<close>,
  exchange \<open>4d3a\<close> and environment \<open>4e8b\<close>: it finds nothing, the group is logged as
  having no API keys, and the run leaves the document as it was, the position open.
\<close>

theorem credential_lookup_splits_user_id:
  "find_api_key uuid_monitor_db (po_user_id uuid_position) (po_exchange uuid_position) ''futures''
     (po_environment uuid_position) = Some uuid_api_key
   \<and> open_indices uuid_monitor_db = [0]
   \<and> userPositions uuid_monitor_db = [(uuid_user @ ''-bybit-testnet'', [0])]
   \<and> take 3 (split_on CHR ''-'' (position_key uuid_position)) = [''9b2f6c1e'', ''4d3a'', ''4e8b'']
   \<and> find_api_key uuid_monitor_db ''9b2f6c1e'' ''4d3a'' ''futures'' ''4e8b'' = None
   \<and> mo_db (positionMonitor venue_closed demo_uuid 0 uuid_monitor_db 0) = uuid_monitor_db
   \<and> po_is_open (positions (mo_db (positionMonitor venue_closed demo_uuid 0 uuid_monitor_db 0)) ! 0)
   \<and> mo_results (positionMonitor venue_closed demo_uuid 0 uuid_monitor_db 0) = []
   \<and> mo_log (positionMonitor venue_closed demo_uuid 0 uuid_monitor_db 0)
       = [''No API keys found for 9b2f6c1e-4d3a-4e8b-a1c7-5f0e2d6b8a94-bybit-testnet'']
   \<and> isOpen (checkExchangePosition venue_closed ''BTCUSDT'' ''bybit'' ''futures'' True ''a2V5''
                ''c2VjcmV0'') = False"
proof -
  have pos: "positions uuid_monitor_db = [uuid_position]" "trades uuid_monitor_db = []"
    "api_keys uuid_monitor_db = [uuid_api_key]"
    by (simp_all add: uuid_monitor_db_def empty_db_def)
  have f: "po_user_id uuid_position = uuid_user" "po_exchange uuid_position = ''bybit''"
    "po_environment uuid_position = ''testnet''" "po_is_open uuid_position"
    by (simp_all add: uuid_position_def)
  have c1: "find_api_key uuid_monitor_db (po_user_id uuid_position) (po_exchange uuid_position)
     ''futures'' (po_environment uuid_position) = Some uuid_api_key"
    by (simp add: find_api_key_def pos f uuid_api_key_def)
  have oi: "open_indices uuid_monitor_db = [0]"
    by (simp add: open_indices_def pos f)
  have key: "position_key uuid_position = ''9b2f6c1e-4d3a-4e8b-a1c7-5f0e2d6b8a94-bybit-testnet''"
    by (simp add: position_key_def f uuid_user_def)
  have up: "userPositions uuid_monitor_db = [(uuid_user @ ''-bybit-testnet'', [0])]"
    by (simp add: userPositions_def oi pos position_key_def f)
  have sp: "split_on CHR ''-'' ''9b2f6c1e-4d3a-4e8b-a1c7-5f0e2d6b8a94-bybit-testnet''
     = [''9b2f6c1e'', ''4d3a'', ''4e8b'', ''a1c7'', ''5f0e2d6b8a94'', ''bybit'', ''testnet'']"
    by simp
  have c2: "find_api_key uuid_monitor_db ''9b2f6c1e'' ''4d3a'' ''futures'' ''4e8b'' = None"
    by (simp add: find_api_key_def pos uuid_api_key_def uuid_user_def)
  have bf: "backfill 0 uuid_monitor_db = uuid_monitor_db"
    by (simp add: backfill_def profitableTrades_def pos)
  have grp: "monitor_group venue_closed demo_uuid 0
       (''9b2f6c1e-4d3a-4e8b-a1c7-5f0e2d6b8a94-bybit-testnet'', [0])
       \<lparr>m_db = uuid_monitor_db, m_next = 0, m_results = [], m_log = []\<rparr>
     = \<lparr>m_db = uuid_monitor_db, m_next = 0, m_results = [],
        m_log = [''No API keys found for 9b2f6c1e-4d3a-4e8b-a1c7-5f0e2d6b8a94-bybit-testnet'']\<rparr>"
    unfolding monitor_group_def by (simp only: prod.case sp list.case) (simp add: c2)
  have run: "positionMonitor venue_closed demo_uuid 0 uuid_monitor_db 0
     = \<lparr>mo_db = uuid_monitor_db, mo_next = 0, mo_written = True, mo_monitored = 1,
        mo_results = [],
        mo_log = [''No API keys found for 9b2f6c1e-4d3a-4e8b-a1c7-5f0e2d6b8a94-bybit-testnet'']\<rparr>"
    by (simp add: positionMonitor_def bf oi up uuid_user_def grp)
  have ep: "isOpen (checkExchangePosition venue_closed ''BTCUSDT'' ''bybit'' ''futures'' True
      ''a2V5'' ''c2VjcmV0'') = False"
    by (simp add: checkExchangePosition_def venue_closed_def)
  show ?thesis
    by (simp only: c1 oi up key sp c2 run ep) (simp add: pos f)
qed

section \<open>Results: the daily loss cap later in the day\<close>

lemma gas_balance_positive:
  assumes "0 < balance_of d u e"
  shows "\<not> (case find (\<lambda>b. gb_user_id b = u \<and> gb_environment b = e) (gas_fee_balances d) of
             None \<Rightarrow> True
           | Some gasBalance \<Rightarrow> gb_balance gasBalance \<le> 0)"
  using assms by (simp add: balance_of_def split: option.splits)

text \<open>
  C7, as stated: with a daily PnL of at most \<open>- m\<close> every new signal is rejected for the
  rest of the day.  At 02:30 the trader's daily PnL is \<open>- 150\<close> against a cap of 100 and the
  gate skips the strategy.  At 09:00 a run of the position monitor finds the trader's open
  position closed on the venue with a PnL of 60, appends the closing trade and settles the
  fee.  At 10:00 of the same day the daily PnL is \<open>- 90\<close> and the gate lets the strategy
  through.
\<close>

theorem daily_loss_gate_reopens:
  "dayStart 9000000 = dayStart 36000000
   \<and> dailyPnl demo_recovery_db ''trader'' 9000000 = - 150
   \<and> riskGate demo_strategy 9000000 demo_recovery_db
       = Skip ''Max daily loss reached for strategy s1''
   \<and> mo_written (positionMonitor venue_profit demo_uuid 32400000 demo_recovery_db 0)
   \<and> dailyPnl (mo_db (positionMonitor venue_profit demo_uuid 32400000 demo_recovery_db 0))
        ''trader'' 36000000 = - 90
   \<and> riskGate demo_strategy 36000000
        (mo_db (positionMonitor venue_profit demo_uuid 32400000 demo_recovery_db 0))
       = Proceed demo_api_key"
proof -
  define d where "d = demo_recovery_db"
  define ep where "ep = \<lparr>isOpen = False, currentSize = 0, unrealizedPnl = 60, currentPrice = 50500\<rparr>"
  define ct where "ct = closing_trade demo_position ep (demo_uuid 0) 32400000"
  define D where "D = d\<lparr>positions := [closed_position demo_position ep 32400000],
                         trades := trades d @ [ct]\<rparr>"
  define d' where "d' = processProfitSharing ''trader'' (demo_uuid 0) 60 ''mainnet'' 32400000 D"
  have pos: "positions d = [demo_position]" by (simp add: d_def demo_recovery_db_def)
  have trs: "trades d = trades demo_loss_db"
    by (simp add: d_def demo_recovery_db_def)
  have aks: "api_keys d = [demo_api_key]"
    by (simp add: d_def demo_recovery_db_def demo_loss_db_def demo_gate_db_def)
  have bots: "bot_status d = [\<lparr>bs_user_id = ''trader'', bs_is_running = True,
                      bs_environment = ''mainnet'', bs_exchange = Some ''binance''\<rparr>]"
    by (simp add: d_def demo_recovery_db_def demo_loss_db_def demo_gate_db_def)
  have prof: "profiles d = profiles demo_db"
    by (simp add: d_def demo_recovery_db_def demo_loss_db_def demo_gate_db_def)
  have bal: "balance_of d ''trader'' ''mainnet'' = 100"
    by (simp add: d_def demo_recovery_db_def balance_of_def)
  have f: "po_id demo_position = ''pos-1''" "po_user_id demo_position = ''trader''"
    "po_exchange demo_position = ''binance''" "po_environment demo_position = ''mainnet''"
    "po_symbol demo_position = ''BTCUSDT''" "po_is_open demo_position"
    by (simp_all add: demo_position_def)
  have pnl0: "dailyPnl d ''trader'' 9000000 = - 150"
    by (simp add: dailyPnl_def trs demo_loss_db_def dayStart_def pnl_of_def)
  have day: "dayStart 9000000 = dayStart 36000000" by (simp add: dayStart_def)
  have g0: "riskGate demo_strategy 9000000 d = Skip ''Max daily loss reached for strategy s1''"
    using pnl0
    by (simp add: riskGate_def Let_def demo_strategy_def getConfigNumber_def
        isWithinTradingSession_def)
  have bf: "backfill 32400000 d = d"
    by (simp add: backfill_def profitableTrades_def trs demo_loss_db_def)
  have oi: "open_indices d = [0]" by (simp add: open_indices_def pos f)
  have up: "userPositions d = [(''trader-binance-mainnet'', [0])]"
    by (simp add: userPositions_def oi pos position_key_def f)
  have sp: "split_on CHR ''-'' ''trader-binance-mainnet'' = [''trader'', ''binance'', ''mainnet'']"
    by simp
  define s0 where "s0 = \<lparr>m_db = d, m_next = 0, m_results = [], m_log = []\<rparr>"
  have cr: "find_api_key (m_db s0) ''trader'' ''binance'' ''futures'' ''mainnet'' = Some demo_api_key"
    by (simp add: s0_def find_api_key_def aks demo_api_key_def)
  have epv: "checkExchangePosition venue_profit (po_symbol (positions (m_db s0) ! 0)) ''binance''
      ''futures'' False (ak_api_key_encrypted demo_api_key)
      (ak_api_secret_encrypted demo_api_key) = ep"
    by (simp add: checkExchangePosition_def venue_profit_def ep_def)
  have epf: "isOpen ep = False" "unrealizedPnl ep = 60" by (simp_all add: ep_def)
  have ids: "distinct (map po_id (positions (m_db s0)))" and i0: "0 < length (positions (m_db s0))"
    by (simp_all add: s0_def pos)
  have step: "monitor_position venue_profit demo_uuid 32400000 ''binance'' False
      (ak_api_key_encrypted demo_api_key) (ak_api_secret_encrypted demo_api_key) 0 s0
     = s0\<lparr>m_db := d', m_next := Suc 0, m_results := [close_result demo_position ep]\<rparr>"
    using monitor_position_own_index [OF ids i0, where v = venue_profit and uuid = demo_uuid
        and now = 32400000 and ex = "''binance''" and tn = False
        and key = "ak_api_key_encrypted demo_api_key" and sec = "ak_api_secret_encrypted demo_api_key",
        unfolded epv]
    by (simp add: s0_def pos f epf d'_def D_def ct_def)
  have run: "fold (monitor_group venue_profit demo_uuid 32400000) (userPositions d) s0
     = s0\<lparr>m_db := d', m_next := Suc 0, m_results := [close_result demo_position ep]\<rparr>"
    by (simp add: up monitor_group_found [OF sp cr] step)
  have out: "mo_db (positionMonitor venue_profit demo_uuid 32400000 d 0) = d'"
    "mo_written (positionMonitor venue_profit demo_uuid 32400000 d 0)"
    by (simp_all add: positionMonitor_def bf oi s0_def [symmetric] run)
  have tr': "trades d' = trades demo_loss_db @ [ct]"
    by (simp add: d'_def processProfitSharing_frame D_def trs)
  have ak': "api_keys d' = [demo_api_key]"
    by (simp add: d'_def processProfitSharing_frame D_def aks)
  have po': "positions d' = [closed_position demo_position ep 32400000]"
    by (simp add: d'_def processProfitSharing_frame D_def)
  have g60: "0 < (60 :: real)" by simp
  note pp = processProfitSharing_pos [OF g60, of "''trader''" "demo_uuid 0" "''mainnet''" 32400000 D,
      folded d'_def]
  have bo': "bot_status d' = bot_status d" using pp(11) by (simp add: D_def)
  have ch: "getReferralChain D ''trader'' = getReferralChain demo_db ''trader''"
    by (rule getReferralChain_profiles) (simp add: D_def prof)
  have balD: "balance_of D ''trader'' ''mainnet'' = 100"
    using bal by (simp add: D_def balance_of_def)
  have bal': "balance_of d' ''trader'' ''mainnet'' = 82"
    using pp(5) [of "''trader''" "''mainnet''"]
    by (simp add: ch demo_chain balD SERVICE_FEE_RATE_def)
  have gas: "\<not> (case find (\<lambda>b. gb_user_id b = ''trader'' \<and> gb_environment b = ''mainnet'')
                      (gas_fee_balances d') of
               None \<Rightarrow> True | Some gasBalance \<Rightarrow> gb_balance gasBalance \<le> 0)"
    by (rule gas_balance_positive) (simp add: bal')
  have ctf: "tr_user_id ct = ''trader''" "tr_created_at ct = 32400000"
    "tr_realized_pnl ct = Some 60" "tr_triggered_by ct = Some ''position_monitor''"
    by (simp_all add: ct_def closing_trade_def f ep_def)
  have pnl1: "dailyPnl d' ''trader'' 36000000 = - 90"
    by (simp add: dailyPnl_def tr' demo_loss_db_def dayStart_def pnl_of_def ctf)
  have dt1: "dailyTrades d' ''trader'' 36000000 = []"
    by (simp add: dailyTrades_def tr' demo_loss_db_def dayStart_def ctf)
  have open': "filter (\<lambda>p. po_user_id p = ''trader'' \<and> po_is_open p) (positions d') = []"
    by (simp add: po' closed_position_fields)
  have fk: "find_api_key d' ''trader'' ''binance'' ''futures'' ''mainnet'' = Some demo_api_key"
    by (simp add: find_api_key_def ak' demo_api_key_def)
  have sc: "sc_user_id demo_strategy = ''trader''" "sc_exchange demo_strategy = ''binance''"
    "sc_product demo_strategy = ''futures''" "sc_environment demo_strategy = ''mainnet''"
    "sc_last_signal_at demo_strategy = None" "sc_max_positions demo_strategy = 5"
    "cf_max_daily_loss (sc_strategy_config demo_strategy) = Some 100"
    "cf_max_trades_per_day (sc_strategy_config demo_strategy) = None"
    "cf_max_consecutive_losses (sc_strategy_config demo_strategy) = None"
    "cf_cooldown_minutes (sc_strategy_config demo_strategy) = None"
    "isWithinTradingSession (sc_strategy_config demo_strategy) 36000000"
    by (simp_all add: demo_strategy_def isWithinTradingSession_def)
  have g1: "riskGate demo_strategy 36000000 d' = Proceed demo_api_key"
    unfolding riskGate_def Let_def
    using gas by (simp add: sc getConfigNumber_def pnl1 dt1 fk bo' bots open')
  from day pnl0 g0 out pnl1 g1 show ?thesis
    unfolding d_def by simp
qed

end
